theory Spec2Isabelle
  imports Complex_Main
begin

section \<open>Data model\<close>

text \<open>
  A shallow embedding of \<^verbatim>\<open>pennylane/qnode.py\<close> (class \<^verbatim>\<open>QNode\<close>) and
  \<^verbatim>\<open>pennylane/_device.py\<close> (class \<^verbatim>\<open>Device\<close>).

  Conventions of the embedding:
  \<^item> Python exceptions are values of \<open>error\<close>; a method that may raise returns
    \<open>error + 'a\<close>, and a method that also mutates state returns the result paired with
    the state it leaves behind, \<^emph>\<open>also when it raises\<close>.
  \<^item> Operation objects are mutable and shared between \<^verbatim>\<open>self.queue\<close>,
    \<^verbatim>\<open>self.ev\<close> and \<^verbatim>\<open>self.ops\<close>; they live in an object store
    (\<open>heap\<close>, addressed by position) and the three lists hold addresses.
  \<^item> numpy floats are idealised as \<open>real\<close>. The reals have no \<^verbatim>\<open>nan\<close> and no
    \<^verbatim>\<open>inf\<close>: where numpy fills a result with them without raising (the quotient
    by a step \<^verbatim>\<open>h = 0\<close> in \<^verbatim>\<open>_pd_finite_diff\<close>), the model gives the value
    \<open>NonFinite\<close> of \<open>error\<close>, and what the code goes on to do with such a result
    is outside the model.
  \<^item> Nested argument structures are represented by their flattening
    (\<^verbatim>\<open>_flatten\<close>/\<^verbatim>\<open>unflatten\<close> of \<^verbatim>\<open>pennylane.utils\<close>), and the
    quantum function takes no keyword arguments.
\<close>

datatype error =
    QuantumFunctionError | DeviceError | ValueError | IndexError | KeyError
  | TypeError | AssertionError | AttributeError | ZeroDivisionError
  | NonFinite | OtherError nat

datatype return_type = Expectation | Variance | Sample

text \<open>The values of \<^verbatim>\<open>op.grad_method\<close>: \<^verbatim>\<open>'A'\<close>, \<^verbatim>\<open>'F'\<close>, \<^verbatim>\<open>'A2'\<close>;
  Python's \<^verbatim>\<open>None\<close> is \<open>None\<close> of the option type.\<close>

datatype grad_method = GradA | GradF | GradA2

text \<open>Modelled from the spec: class \<^verbatim>\<open>Variable\<close> of \<^verbatim>\<open>pennylane/variable.py\<close>
  (section 3, ParameterSlot: \<open>idx\<close>, optional \<open>name\<close>, multiplicative scale \<open>mult\<close>).\<close>

record variable =
  idx :: nat
  name :: "string option"
  mult :: real

text \<open>An entry of \<^verbatim>\<open>op.params\<close>: a number, a \<^verbatim>\<open>Variable\<close>, or an array
  (a matrix given by its rows).\<close>

datatype param = Num real | Var variable | Mat "real list list"

text \<open>The attributes of an \<^verbatim>\<open>Operation\<close> instance that the two modules read.
  \<open>is_observable\<close>, \<open>is_cv\<close> and \<open>is_identity\<close> are the results of the
  \<^verbatim>\<open>isinstance\<close> tests against \<^verbatim>\<open>Observable\<close>, \<^verbatim>\<open>CV\<close> and
  \<^verbatim>\<open>pennylane.ops.Identity\<close>; \<open>num_samples = None\<close> is a missing attribute.\<close>

record operation =
  op_name :: string
  is_observable :: bool
  is_cv :: bool
  is_identity :: bool
  wires :: "int list"
  params :: "param list"
  return_type :: "return_type option"
  grad_method :: "grad_method option"
  grad_recipe :: "(real \<times> real) option list"
  supports_heisenberg :: bool
  ev_order :: "int option"
  num_samples :: "nat option"

text \<open>A resolved parameter, as \<^verbatim>\<open>op.parameters\<close> hands it to the device.\<close>

datatype pvalue = PNum real | PMat "real list list"

text \<open>One entry of the device's \<^verbatim>\<open>results\<close> list: a float from \<^verbatim>\<open>expval\<close> or
  \<^verbatim>\<open>var\<close>, or an array of samples.\<close>

datatype mresult = Val real | Samples "real list"

section \<open>The device (\<^verbatim>\<open>_device.py\<close>)\<close>

text \<open>The instance attributes set by \<^verbatim>\<open>Device.__init__\<close>, and the state \<open>backend\<close>
  of the concrete plugin.\<close>

record 'b device =
  d_num_wires :: int
  d_shots :: int
  d_op_queue :: "operation list option"
  d_obs_queue :: "operation list option"
  d_parameters :: "(nat \<times> (nat \<times> nat) list) list option"
  backend :: 'b

text \<open>The abstract properties and methods a plugin implements, and the hooks it may
  override. They act on the plugin's own state.\<close>

record 'b plugin =
  operations :: "string list"
  observables :: "string list"
  p_reset :: "'b \<Rightarrow> 'b"
  p_apply :: "string \<Rightarrow> int list \<Rightarrow> pvalue list \<Rightarrow> 'b \<Rightarrow> error + 'b"
  p_expval :: "string \<Rightarrow> int list \<Rightarrow> pvalue list \<Rightarrow> 'b \<Rightarrow> error + real"
  p_var :: "string \<Rightarrow> int list \<Rightarrow> pvalue list \<Rightarrow> 'b \<Rightarrow> error + real"
  p_sample :: "string \<Rightarrow> int list \<Rightarrow> pvalue list \<Rightarrow> nat \<Rightarrow> 'b \<Rightarrow> error + real list"
  pre_apply :: "'b \<Rightarrow> error + 'b"
  post_apply :: "'b \<Rightarrow> error + 'b"
  pre_measure :: "'b \<Rightarrow> error + 'b"
  post_measure :: "'b \<Rightarrow> error + 'b"

definition Device_init :: "int \<Rightarrow> int \<Rightarrow> 'b \<Rightarrow> 'b device" where
  "Device_init wires_n shots_n b =
     \<lparr>d_num_wires = wires_n, d_shots = shots_n, d_op_queue = None, d_obs_queue = None,
      d_parameters = None, backend = b\<rparr>"

text \<open>The three properties of lines 251-297.\<close>

definition op_queue :: "'b device \<Rightarrow> error + operation list" where
  "op_queue d = (case d_op_queue d of None \<Rightarrow> Inl ValueError | Some q \<Rightarrow> Inr q)"

definition obs_queue :: "'b device \<Rightarrow> error + operation list" where
  "obs_queue d = (case d_obs_queue d of None \<Rightarrow> Inl ValueError | Some q \<Rightarrow> Inr q)"

definition parameters :: "'b device \<Rightarrow> error + (nat \<times> (nat \<times> nat) list) list" where
  "parameters d = (case d_parameters d of None \<Rightarrow> Inl ValueError | Some q \<Rightarrow> Inr q)"

definition check_validity :: "'b plugin \<Rightarrow> operation list \<Rightarrow> operation list \<Rightarrow> error + unit" where
  "check_validity P q obs =
     (if list_ex (\<lambda>o'. op_name o' \<notin> set (operations P)) q then Inl DeviceError
      else if list_ex (\<lambda>o'. op_name o' \<notin> set (observables P)) obs then Inl DeviceError
      else Inr ())"

text \<open>Modelled from the spec: \<^verbatim>\<open>Variable.val\<close> (section 4.1, resolve):
  \<open>free_values[idx] * mult\<close> for a slot without a name. A named slot reads
  \<^verbatim>\<open>kwarg_values[name]\<close>, which is the empty dictionary here (no keyword arguments).\<close>

definition val :: "real list \<Rightarrow> variable \<Rightarrow> error + real" where
  "val fpv v =
     (case name v of
        None \<Rightarrow> (if idx v < length fpv then Inr (fpv ! idx v * mult v) else Inl IndexError)
      | Some nm \<Rightarrow> Inl KeyError)"

text \<open>Modelled from the spec: the property \<^verbatim>\<open>Operation.parameters\<close>
  (\<^verbatim>\<open>pennylane/operation.py\<close>): the parameters with every Variable resolved against
  the current binding.\<close>

fun resolve_params :: "real list \<Rightarrow> param list \<Rightarrow> error + pvalue list" where
  "resolve_params fpv [] = Inr []"
| "resolve_params fpv (Num x # ps) =
     (case resolve_params fpv ps of Inl e \<Rightarrow> Inl e | Inr vs \<Rightarrow> Inr (PNum x # vs))"
| "resolve_params fpv (Mat m # ps) =
     (case resolve_params fpv ps of Inl e \<Rightarrow> Inl e | Inr vs \<Rightarrow> Inr (PMat m # vs))"
| "resolve_params fpv (Var v # ps) =
     (case val fpv v of
        Inl e \<Rightarrow> Inl e
      | Inr x \<Rightarrow> (case resolve_params fpv ps of Inl e \<Rightarrow> Inl e | Inr vs \<Rightarrow> Inr (PNum x # vs)))"

text \<open>The loop \<^verbatim>\<open>for operation in queue: self.apply(...)\<close> of \<^verbatim>\<open>execute\<close>.\<close>

fun apply_all :: "'b plugin \<Rightarrow> real list \<Rightarrow> operation list \<Rightarrow> 'b \<Rightarrow> error + 'b" where
  "apply_all P fpv [] b = Inr b"
| "apply_all P fpv (operation # rest) b =
     (case resolve_params fpv (params operation) of
        Inl e \<Rightarrow> Inl e
      | Inr vs \<Rightarrow>
         (case p_apply P (op_name operation) (wires operation) vs b of
            Inl e \<Rightarrow> Inl e
          | Inr b' \<Rightarrow> apply_all P fpv rest b'))"

text \<open>The loop \<^verbatim>\<open>for obs in observables\<close> of \<^verbatim>\<open>execute\<close>. The last
  \<^verbatim>\<open>elif obs.return_type is not None\<close> has no case left among the three return
  types; an observable without a return type adds nothing to \<^verbatim>\<open>results\<close>.\<close>

fun measure_all :: "'b plugin \<Rightarrow> real list \<Rightarrow> operation list \<Rightarrow> 'b \<Rightarrow> error + mresult list" where
  "measure_all P fpv [] b = Inr []"
| "measure_all P fpv (obs # rest) b =
     (case return_type obs of
        None \<Rightarrow> measure_all P fpv rest b
      | Some Expectation \<Rightarrow>
         (case resolve_params fpv (params obs) of
            Inl e \<Rightarrow> Inl e
          | Inr vs \<Rightarrow>
             (case p_expval P (op_name obs) (wires obs) vs b of
                Inl e \<Rightarrow> Inl e
              | Inr x \<Rightarrow>
                 (case measure_all P fpv rest b of Inl e \<Rightarrow> Inl e | Inr rs \<Rightarrow> Inr (Val x # rs))))
      | Some Variance \<Rightarrow>
         (case resolve_params fpv (params obs) of
            Inl e \<Rightarrow> Inl e
          | Inr vs \<Rightarrow>
             (case p_var P (op_name obs) (wires obs) vs b of
                Inl e \<Rightarrow> Inl e
              | Inr x \<Rightarrow>
                 (case measure_all P fpv rest b of Inl e \<Rightarrow> Inl e | Inr rs \<Rightarrow> Inr (Val x # rs))))
      | Some Sample \<Rightarrow>
         (case num_samples obs of
            None \<Rightarrow> Inl DeviceError
          | Some n \<Rightarrow>
             (case resolve_params fpv (params obs) of
                Inl e \<Rightarrow> Inl e
              | Inr vs \<Rightarrow>
                 (case p_sample P (op_name obs) (wires obs) vs n b of
                    Inl e \<Rightarrow> Inl e
                  | Inr xs \<Rightarrow>
                     (case measure_all P fpv rest b of
                        Inl e \<Rightarrow> Inl e
                      | Inr rs \<Rightarrow> Inr (Samples xs # rs))))))"

text \<open>The body of the \<^verbatim>\<open>with self.execution_context()\<close> block up to
  \<^verbatim>\<open>self.post_measure()\<close>, on the plugin's state. The default context manager does
  nothing and lets exceptions through.\<close>

definition run_device :: "'b plugin \<Rightarrow> real list \<Rightarrow> operation list \<Rightarrow> operation list \<Rightarrow> 'b
    \<Rightarrow> error + (mresult list \<times> 'b)" where
  "run_device P fpv q obs b =
     (case pre_apply P b of
        Inl e \<Rightarrow> Inl e
      | Inr b1 \<Rightarrow>
         (case apply_all P fpv q b1 of
            Inl e \<Rightarrow> Inl e
          | Inr b2 \<Rightarrow>
             (case post_apply P b2 of
                Inl e \<Rightarrow> Inl e
              | Inr b3 \<Rightarrow>
                 (case pre_measure P b3 of
                    Inl e \<Rightarrow> Inl e
                  | Inr b4 \<Rightarrow>
                     (case measure_all P fpv obs b4 of
                        Inl e \<Rightarrow> Inl e
                      | Inr rs \<Rightarrow>
                         (case post_measure P b4 of
                            Inl e \<Rightarrow> Inl e
                          | Inr b5 \<Rightarrow> Inr (rs, b5)))))))"

text \<open>The first four statements of \<^verbatim>\<open>execute\<close> after \<^verbatim>\<open>check_validity\<close>.\<close>

definition set_queues :: "operation list \<Rightarrow> operation list \<Rightarrow> (nat \<times> (nat \<times> nat) list) list
    \<Rightarrow> 'b device \<Rightarrow> 'b device" where
  "set_queues q obs pars d =
     d\<lparr>d_op_queue := Some q, d_obs_queue := Some obs, d_parameters := Some pars\<rparr>"

text \<open>\<^verbatim>\<open>Device.execute\<close> (lines 188-249). \<open>fpv\<close> is the class attribute
  \<^verbatim>\<open>Variable.free_param_values\<close> that \<^verbatim>\<open>operation.parameters\<close> reads. When the
  block raises, the three attributes keep the values set at the start, and the plugin state
  is the one before the call.\<close>

definition execute :: "'b plugin \<Rightarrow> real list \<Rightarrow> operation list \<Rightarrow> operation list
    \<Rightarrow> (nat \<times> (nat \<times> nat) list) list \<Rightarrow> 'b device \<Rightarrow> (error + mresult list) \<times> 'b device" where
  "execute P fpv q obs pars d =
     (case check_validity P q obs of
        Inl e \<Rightarrow> (Inl e, d)
      | Inr u \<Rightarrow>
         (let d1 = set_queues q obs pars d in
          case run_device P fpv q obs (backend d1) of
            Inl e \<Rightarrow> (Inl e, d1)
          | Inr (rs, b) \<Rightarrow>
             (Inr rs, d1\<lparr>d_op_queue := None, d_obs_queue := None, d_parameters := None,
                         backend := b\<rparr>)))"

section \<open>The quantum node (\<^verbatim>\<open>qnode.py\<close>)\<close>

text \<open>
  The quantum function \<^verbatim>\<open>self.func\<close> is user code. What \<^verbatim>\<open>construct\<close>
  sees of one run of it is the sequence of operation objects it instantiates (each
  constructor hands the new object to \<^verbatim>\<open>QNode._current_context._append_op\<close> unless
  \<^verbatim>\<open>do_queue=False\<close>; a measured observable arrives there with its return type set),
  an exception it may raise, and the value it returns. \<open>Ref k\<close> is the \<open>k\<close>-th
  operation object instantiated during the run; \<open>NotAnOperation\<close> is any other Python
  value.
\<close>

datatype action = Construct operation bool | Raise error

datatype pyval = Ref nat | NotAnOperation

datatype retval = Single pyval | Sequence "pyval list"

datatype conversion = Squeeze | Float | AsArray

datatype circuit_type = CV | Qubit

datatype only = OnlyG | OnlyE | OnlyNone

text \<open>
  The state the node's methods read and write: the object store, the class attributes
  \<^verbatim>\<open>QNode._current_context\<close> and \<^verbatim>\<open>Variable.free_param_values\<close>, the node's
  instance attributes (\<open>circuit_type\<close> is \<^verbatim>\<open>self.type\<close>) and its device.
  \<open>construct_calls\<close> and \<open>evaluate_log\<close> are history variables, not attributes of the
  program: the number of calls of \<^verbatim>\<open>construct\<close> so far, and the argument vectors of
  the calls of \<^verbatim>\<open>evaluate\<close> so far, in order.
\<close>

record 'b world =
  heap :: "operation list"
  current_context :: "nat option"
  free_param_values :: "real list"
  node_id :: nat
  func :: "variable list \<Rightarrow> action list \<times> retval"
  device :: "'b device"
  num_wires :: int
  num_variables :: "nat option"
  ops :: "nat list"
  cache :: bool
  variable_ops :: "(nat \<times> (nat \<times> nat) list) list"
  queue :: "nat list"
  ev :: "nat list"
  output_conversion :: "conversion option"
  output_dim :: nat
  circuit_type :: "circuit_type option"
  grad_method_for_par :: "(nat \<times> grad_method option) list"
  construct_calls :: nat
  evaluate_log :: "real list list"

text \<open>\<^verbatim>\<open>QNode.__init__\<close>, in a fresh interpreter.\<close>

definition QNode_init :: "nat \<Rightarrow> (variable list \<Rightarrow> action list \<times> retval) \<Rightarrow> 'b device \<Rightarrow> bool
    \<Rightarrow> 'b world" where
  "QNode_init i f d c =
     \<lparr>heap = [], current_context = None, free_param_values = [], node_id = i, func = f,
      device = d, num_wires = d_num_wires d, num_variables = None, ops = [], cache = c,
      variable_ops = [], queue = [], ev = [], output_conversion = None, output_dim = 0,
      circuit_type = None, grad_method_for_par = [], construct_calls = 0,
      evaluate_log = []\<rparr>"

text \<open>\<^verbatim>\<open>QNode._append_op\<close> (lines 257-272); \<open>a\<close> is the address of \<^verbatim>\<open>op\<close>.\<close>

definition append_op :: "nat \<Rightarrow> 'b world \<Rightarrow> (error + unit) \<times> 'b world" where
  "append_op a w =
     (if is_observable (heap w ! a) then
        (if return_type (heap w ! a) = None then (Inr (), w\<lparr>queue := queue w @ [a]\<rparr>)
         else (Inr (), w\<lparr>ev := ev w @ [a]\<rparr>))
      else if ev w \<noteq> [] then (Inl QuantumFunctionError, w)
      else (Inr (), w\<lparr>queue := queue w @ [a]\<rparr>))"

text \<open>One run of the quantum function inside the context: every instantiated operation is
  allocated, and queued unless \<^verbatim>\<open>do_queue=False\<close>; the first exception ends the run.\<close>

fun run_actions :: "action list \<Rightarrow> 'b world \<Rightarrow> (error + unit) \<times> 'b world" where
  "run_actions [] w = (Inr (), w)"
| "run_actions (Raise e # rest) w = (Inl e, w)"
| "run_actions (Construct operation do_queue # rest) w =
     (let a = length (heap w); w1 = w\<lparr>heap := heap w @ [operation]\<rparr> in
      if do_queue then
        (case append_op a w1 of
           (Inl e, w2) \<Rightarrow> (Inl e, w2)
         | (Inr u, w2) \<Rightarrow> run_actions rest w2)
      else run_actions rest w1)"

text \<open>\<^verbatim>\<open>isinstance(x, pennylane.operation.Observable)\<close> for a returned value;
  \<open>base\<close> is the address of the first object of the run.\<close>

fun is_obs_val :: "'b world \<Rightarrow> nat \<Rightarrow> pyval \<Rightarrow> bool" where
  "is_obs_val w base (Ref k) = (base + k < length (heap w) \<and> is_observable (heap w ! (base + k)))"
| "is_obs_val w base NotAnOperation = False"

fun addr_of :: "nat \<Rightarrow> pyval \<Rightarrow> nat" where
  "addr_of base (Ref k) = base + k"
| "addr_of base NotAnOperation = base"

text \<open>The return validation of \<^verbatim>\<open>construct\<close> (lines 351-374): the tuple
  \<^verbatim>\<open>res\<close> as a list of addresses, or the error.\<close>

definition validate_result :: "nat \<Rightarrow> retval \<Rightarrow> 'b world \<Rightarrow> (error + nat list) \<times> 'b world" where
  "validate_result base r w =
     (case r of
        Single v \<Rightarrow>
          (if is_obs_val w base v then
             (Inr [addr_of base v],
              w\<lparr>output_conversion :=
                   Some (if return_type (heap w ! addr_of base v) = Some Sample then Squeeze
                         else Float),
                 output_dim := 1\<rparr>)
           else (Inl QuantumFunctionError, w))
      | Sequence vs \<Rightarrow>
          (if vs \<noteq> [] \<and> list_all (is_obs_val w base) vs then
             (Inr (map (addr_of base) vs),
              w\<lparr>output_conversion := Some AsArray, output_dim := length vs\<rparr>)
           else (Inl QuantumFunctionError, w)))"

text \<open>The classification of lines 390-398.\<close>

definition classify :: "operation list \<Rightarrow> error + circuit_type" where
  "classify os =
     (let temp = map is_cv (filter (\<lambda>operation. \<not> is_identity operation) os) in
      if list_all (\<lambda>t. t) temp then Inr CV
      else if True \<notin> set temp then Inr Qubit
      else Inl QuantumFunctionError)"

text \<open>\<^verbatim>\<open>_flatten(op.params)\<close>: an array contributes its elements.\<close>

fun flatten_params :: "param list \<Rightarrow> param list" where
  "flatten_params [] = []"
| "flatten_params (Mat m # ps) = map Num (concat m) @ flatten_params ps"
| "flatten_params (Num x # ps) = Num x # flatten_params ps"
| "flatten_params (Var v # ps) = Var v # flatten_params ps"

text \<open>\<^verbatim>\<open>d.setdefault(k, []).append(s)\<close> on a dictionary kept in insertion order.\<close>

fun setdefault_append :: "(nat \<times> (nat \<times> nat) list) list \<Rightarrow> nat \<Rightarrow> nat \<times> nat
    \<Rightarrow> (nat \<times> (nat \<times> nat) list) list" where
  "setdefault_append [] k s = [(k, [s])]"
| "setdefault_append ((k', ss) # rest) k s =
     (if k' = k then (k', ss @ [s]) # rest else (k', ss) # setdefault_append rest k s)"

text \<open>The two loops of lines 403-408.\<close>

fun scan_params :: "nat \<Rightarrow> nat \<Rightarrow> param list \<Rightarrow> (nat \<times> (nat \<times> nat) list) list
    \<Rightarrow> (nat \<times> (nat \<times> nat) list) list" where
  "scan_params k i [] vo = vo"
| "scan_params k i (Var v # ps) vo =
     scan_params k (Suc i) ps
       (if name v = None then setdefault_append vo (idx v) (k, i) else vo)"
| "scan_params k i (Num x # ps) vo = scan_params k (Suc i) ps vo"
| "scan_params k i (Mat m # ps) vo = scan_params k (Suc i) ps vo"

fun scan_ops :: "nat \<Rightarrow> operation list \<Rightarrow> (nat \<times> (nat \<times> nat) list) list
    \<Rightarrow> (nat \<times> (nat \<times> nat) list) list" where
  "scan_ops k [] vo = vo"
| "scan_ops k (operation # rest) vo =
     scan_ops (Suc k) rest (scan_params k 0 (flatten_params (params operation)) vo)"

text \<open>\<^verbatim>\<open>QNode._op_successors\<close> (lines 413-442), as addresses.\<close>

definition op_successors :: "'b world \<Rightarrow> nat \<Rightarrow> only \<Rightarrow> nat list" where
  "op_successors w o_idx only' =
     (let succ = drop (o_idx + 1) (ops w) in
      case only' of
        OnlyE \<Rightarrow> filter (\<lambda>x. is_observable (heap w ! x)) succ
      | OnlyG \<Rightarrow> filter (\<lambda>x. \<not> is_observable (heap w ! x)) succ
      | OnlyNone \<Rightarrow> succ)"

text \<open>The loop over \<^verbatim>\<open>ev_successors\<close> in \<^verbatim>\<open>best_for_op\<close> (lines 494-503);
  \<open>a\<close> is the address of \<^verbatim>\<open>op\<close>, whose attribute \<^verbatim>\<open>grad_method\<close> the loop
  overwrites.\<close>

fun ev_loop :: "nat \<Rightarrow> operation list \<Rightarrow> 'b world \<Rightarrow> grad_method option \<times> 'b world" where
  "ev_loop a [] w = (Some GradA, w)"
| "ev_loop a (x # xs) w =
     (if ev_order x = None then (Some GradF, w)
      else if ev_order x = Some 2 then
        (if return_type x = Some Variance then (Some GradF, w)
         else ev_loop a xs (w\<lparr>heap := (heap w)[a := (heap w ! a)\<lparr>grad_method := Some GradA2\<rparr>]\<rparr>))
      else ev_loop a xs w)"

text \<open>\<^verbatim>\<open>best_for_op\<close> (lines 476-507). \<^verbatim>\<open>_best_method\<close> is only called by
  \<^verbatim>\<open>construct\<close>, with indices it has just read off \<^verbatim>\<open>self.ops\<close>.\<close>

definition best_for_op :: "nat \<Rightarrow> 'b world \<Rightarrow> grad_method option \<times> 'b world" where
  "best_for_op o_idx w =
     (let a = ops w ! o_idx; operation = heap w ! a in
      if \<not> is_cv operation then (grad_method operation, w)
      else if grad_method operation = Some GradA then
        (if list_all (\<lambda>x. supports_heisenberg (heap w ! x)) (op_successors w o_idx OnlyG) then
           ev_loop a (map (\<lambda>x. heap w ! x) (op_successors w o_idx OnlyE)) w
         else (Some GradF, w))
      else (grad_method operation, w))"

text \<open>The list comprehension \<^verbatim>\<open>temp = [best_for_op(k) for k, _ in ops]\<close>.\<close>

fun best_for_ops :: "(nat \<times> nat) list \<Rightarrow> 'b world \<Rightarrow> grad_method option list \<times> 'b world" where
  "best_for_ops [] w = ([], w)"
| "best_for_ops ((k, p) # rest) w =
     (case best_for_op k w of
        (m, w1) \<Rightarrow> (case best_for_ops rest w1 of (ms, w2) \<Rightarrow> (m # ms, w2)))"

text \<open>\<^verbatim>\<open>self.variable_ops[idx]\<close> for an index that is a key.\<close>

definition sites_of :: "'b world \<Rightarrow> nat \<Rightarrow> (nat \<times> nat) list" where
  "sites_of w i = (case map_of (variable_ops w) i of None \<Rightarrow> [] | Some ss \<Rightarrow> ss)"

text \<open>\<^verbatim>\<open>QNode._best_method\<close> (lines 444-517).\<close>

definition best_method :: "nat \<Rightarrow> 'b world \<Rightarrow> grad_method option \<times> 'b world" where
  "best_method i w =
     (case best_for_ops (sites_of w i) w of
        (temp, w1) \<Rightarrow>
          (if list_all (\<lambda>k. k = Some GradA) temp then (Some GradA, w1)
           else if None \<in> set temp then (None, w1)
           else (Some GradF, w1)))"

text \<open>The dictionary comprehension of line 411, over the keys in insertion order.\<close>

fun best_methods :: "nat list \<Rightarrow> 'b world \<Rightarrow> (nat \<times> grad_method option) list \<times> 'b world" where
  "best_methods [] w = ([], w)"
| "best_methods (k # ks) w =
     (case best_method k w of
        (m, w1) \<Rightarrow> (case best_methods ks w1 of (rest, w2) \<Rightarrow> ((k, m) # rest, w2)))"

text \<open>\<^verbatim>\<open>construct\<close> after the \<^verbatim>\<open>try/finally\<close> block (lines 348-411), for the
  value \<open>r\<close> the quantum function returned.\<close>

definition finish_construct :: "nat \<Rightarrow> retval \<Rightarrow> 'b world \<Rightarrow> (error + unit) \<times> 'b world" where
  "finish_construct base r w =
     (case validate_result base r w of
        (Inl e, w1) \<Rightarrow> (Inl e, w1)
      | (Inr res, w1) \<Rightarrow>
          (if list_ex (\<lambda>x. return_type (heap w1 ! x) = None) res then
             (Inl QuantumFunctionError, w1)
           else if res \<noteq> ev w1 then (Inl QuantumFunctionError, w1)
           else
             (let w2 = w1\<lparr>ev := res, ops := queue w1 @ res\<rparr> in
              case classify (map (\<lambda>x. heap w2 ! x) (ops w2)) of
                Inl e \<Rightarrow> (Inl e, w2)
              | Inr t \<Rightarrow>
                  (let w3 = w2\<lparr>circuit_type := Some t\<rparr>;
                       w4 = w3\<lparr>variable_ops := scan_ops 0 (map (\<lambda>x. heap w3 ! x) (ops w3)) []\<rparr>
                   in case best_methods (map fst (variable_ops w4)) w4 of
                        (gm, w5) \<Rightarrow> (Inr (), w5\<lparr>grad_method_for_par := gm\<rparr>)))))"

text \<open>The Variables \<^verbatim>\<open>temp\<close> of line 301, one per flattened argument.\<close>

definition fresh_variables :: "real list \<Rightarrow> variable list" where
  "fresh_variables args = map (\<lambda>i. \<lparr>idx = i, name = None, mult = 1\<rparr>) [0..<length args]"

text \<open>\<^verbatim>\<open>construct\<close> up to line 328: the buffers are emptied, the number of variables
  and the binding are stored.\<close>

definition begin_construct :: "real list \<Rightarrow> 'b world \<Rightarrow> 'b world" where
  "begin_construct args w =
     w\<lparr>construct_calls := construct_calls w + 1, queue := [], ev := [],
       num_variables := Some (length (fresh_variables args)), free_param_values := args\<rparr>"

text \<open>Line 332: the node takes the context.\<close>

definition enter_context :: "'b world \<Rightarrow> 'b world" where
  "enter_context w = w\<lparr>current_context := Some (node_id w)\<rparr>"

text \<open>\<^verbatim>\<open>QNode.construct\<close> (lines 274-411) for the flattened arguments \<open>args\<close>.
  The \<^verbatim>\<open>finally\<close> clause is the update \<open>current_context := None\<close> applied to the
  state in which the quantum function stopped, whether it returned or raised.\<close>

definition construct :: "real list \<Rightarrow> 'b world \<Rightarrow> (error + unit) \<times> 'b world" where
  "construct args w =
     (let w3 = begin_construct args w in
      if current_context w3 = None then
        (let w4 = enter_context w3;
             base = length (heap w4)
         in case func w4 (fresh_variables args) of
              (acts, r) \<Rightarrow>
                (case run_actions acts w4 of
                   (Inl e, w5) \<Rightarrow> (Inl e, w5\<lparr>current_context := None\<rparr>)
                 | (Inr u, w5) \<Rightarrow> finish_construct base r (w5\<lparr>current_context := None\<rparr>)))
      else (Inl QuantumFunctionError, w3))"

section \<open>Evaluation\<close>

text \<open>\<^verbatim>\<open>self.output_conversion(ret)\<close>. The results are kept as a list in every case;
  \<^verbatim>\<open>float\<close> accepts an array of one number only.\<close>

definition convert_output :: "conversion \<Rightarrow> mresult list \<Rightarrow> error + mresult list" where
  "convert_output c ret =
     (case c of
        Float \<Rightarrow> (case ret of [Val x] \<Rightarrow> Inr ret | _ \<Rightarrow> Inl TypeError)
      | Squeeze \<Rightarrow> Inr ret
      | AsArray \<Rightarrow> Inr ret)"

text \<open>\<^verbatim>\<open>self.device.reset()\<close>.\<close>

definition reset_device :: "'b plugin \<Rightarrow> 'b world \<Rightarrow> 'b world" where
  "reset_device P w = w\<lparr>device := (device w)\<lparr>backend := p_reset P (backend (device w))\<rparr>\<rparr>"

text \<open>\<^verbatim>\<open>QNode.evaluate\<close> from line 557 on: everything after the decision whether to
  construct the circuit.\<close>

definition run_circuit :: "'b plugin \<Rightarrow> real list \<Rightarrow> 'b world \<Rightarrow> (error + mresult list) \<times> 'b world" where
  "run_circuit P args w =
     (let w1 = w\<lparr>free_param_values := args\<rparr>;
          w2 = reset_device P w1
      in
      if \<not> distinct (concat (map (\<lambda>x. wires (heap w2 ! x)) (ev w2))) then
        (Inl QuantumFunctionError, w2)
      else if list_ex (\<lambda>x. list_ex (\<lambda>wr. wr < 0 \<or> wr \<ge> num_wires w2) (wires (heap w2 ! x)))
                (ops w2) then
        (Inl QuantumFunctionError, w2)
      else
        (case execute P (free_param_values w2) (map (\<lambda>x. heap w2 ! x) (queue w2))
                 (map (\<lambda>x. heap w2 ! x) (ev w2)) (variable_ops w2) (device w2) of
           (Inl e, d) \<Rightarrow> (Inl e, w2\<lparr>device := d\<rparr>)
         | (Inr ret, d) \<Rightarrow>
             (case output_conversion w2 of
                None \<Rightarrow> (Inl AttributeError, w2\<lparr>device := d\<rparr>)
              | Some c \<Rightarrow>
                  (case convert_output c ret of
                     Inl e \<Rightarrow> (Inl e, w2\<lparr>device := d\<rparr>)
                   | Inr r \<Rightarrow> (Inr r, w2\<lparr>device := d\<rparr>)))))"

text \<open>\<^verbatim>\<open>QNode.evaluate\<close> (lines 526-597) on the flattened arguments.\<close>

definition evaluate :: "'b plugin \<Rightarrow> real list \<Rightarrow> 'b world \<Rightarrow> (error + mresult list) \<times> 'b world" where
  "evaluate P args w =
     (let w0 = w\<lparr>evaluate_log := evaluate_log w @ [args]\<rparr> in
      case (if ops w0 = [] \<or> \<not> cache w0 then
              (case num_variables w0 of
                 Some n \<Rightarrow> (if length args = n then construct args w0 else (Inr (), w0))
               | None \<Rightarrow> construct args w0)
            else (Inr (), w0)) of
        (Inl e, w1) \<Rightarrow> (Inl e, w1)
      | (Inr u, w1) \<Rightarrow> run_circuit P args w1)"

text \<open>\<^verbatim>\<open>QNode.evaluate_obs\<close> (lines 599-622); \<open>obs\<close> are objects that were never
  queued.\<close>

definition evaluate_obs :: "'b plugin \<Rightarrow> operation list \<Rightarrow> real list \<Rightarrow> 'b world
    \<Rightarrow> (error + mresult list) \<times> 'b world" where
  "evaluate_obs P obs args w =
     (let w1 = w\<lparr>free_param_values := args\<rparr>;
          w2 = reset_device P w1
      in case execute P (free_param_values w2) (map (\<lambda>x. heap w2 ! x) (queue w2)) obs
                (variable_ops w2) (device w2) of
           (Inl e, d) \<Rightarrow> (Inl e, w2\<lparr>device := d\<rparr>)
         | (Inr ret, d) \<Rightarrow> (Inr ret, w2\<lparr>device := d\<rparr>))"

section \<open>The Jacobian\<close>

text \<open>A numpy value of the gradient code: the Python float \<^verbatim>\<open>0.0\<close> a sum starts
  from, or a one-dimensional array.\<close>

datatype ndarr = Scalar real | Vec "real list"

text \<open>\<^verbatim>\<open>np.asarray\<close> of a circuit value, as an array of floats. The Jacobian code
  rejects circuits with sample observables before it evaluates anything; to arrays of
  samples, which cannot be stored in the float matrix \<^verbatim>\<open>grad\<close>, the model gives
  \<^verbatim>\<open>ValueError\<close> here.\<close>

fun as_vector :: "mresult list \<Rightarrow> error + real list" where
  "as_vector [] = Inr []"
| "as_vector (Val x # rs) = (case as_vector rs of Inl e \<Rightarrow> Inl e | Inr xs \<Rightarrow> Inr (x # xs))"
| "as_vector (Samples xs # rs) = Inl ValueError"

text \<open>\<^verbatim>\<open>pd += v\<close>.\<close>

fun nd_add :: "ndarr \<Rightarrow> real list \<Rightarrow> ndarr" where
  "nd_add (Scalar a) v = Vec (map (\<lambda>x. a + x) v)"
| "nd_add (Vec u) v = Vec (map2 (+) u v)"

text \<open>Broadcasting to length \<open>n\<close>.\<close>

fun bc :: "nat \<Rightarrow> ndarr \<Rightarrow> real list" where
  "bc n (Scalar a) = replicate n a"
| "bc n (Vec v) = v"

text \<open>\<^verbatim>\<open>np.where(c, a, b)\<close> on arrays of one length.\<close>

definition np_where :: "bool list \<Rightarrow> real list \<Rightarrow> real list \<Rightarrow> real list" where
  "np_where c a b = map (\<lambda>(t, x, y). if t then x else y) (zip c (zip a b))"

text \<open>Parts of the operation library that \<^verbatim>\<open>qnode.py\<close> calls and that are not part
  of the two modules, taken as parameters:
  \<^item> \<open>heisenberg_obs_tr op shift_p1 shift_p2 unshifted multiplier successors ev w\<close> is
    \<^verbatim>\<open>list(map(tr_obs, self.ev))\<close> of lines 844-884, the observables transformed by the
    matrix \<^verbatim>\<open>Z\<close> built from the \<^verbatim>\<open>heisenberg_tr\<close> of \<open>op\<close> and of its successors;
  \<^item> \<open>squared_cv_obs binding e\<close> is the observable
    \<^verbatim>\<open>expval(PolyXP(np.kron(A, A.T), w, do_queue=False))\<close> of lines 961-973.\<close>

record library =
  heisenberg_obs_tr :: "operation \<Rightarrow> real list \<Rightarrow> real list \<Rightarrow> real list \<Rightarrow> real
     \<Rightarrow> operation list \<Rightarrow> operation list \<Rightarrow> int \<Rightarrow> error + operation list"
  squared_cv_obs :: "real list \<Rightarrow> operation \<Rightarrow> error + operation"

text \<open>\<^verbatim>\<open>QNode._pd_finite_diff\<close> (lines 751-782). \<open>y0 = None\<close> is Python's
  \<^verbatim>\<open>None\<close>. The quotients of lines 772 and 780 are quotients of numpy values: for
  \<^verbatim>\<open>h = 0\<close> every entry is \<^verbatim>\<open>nan\<close> or \<^verbatim>\<open>\<plusminus>inf\<close> and nothing is raised;
  the model gives \<open>NonFinite\<close> there (an array without entries stays as it is).\<close>

definition pd_finite_diff :: "'b plugin \<Rightarrow> real list \<Rightarrow> nat \<Rightarrow> real \<Rightarrow> int \<Rightarrow> real list option
    \<Rightarrow> 'b world \<Rightarrow> (error + ndarr) \<times> 'b world" where
  "pd_finite_diff P params' i h order' y0 w =
     (if order' = 1 then
        (if i < length params' then
           (case evaluate P (params'[i := params' ! i + h]) w of
              (Inl e, w1) \<Rightarrow> (Inl e, w1)
            | (Inr r, w1) \<Rightarrow>
                (case as_vector r of
                   Inl e \<Rightarrow> (Inl e, w1)
                 | Inr y \<Rightarrow>
                     (case y0 of
                        None \<Rightarrow> (Inl TypeError, w1)
                      | Some y0' \<Rightarrow>
                          (if h = 0 \<and> map2 (-) y y0' \<noteq> [] then (Inl NonFinite, w1)
                           else (Inr (Vec (map (\<lambda>d. d / h) (map2 (-) y y0'))), w1)))))
         else (Inl IndexError, w))
      else if order' = 2 then
        (if i < length params' then
           (case evaluate P (params'[i := params' ! i + 0.5 * h]) w of
              (Inl e, w1) \<Rightarrow> (Inl e, w1)
            | (Inr r2, w1) \<Rightarrow>
                (case as_vector r2 of
                   Inl e \<Rightarrow> (Inl e, w1)
                 | Inr y2 \<Rightarrow>
                     (case evaluate P (params'[i := params' ! i - 0.5 * h]) w1 of
                        (Inl e, w2) \<Rightarrow> (Inl e, w2)
                      | (Inr r1, w2) \<Rightarrow>
                          (case as_vector r1 of
                             Inl e \<Rightarrow> (Inl e, w2)
                           | Inr y1 \<Rightarrow>
                               (if h = 0 \<and> map2 (-) y2 y1 \<noteq> [] then (Inl NonFinite, w2)
                                else (Inr (Vec (map (\<lambda>d. d / h) (map2 (-) y2 y1))), w2))))))
         else (Inl IndexError, w))
      else (Inl ValueError, w))"

text \<open>The two assignments to \<^verbatim>\<open>op.params[p_idx]\<close> of \<^verbatim>\<open>_pd_analytic\<close>
  (lines 819 and 890), on the object at address \<open>a\<close>.\<close>

definition set_param :: "nat \<Rightarrow> nat \<Rightarrow> param \<Rightarrow> 'b world \<Rightarrow> 'b world" where
  "set_param a p_idx v w =
     w\<lparr>heap := (heap w)[a := (heap w ! a)\<lparr>params := (params (heap w ! a))[p_idx := v]\<rparr>]\<rparr>"

text \<open>The loop of \<^verbatim>\<open>QNode._pd_analytic\<close> (lines 808-890) over the use sites of the
  free parameter \<open>i\<close>; \<open>n\<close> and \<open>wn\<close> are \<^verbatim>\<open>self.num_variables\<close> and
  \<^verbatim>\<open>self.num_wires\<close> read before the loop, \<open>fo\<close> is \<^verbatim>\<open>force_order2\<close>.
  Reading \<^verbatim>\<open>.idx\<close> of a parameter that is not a Variable is an
  \<^verbatim>\<open>AttributeError\<close>; dividing the shift by \<^verbatim>\<open>orig.mult = 0\<close> is a
  \<^verbatim>\<open>ZeroDivisionError\<close>. The statement that restores the parameter is the last one of
  the loop body: it is not reached when an earlier statement raises.\<close>

fun pd_sites :: "'b plugin \<Rightarrow> library \<Rightarrow> real list \<Rightarrow> nat \<Rightarrow> bool \<Rightarrow> nat \<Rightarrow> int
    \<Rightarrow> (nat \<times> nat) list \<Rightarrow> ndarr \<Rightarrow> 'b world \<Rightarrow> (error + ndarr) \<times> 'b world" where
  "pd_sites P L params' i fo n wn [] pd w = (Inr pd, w)"
| "pd_sites P L params' i fo n wn ((o_idx, p_idx) # rest) pd w =
     (let a = ops w ! o_idx in
      if p_idx \<ge> length (params (heap w ! a)) then (Inl IndexError, w)
      else
        (case params (heap w ! a) ! p_idx of
           Num x \<Rightarrow> (Inl AttributeError, w)
         | Mat m \<Rightarrow> (Inl AttributeError, w)
         | Var orig \<Rightarrow>
            (if idx orig \<noteq> i then (Inl AssertionError, w)
             else
               (let w1 = set_param a p_idx (Var (orig\<lparr>idx := n\<rparr>)) w in
                if p_idx \<ge> length (grad_recipe (heap w1 ! a)) then (Inl IndexError, w1)
                else
                  (let recipe = grad_recipe (heap w1 ! a) ! p_idx;
                       multiplier = (case recipe of None \<Rightarrow> 0.5 | Some (c, s) \<Rightarrow> c) * mult orig
                   in
                   if mult orig = 0 then (Inl ZeroDivisionError, w1)
                   else
                     (let shift = (case recipe of None \<Rightarrow> pi / 2 | Some (c, s) \<Rightarrow> s) / mult orig
                      in
                      if i \<ge> length params' then (Inl IndexError, w1)
                      else
                        (let shift_p1 = params' @ [params' ! i + shift];
                             shift_p2 = params' @ [params' ! i - shift]
                         in
                         if \<not> fo \<and> grad_method (heap w1 ! a) \<noteq> Some GradA2 then
                           (case evaluate P shift_p1 w1 of
                              (Inl e, w2) \<Rightarrow> (Inl e, w2)
                            | (Inr r2, w2) \<Rightarrow>
                               (case as_vector r2 of
                                  Inl e \<Rightarrow> (Inl e, w2)
                                | Inr y2 \<Rightarrow>
                                   (case evaluate P shift_p2 w2 of
                                      (Inl e, w3) \<Rightarrow> (Inl e, w3)
                                    | (Inr r1, w3) \<Rightarrow>
                                       (case as_vector r1 of
                                          Inl e \<Rightarrow> (Inl e, w3)
                                        | Inr y1 \<Rightarrow>
                                           pd_sites P L params' i fo n wn rest
                                             (nd_add pd (map (\<lambda>d. d * multiplier) (map2 (-) y2 y1)))
                                             (set_param a p_idx (Var orig) w3)))))
                         else
                           (let unshifted_params = params' @ [params' ! i];
                                w2 = w1\<lparr>free_param_values := unshifted_params\<rparr>
                            in
                            case heisenberg_obs_tr L (heap w2 ! a) shift_p1 shift_p2
                                   unshifted_params multiplier
                                   (map (\<lambda>x. heap w2 ! x) (op_successors w2 o_idx OnlyG))
                                   (map (\<lambda>x. heap w2 ! x) (ev w2)) wn of
                              Inl e \<Rightarrow> (Inl e, w2)
                            | Inr obs \<Rightarrow>
                               (case evaluate_obs P obs unshifted_params w2 of
                                  (Inl e, w3) \<Rightarrow> (Inl e, w3)
                                | (Inr r, w3) \<Rightarrow>
                                   (case as_vector r of
                                      Inl e \<Rightarrow> (Inl e, w3)
                                    | Inr temp \<Rightarrow>
                                       pd_sites P L params' i fo n wn rest (nd_add pd temp)
                                         (set_param a p_idx (Var orig) w3)))))))))))"

text \<open>\<^verbatim>\<open>QNode._pd_analytic\<close> (lines 785-892). With \<^verbatim>\<open>self.num_variables\<close> still
  \<^verbatim>\<open>None\<close> the temporary Variable has no index to be resolved at; the model raises
  \<^verbatim>\<open>TypeError\<close> at once.\<close>

definition pd_analytic :: "'b plugin \<Rightarrow> library \<Rightarrow> real list \<Rightarrow> nat \<Rightarrow> bool \<Rightarrow> 'b world
    \<Rightarrow> (error + ndarr) \<times> 'b world" where
  "pd_analytic P L params' i fo w =
     (case num_variables w of
        None \<Rightarrow> (Inl TypeError, w)
      | Some n \<Rightarrow>
         (case map_of (variable_ops w) i of
            None \<Rightarrow> (Inl KeyError, w)
          | Some sites \<Rightarrow> pd_sites P L params' i fo n (num_wires w) sites (Scalar 0) w))"

text \<open>Matrices as lists of rows: \<^verbatim>\<open>A @ A\<close>, \<^verbatim>\<open>np.identity\<close> and
  \<^verbatim>\<open>np.allclose\<close> with its default tolerances.\<close>

definition is_square :: "real list list \<Rightarrow> bool" where
  "is_square m = list_all (\<lambda>r. length r = length m) m"

definition matmul :: "real list list \<Rightarrow> real list list \<Rightarrow> real list list" where
  "matmul m1 m2 = map (\<lambda>r. map (\<lambda>c. sum_list (map2 (\<lambda>x y. x * y) r c)) (transpose m2)) m1"

definition identity :: "nat \<Rightarrow> real list list" where
  "identity n = map (\<lambda>i. map (\<lambda>j. if i = j then 1 else 0) [0..<n]) [0..<n]"

definition allclose :: "real list list \<Rightarrow> real list list \<Rightarrow> bool" where
  "allclose m1 m2 =
     list_all2 (list_all2 (\<lambda>x y. \<bar>x - y\<bar> \<le> 1 / 10 ^ 8 + (1 / 10 ^ 5) * \<bar>y\<bar>)) m1 m2"

text \<open>The loop of \<^verbatim>\<open>QNode._pd_analytic_var\<close> (lines 912-979) over the positions
  \<open>j\<close> of \<^verbatim>\<open>self.ev\<close>; \<open>pdA2\<close> is the local variable of that name, \<open>fo_kw\<close> the
  entry \<^verbatim>\<open>force_order2\<close> of \<^verbatim>\<open>kwargs\<close> if there is one. \<^verbatim>\<open>copy.deepcopy\<close>
  allocates a copy; the new observable \<^verbatim>\<open>Hermitian(A @ A, w)\<close> is an object of the
  class of \<open>e\<close> with the squared matrix as its parameter and return type expectation.
  The list \<^verbatim>\<open>self.ev\<close> is taken not to be rebound while the loop runs (the evaluations
  inside take one argument more than the circuit has variables).\<close>

fun var_loop :: "'b plugin \<Rightarrow> library \<Rightarrow> real list \<Rightarrow> nat \<Rightarrow> bool option \<Rightarrow> nat list
    \<Rightarrow> ndarr \<Rightarrow> 'b world \<Rightarrow> (error + ndarr) \<times> 'b world" where
  "var_loop P L pv k fo_kw [] pdA2 w = (Inr pdA2, w)"
| "var_loop P L pv k fo_kw (j # js) pdA2 w =
     (let e = ev w ! j in
      if return_type (heap w ! e) \<noteq> Some Variance then var_loop P L pv k fo_kw js pdA2 w
      else
        (let w1 = w\<lparr>heap := (heap w)[e := (heap w ! e)\<lparr>return_type := Some Expectation\<rparr>]\<rparr> in
         case circuit_type w1 of
           None \<Rightarrow> (Inl AttributeError, w1)
         | Some Qubit \<Rightarrow>
            (if op_name (heap w1 ! e) = ''Hermitian'' then
               (case params (heap w1 ! e) of
                  [] \<Rightarrow> (Inl IndexError, w1)
                | Num x # ps \<Rightarrow> (Inl TypeError, w1)
                | Var v # ps \<Rightarrow> (Inl TypeError, w1)
                | Mat m # ps \<Rightarrow>
                   (if \<not> is_square m then (Inl ValueError, w1)
                    else if \<not> allclose (matmul m m) (identity (length m)) then
                      (let old = length (heap w1);
                           w2 = w1\<lparr>heap := heap w1 @ [heap w1 ! e]\<rparr>;
                           new = length (heap w2);
                           w3 = w2\<lparr>heap := heap w2 @
                                   [(heap w2 ! e)\<lparr>params := [Mat (matmul m m)],
                                      return_type := Some Expectation, num_samples := None\<rparr>],
                                 ev := (ev w2)[j := new]\<rparr>
                       in case pd_analytic P L pv k (case fo_kw of None \<Rightarrow> False | Some b \<Rightarrow> b) w3 of
                            (Inl er, w4) \<Rightarrow> (Inl er, w4)
                          | (Inr pd, w4) \<Rightarrow>
                              var_loop P L pv k fo_kw js pd (w4\<lparr>ev := (ev w4)[j := old]\<rparr>))
                    else var_loop P L pv k fo_kw js (Scalar 0) w1))
             else var_loop P L pv k fo_kw js (Scalar 0) w1)
         | Some CV \<Rightarrow>
            (let old = length (heap w1);
                 w2 = w1\<lparr>heap := heap w1 @ [heap w1 ! e]\<rparr>
             in case squared_cv_obs L (free_param_values w2) (heap w2 ! e) of
                  Inl er \<Rightarrow> (Inl er, w2)
                | Inr sq \<Rightarrow>
                   (let new = length (heap w2);
                        w3 = w2\<lparr>heap := heap w2 @ [sq], ev := (ev w2)[j := new]\<rparr>
                    in case fo_kw of
                         Some b \<Rightarrow> (Inl TypeError, w3)
                       | None \<Rightarrow>
                          (case pd_analytic P L pv k True w3 of
                             (Inl er, w4) \<Rightarrow> (Inl er, w4)
                           | (Inr pd, w4) \<Rightarrow>
                               var_loop P L pv k fo_kw js pd (w4\<lparr>ev := (ev w4)[j := old]\<rparr>))))))"

text \<open>\<^verbatim>\<open>QNode._pd_analytic_var\<close> (lines 894-1002).\<close>

definition pd_analytic_var :: "'b plugin \<Rightarrow> library \<Rightarrow> real list \<Rightarrow> nat \<Rightarrow> bool option
    \<Rightarrow> 'b world \<Rightarrow> (error + ndarr) \<times> 'b world" where
  "pd_analytic_var P L pv k fo_kw w =
     (let old_ev = [length (heap w)..<length (heap w) + length (ev w)];
          w0 = w\<lparr>heap := heap w @ map (\<lambda>x. heap w ! x) (ev w)\<rparr>;
          where_var = map (\<lambda>x. return_type (heap w0 ! x) = Some Variance) (ev w0)
      in case var_loop P L pv k fo_kw [0..<length (ev w0)] (Scalar 0) w0 of
           (Inl er, w1) \<Rightarrow> (Inl er, w1)
         | (Inr pdA2, w1) \<Rightarrow>
            (let cache' = cache w1 in
             case evaluate P pv (w1\<lparr>cache := True\<rparr>) of
               (Inl er, w2) \<Rightarrow> (Inl er, w2)
             | (Inr r, w2) \<Rightarrow>
                (case as_vector r of
                   Inl er \<Rightarrow> (Inl er, w2)
                 | Inr evA \<Rightarrow>
                    (case pd_analytic P L pv k (case fo_kw of None \<Rightarrow> False | Some b \<Rightarrow> b) w2 of
                       (Inl er, w3) \<Rightarrow> (Inl er, w3)
                     | (Inr pdA, w3) \<Rightarrow>
                        (let m = length where_var in
                         (Inr (Vec (np_where where_var
                                 (map2 (-) (bc m pdA2) (map2 (\<lambda>x y. 2 * x * y) evA (bc m pdA)))
                                 (bc m pdA))),
                          w3\<lparr>ev := old_ev, cache := cache'\<rparr>))))))"

text \<open>The argument \<^verbatim>\<open>method\<close> of \<^verbatim>\<open>jacobian\<close>: \<^verbatim>\<open>'A'\<close>, \<^verbatim>\<open>'F'\<close>,
  \<^verbatim>\<open>'B'\<close>, or anything else.\<close>

datatype jmethod = MethodA | MethodF | MethodB | MethodOther

text \<open>The validation of \<^verbatim>\<open>which\<close> (lines 690-697). \<^verbatim>\<open>min\<close> of an empty
  sequence is a \<^verbatim>\<open>ValueError\<close>; \<^verbatim>\<open>min(which) < 0 or max(which) >= n\<close> says that
  some index is out of range.\<close>

definition check_which :: "real list \<Rightarrow> int list option \<Rightarrow> 'b world \<Rightarrow> error + nat list" where
  "check_which flat_params which w =
     (case which of
        None \<Rightarrow> Inr [0..<length flat_params]
      | Some ws \<Rightarrow>
         (if ws = [] then Inl ValueError
          else
            (case num_variables w of
               None \<Rightarrow> Inl TypeError
             | Some n \<Rightarrow>
                (if list_ex (\<lambda>x. x < 0 \<or> x \<ge> int n) ws then Inl ValueError
                 else if \<not> distinct ws then Inl ValueError
                 else Inr (map nat ws)))))"

text \<open>\<^verbatim>\<open>check_method(m)\<close> (lines 700-703) is non-empty.\<close>

definition check_method :: "'b world \<Rightarrow> grad_method option \<Rightarrow> nat list \<Rightarrow> bool" where
  "check_method w m which' =
     list_ex (\<lambda>km. snd km = m \<and> fst km \<in> set which') (grad_method_for_par w)"

text \<open>The dictionary \<^verbatim>\<open>method\<close> of lines 709-719.\<close>

definition method_dict :: "'b world \<Rightarrow> jmethod \<Rightarrow> nat list
    \<Rightarrow> error + (nat \<times> grad_method option) list" where
  "method_dict w method' which' =
     (case method' of
        MethodA \<Rightarrow>
          (if check_method w (Some GradF) which' then Inl ValueError
           else Inr (map (\<lambda>k. (k, Some GradA)) which'))
      | MethodF \<Rightarrow> Inr (map (\<lambda>k. (k, Some GradF)) which')
      | MethodB \<Rightarrow> Inr (grad_method_for_par w)
      | MethodOther \<Rightarrow> Inl ValueError)"

text \<open>The assignment \<^verbatim>\<open>grad[:, i] = pd\<close> to a column of length \<open>d\<close>.\<close>

fun assign_col :: "nat \<Rightarrow> ndarr \<Rightarrow> error + real list" where
  "assign_col d (Scalar x) = Inr (replicate d x)"
| "assign_col d (Vec v) =
     (if length v = d then Inr v
      else if length v = 1 then Inr (replicate d (hd v))
      else Inl ValueError)"

text \<open>The loop of lines 733-747; the result is the list of the columns of
  \<^verbatim>\<open>grad\<close>, each of length \<open>d\<close> (\<^verbatim>\<open>self.output_dim\<close> when \<^verbatim>\<open>grad\<close> was
  allocated).\<close>

fun jac_loop :: "'b plugin \<Rightarrow> library \<Rightarrow> real list \<Rightarrow> (nat \<times> grad_method option) list
    \<Rightarrow> real \<Rightarrow> int \<Rightarrow> real list option \<Rightarrow> bool \<Rightarrow> bool option \<Rightarrow> nat \<Rightarrow> nat list \<Rightarrow> 'b world
    \<Rightarrow> (error + real list list) \<times> 'b world" where
  "jac_loop P L fp method' h order' y0 variances fo_kw d [] w = (Inr [], w)"
| "jac_loop P L fp method' h order' y0 variances fo_kw d (k # ks) w =
     (case map_of (variable_ops w) k of
        None \<Rightarrow>
          (case jac_loop P L fp method' h order' y0 variances fo_kw d ks w of
             (Inl e, w') \<Rightarrow> (Inl e, w')
           | (Inr cols, w') \<Rightarrow> (Inr (replicate d 0 # cols), w'))
      | Some sites \<Rightarrow>
          (case map_of method' k of
             None \<Rightarrow> (Inl KeyError, w)
           | Some par_method \<Rightarrow>
              (case (if par_method = Some GradA then
                       (if variances then pd_analytic_var P L fp k fo_kw w
                        else pd_analytic P L fp k (case fo_kw of None \<Rightarrow> False | Some b \<Rightarrow> b) w)
                     else if par_method = Some GradF then pd_finite_diff P fp k h order' y0 w
                     else (Inl ValueError, w)) of
                 (Inl e, w1) \<Rightarrow> (Inl e, w1)
               | (Inr pd, w1) \<Rightarrow>
                  (case assign_col d pd of
                     Inl e \<Rightarrow> (Inl e, w1)
                   | Inr col \<Rightarrow>
                      (case jac_loop P L fp method' h order' y0 variances fo_kw d ks w1 of
                         (Inl e, w2) \<Rightarrow> (Inl e, w2)
                       | (Inr cols, w2) \<Rightarrow> (Inr (col # cols), w2))))))"

text \<open>The value \<^verbatim>\<open>y0\<close> of lines 721-726.\<close>

definition compute_y0 :: "'b plugin \<Rightarrow> real list \<Rightarrow> (nat \<times> grad_method option) list \<Rightarrow> int
    \<Rightarrow> 'b world \<Rightarrow> (error + real list option) \<times> 'b world" where
  "compute_y0 P fp method' order' w =
     (if list_ex (\<lambda>km. snd km = Some GradF) method' then
        (if order' = 1 then
           (case evaluate P fp w of
              (Inl e, w1) \<Rightarrow> (Inl e, w1)
            | (Inr r, w1) \<Rightarrow>
               (case as_vector r of Inl e \<Rightarrow> (Inl e, w1) | Inr y \<Rightarrow> (Inr (Some y), w1)))
         else (Inr None, w))
      else (Inr None, w))"

text \<open>\<^verbatim>\<open>QNode.jacobian\<close> (lines 624-749) on the flattened parameters; the matrix is
  returned as the list of its columns.\<close>

definition jacobian :: "'b plugin \<Rightarrow> library \<Rightarrow> real list \<Rightarrow> int list option \<Rightarrow> jmethod \<Rightarrow> real
    \<Rightarrow> int \<Rightarrow> bool option \<Rightarrow> 'b world \<Rightarrow> (error + real list list) \<times> 'b world" where
  "jacobian P L fp which method' h order' fo_kw w =
     (case (if ops w = [] \<or> \<not> cache w then construct fp w else (Inr (), w)) of
        (Inl e, w1) \<Rightarrow> (Inl e, w1)
      | (Inr u, w1) \<Rightarrow>
         (if list_ex (\<lambda>x. return_type (heap w1 ! x) = Some Sample) (ev w1) then
            (Inl QuantumFunctionError, w1)
          else
            (case check_which fp which w1 of
               Inl e \<Rightarrow> (Inl e, w1)
             | Inr which' \<Rightarrow>
                (if check_method w1 None which' then (Inl ValueError, w1)
                 else
                   (case method_dict w1 method' which' of
                      Inl e \<Rightarrow> (Inl e, w1)
                    | Inr md \<Rightarrow>
                       (case compute_y0 P fp md order' w1 of
                          (Inl e, w2) \<Rightarrow> (Inl e, w2)
                        | (Inr y0, w2) \<Rightarrow>
                           jac_loop P L fp md h order' y0
                             (list_ex (\<lambda>x. return_type (heap w2 ! x) = Some Variance) (ev w2))
                             fo_kw (output_dim w2) which' w2))))))"

section \<open>Notions used in the statements\<close>

text \<open>The part of the state that tracing only reads: everything but the object store, the
  buffers and what \<^verbatim>\<open>construct\<close> computes from them.\<close>

definition node_frame :: "'b world \<Rightarrow>
    nat option \<times> nat \<times> real list list \<times> bool \<times> nat option \<times> 'b device \<times> nat \<times> int \<times> real list
    \<times> (variable list \<Rightarrow> action list \<times> retval)" where
  "node_frame w = (current_context w, construct_calls w, evaluate_log w, cache w, num_variables w,
     device w, node_id w, num_wires w, free_param_values w, func w)"

text \<open>The return value \<open>r\<close> of the quantum function is a single measured observable, or
  a non-empty sequence of measured observables, and it lists exactly the objects of the
  observables buffer \<^verbatim>\<open>self.ev\<close>, in the order of the buffer. Objects are compared by
  their addresses.\<close>

definition returned_observables_match :: "nat \<Rightarrow> retval \<Rightarrow> 'b world \<Rightarrow> bool" where
  "returned_observables_match base r w =
     (case r of
        Single v \<Rightarrow>
          is_obs_val w base v \<and> return_type (heap w ! addr_of base v) \<noteq> None \<and>
          ev w = [addr_of base v]
      | Sequence vs \<Rightarrow>
          vs \<noteq> [] \<and> list_all (is_obs_val w base) vs \<and>
          list_all (\<lambda>v. return_type (heap w ! addr_of base v) \<noteq> None) vs \<and>
          ev w = map (addr_of base) vs)"

text \<open>The traced circuit, as \<^verbatim>\<open>evaluate\<close> reads it: the part of the node that the
  gradient code leaves alone or restores.\<close>

record tape =
  t_heap :: "operation list"
  t_ops :: "nat list"
  t_queue :: "nat list"
  t_ev :: "nat list"
  t_conversion :: "conversion option"
  t_num_wires :: int

definition tape_of :: "'b world \<Rightarrow> tape" where
  "tape_of w = \<lparr>t_heap = heap w, t_ops = ops w, t_queue = queue w, t_ev = ev w,
     t_conversion = output_conversion w, t_num_wires = num_wires w\<rparr>"

text \<open>The value of the circuit \<open>t\<close>, as an array of floats, for the binding \<open>fpv\<close> of
  the free parameters, on a device whose plugin is in state \<open>b\<close>, together with the state
  the run leaves: the device is reset, the wires are checked, the operations are applied and
  the observables measured.\<close>

definition circuit_value :: "'b plugin \<Rightarrow> tape \<Rightarrow> real list \<Rightarrow> 'b \<Rightarrow> error + (real list \<times> 'b)" where
  "circuit_value P t fpv b =
     (if \<not> distinct (concat (map (\<lambda>x. wires (t_heap t ! x)) (t_ev t))) then Inl QuantumFunctionError
      else if list_ex (\<lambda>x. list_ex (\<lambda>wr. wr < 0 \<or> wr \<ge> t_num_wires t) (wires (t_heap t ! x)))
                (t_ops t) then Inl QuantumFunctionError
      else
        (case check_validity P (map (\<lambda>x. t_heap t ! x) (t_queue t))
                (map (\<lambda>x. t_heap t ! x) (t_ev t)) of
           Inl e \<Rightarrow> Inl e
         | Inr u \<Rightarrow>
            (case run_device P fpv (map (\<lambda>x. t_heap t ! x) (t_queue t))
                    (map (\<lambda>x. t_heap t ! x) (t_ev t)) (p_reset P b) of
               Inl e \<Rightarrow> Inl e
             | Inr (rs, b1) \<Rightarrow>
                (case t_conversion t of
                   None \<Rightarrow> Inl AttributeError
                 | Some c \<Rightarrow>
                    (case convert_output c rs of
                       Inl e \<Rightarrow> Inl e
                     | Inr r \<Rightarrow>
                        (case as_vector r of Inl e \<Rightarrow> Inl e | Inr y \<Rightarrow> Inr (y, b1)))))))"

text \<open>The circuit \<open>t\<close> with the parameter \<open>p\<close> of the operation at address \<open>a\<close>
  replaced by the number \<open>x\<close>, every other parameter as it is.\<close>

definition with_parameter :: "tape \<Rightarrow> nat \<Rightarrow> nat \<Rightarrow> real \<Rightarrow> tape" where
  "with_parameter t a p x =
     t\<lparr>t_heap := (t_heap t)[a := (t_heap t ! a)\<lparr>params := (params (t_heap t ! a))[p := Num x]\<rparr>]\<rparr>"

text \<open>The Variable at a use site, and the shift recipe \<open>(c, s)\<close> of the operation for
  its parameter \<open>p\<close>: \<^verbatim>\<open>grad_recipe[p]\<close>, or \<open>(1/2, \<pi>/2)\<close> when that is
  \<^verbatim>\<open>None\<close>.\<close>

fun slot :: "param \<Rightarrow> variable" where
  "slot (Var v) = v"
| "slot (Num x) = \<lparr>idx = 0, name = None, mult = 1\<rparr>"
| "slot (Mat m) = \<lparr>idx = 0, name = None, mult = 1\<rparr>"

definition recipe_of :: "operation \<Rightarrow> nat \<Rightarrow> real \<times> real" where
  "recipe_of operation p = (case grad_recipe operation ! p of None \<Rightarrow> (1 / 2, pi / 2) | Some cs \<Rightarrow> cs)"

text \<open>The parameter-shift rule in the words of the specification (section 4.7): for each
  use site \<open>(o_idx, p_idx)\<close> of the free parameter \<open>k\<close>, with recipe \<open>(c, s)\<close> and
  original slot \<open>original\<close>, add \<open>(y_plus - y_minus) * c * mult original\<close>, where
  \<open>y_plus\<close> and \<open>y_minus\<close> are the values of the circuit in which only that site's
  parameter is shifted: the free parameter is \<open>fp ! k \<plusminus> s / mult original\<close> there
  (so the operation receives that value times \<open>mult original\<close>) and \<open>fp ! k\<close>
  everywhere else. The evaluations are made in order, on the device state the previous one
  left.\<close>

fun shift_rule_sum :: "'b plugin \<Rightarrow> tape \<Rightarrow> real list \<Rightarrow> nat \<Rightarrow> (nat \<times> nat) list \<Rightarrow> ndarr \<Rightarrow> 'b
    \<Rightarrow> error + ndarr" where
  "shift_rule_sum P t fp k [] acc b = Inr acc"
| "shift_rule_sum P t fp k ((o_idx, p_idx) # rest) acc b =
     (let a = t_ops t ! o_idx;
          original = slot (params (t_heap t ! a) ! p_idx);
          c = fst (recipe_of (t_heap t ! a) p_idx);
          s = snd (recipe_of (t_heap t ! a) p_idx)
      in case circuit_value P (with_parameter t a p_idx ((fp ! k + s / mult original) * mult original)) fp b of
           Inl e \<Rightarrow> Inl e
         | Inr (y_plus, b1) \<Rightarrow>
            (case circuit_value P (with_parameter t a p_idx ((fp ! k - s / mult original) * mult original)) fp b1 of
               Inl e \<Rightarrow> Inl e
             | Inr (y_minus, b2) \<Rightarrow>
                shift_rule_sum P t fp k rest
                  (nd_add acc (map (\<lambda>d. d * c * mult original) (map2 (-) y_plus y_minus))) b2))"

text \<open>No positional Variable of the circuit has the index \<open>n\<close> (the index of the
  temporary Variable): \<^verbatim>\<open>construct\<close> numbers its Variables \<open>0, ..., n - 1\<close>.\<close>

fun unnamed_not :: "nat \<Rightarrow> param \<Rightarrow> bool" where
  "unnamed_not n (Var v) = (name v \<noteq> None \<or> idx v \<noteq> n)"
| "unnamed_not n (Num x) = True"
| "unnamed_not n (Mat m) = True"

definition no_temp_index :: "tape \<Rightarrow> nat \<Rightarrow> bool" where
  "no_temp_index t n =
     list_all (\<lambda>a. list_all (unnamed_not n) (params (t_heap t ! a))) (t_queue t @ t_ev t)"

text \<open>A use site of the free parameter \<open>k\<close> that is differentiated by the first-order
  rule: it names an operation of the circuit and one of its parameters, which is a
  positional Variable of index \<open>k\<close> with a non-zero scale, and the operation has not been
  marked \<^verbatim>\<open>'A2'\<close>.\<close>

fun site_param_ok :: "nat \<Rightarrow> param \<Rightarrow> bool" where
  "site_param_ok k (Var v) = (idx v = k \<and> name v = None \<and> mult v \<noteq> 0)"
| "site_param_ok k (Num x) = False"
| "site_param_ok k (Mat m) = False"

definition site_ok :: "tape \<Rightarrow> nat \<Rightarrow> nat \<times> nat \<Rightarrow> bool" where
  "site_ok t k site =
     (fst site < length (t_ops t) \<and> t_ops t ! fst site < length (t_heap t) \<and>
      snd site < length (params (t_heap t ! (t_ops t ! fst site))) \<and>
      snd site < length (grad_recipe (t_heap t ! (t_ops t ! fst site))) \<and>
      grad_method (t_heap t ! (t_ops t ! fst site)) \<noteq> Some GradA2 \<and>
      site_param_ok k (params (t_heap t ! (t_ops t ! fst site)) ! snd site))"

text \<open>Two operations that the device cannot tell apart under the bindings \<open>f1\<close> and
  \<open>f2\<close>.\<close>

definition same_run :: "real list \<Rightarrow> real list \<Rightarrow> operation \<Rightarrow> operation \<Rightarrow> bool" where
  "same_run f1 f2 o1 o2 =
     (op_name o1 = op_name o2 \<and> wires o1 = wires o2 \<and> return_type o1 = return_type o2 \<and>
      num_samples o1 = num_samples o2 \<and> resolve_params f1 (params o1) = resolve_params f2 (params o2))"

text \<open>\<^verbatim>\<open>np.asarray(self.evaluate(args))\<close>, and the state after an evaluation that did
  not construct and left the plugin in state \<open>b\<close>.\<close>

definition eval_vec :: "'b plugin \<Rightarrow> real list \<Rightarrow> 'b world \<Rightarrow> (error + real list) \<times> 'b world" where
  "eval_vec P args w =
     (case evaluate P args w of
        (Inl e, w1) \<Rightarrow> (Inl e, w1)
      | (Inr r, w1) \<Rightarrow> (case as_vector r of Inl e \<Rightarrow> (Inl e, w1) | Inr y \<Rightarrow> (Inr y, w1)))"

definition after_run :: "'b world \<Rightarrow> real list \<Rightarrow> 'b \<Rightarrow> 'b world" where
  "after_run w args b =
     w\<lparr>evaluate_log := evaluate_log w @ [args], free_param_values := args,
       device := (device w)\<lparr>d_op_queue := None, d_obs_queue := None, d_parameters := None,
                   backend := b\<rparr>\<rparr>"

text \<open>The node when \<^verbatim>\<open>jacobian\<close> has passed lines 676-678 (the circuit is traced if
  there is none or caching is off); one pass of the loop of lines 733-747, for the
  parameter \<open>k\<close> alone, with the column it assigns; and lines 721-747 of
  \<^verbatim>\<open>jacobian\<close> with the loop run over the requested parameters \<open>pre\<close> only: the
  columns computed for them, and the state in which the loop takes up the parameter that
  follows \<open>pre\<close>.\<close>

definition after_tracing :: "real list \<Rightarrow> 'b world \<Rightarrow> 'b world" where
  "after_tracing fp w = snd (if ops w = [] \<or> \<not> cache w then construct fp w else (Inr (), w))"

fun fst_col :: "(error + real list list) \<times> 'b world \<Rightarrow> (error + real list) \<times> 'b world" where
  "fst_col (Inl e, w) = (Inl e, w)"
| "fst_col (Inr cols, w) = (Inr (hd cols), w)"

definition jac_col :: "'b plugin \<Rightarrow> library \<Rightarrow> real list \<Rightarrow> (nat \<times> grad_method option) list
    \<Rightarrow> real \<Rightarrow> int \<Rightarrow> real list option \<Rightarrow> bool \<Rightarrow> bool option \<Rightarrow> nat \<Rightarrow> nat \<Rightarrow> 'b world
    \<Rightarrow> (error + real list) \<times> 'b world" where
  "jac_col P L fp method' h order' y0 variances fo_kw d k w =
     fst_col (jac_loop P L fp method' h order' y0 variances fo_kw d [k] w)"

definition columns_upto :: "'b plugin \<Rightarrow> library \<Rightarrow> real list \<Rightarrow> (nat \<times> grad_method option) list
    \<Rightarrow> real \<Rightarrow> int \<Rightarrow> bool option \<Rightarrow> nat list \<Rightarrow> 'b world
    \<Rightarrow> (error + real list list) \<times> 'b world" where
  "columns_upto P L fp md h order' fo_kw pre w =
     (case compute_y0 P fp md order' w of
        (Inl e, w2) \<Rightarrow> (Inl e, w2)
      | (Inr y0, w2) \<Rightarrow>
          jac_loop P L fp md h order' y0
            (list_ex (\<lambda>x. return_type (heap w2 ! x) = Some Variance) (ev w2))
            fo_kw (output_dim w2) pre w2)"

section \<open>Example objects\<close>

text \<open>A rotation gate with one parameter (a qubit operation with the analytic hint), and a
  Pauli-Z observable.\<close>

definition RX :: "param \<Rightarrow> int \<Rightarrow> operation" where
  "RX p wire =
     \<lparr>op_name = ''RX'', is_observable = False, is_cv = False, is_identity = False,
      wires = [wire], params = [p], return_type = None, grad_method = Some GradA,
      grad_recipe = [None], supports_heisenberg = False, ev_order = None, num_samples = None\<rparr>"

definition PauliZ :: "int \<Rightarrow> return_type option \<Rightarrow> operation" where
  "PauliZ wire rt =
     \<lparr>op_name = ''PauliZ'', is_observable = True, is_cv = False, is_identity = False,
      wires = [wire], params = [], return_type = rt, grad_method = None,
      grad_recipe = [], supports_heisenberg = False, ev_order = None, num_samples = None\<rparr>"

text \<open>A tracing state in which one measured observable has been queued: the object store
  holds a gate, a measured observable and an observable without return type.\<close>

definition tracing_world :: "unit world" where
  "tracing_world =
     (QNode_init 0 (\<lambda>vs. ([], Sequence [])) (Device_init 1 0 ()) False)
       \<lparr>heap := [RX (Num 0) 0, PauliZ 0 (Some Expectation), PauliZ 0 None],
        current_context := Some 0, ev := [1]\<rparr>"

text \<open>A plugin whose state is the list of the numeric parameters applied since the last
  reset, and whose expectation values are linear in them: the sum of the applied
  parameters, times the sum of the entries of the observable's matrix if it has one.\<close>

fun nums :: "pvalue list \<Rightarrow> real list" where
  "nums [] = []"
| "nums (PNum x # vs) = x # nums vs"
| "nums (PMat m # vs) = nums vs"

fun weight :: "pvalue list \<Rightarrow> real" where
  "weight (PMat m # vs) = sum_list (concat m)"
| "weight vs = 1"

definition linear_plugin :: "real list plugin" where
  "linear_plugin =
     \<lparr>operations = [''RX'', ''CNOT''], observables = [''PauliZ'', ''Hermitian''],
      p_reset = (\<lambda>b. []),
      p_apply = (\<lambda>nm ws vs b. Inr (b @ nums vs)),
      p_expval = (\<lambda>nm ws vs b. Inr (sum_list b * weight vs)),
      p_var = (\<lambda>nm ws vs b. Inr (sum_list b * weight vs)),
      p_sample = (\<lambda>nm ws vs n b. Inr (replicate n 0)),
      pre_apply = Inr, post_apply = Inr, pre_measure = Inr, post_measure = Inr\<rparr>"

text \<open>The quantum function \<^verbatim>\<open>RX(x, wires=[0]); return expval(PauliZ(0))\<close>; called
  without its argument it raises \<^verbatim>\<open>TypeError\<close>.\<close>

definition circuit_rx :: "variable list \<Rightarrow> action list \<times> retval" where
  "circuit_rx vs =
     (case vs of
        [] \<Rightarrow> ([Raise TypeError], Single NotAnOperation)
      | x # rest \<Rightarrow>
          ([Construct (RX (Var x) 0) True, Construct (PauliZ 0 (Some Expectation)) True],
           Single (Ref 1)))"

text \<open>A quantum function that measures wire 1, then wire 0, and returns the two
  observables in the other order; and one that raises after its first gate.\<close>

definition circuit_swapped :: "variable list \<Rightarrow> action list \<times> retval" where
  "circuit_swapped vs =
     ([Construct (PauliZ 1 (Some Expectation)) True, Construct (PauliZ 0 (Some Expectation)) True],
      Sequence [Ref 1, Ref 0])"

definition circuit_raising :: "variable list \<Rightarrow> action list \<times> retval" where
  "circuit_raising vs = ([Construct (RX (Num 0) 0) True, Raise (OtherError 0)], Single NotAnOperation)"

definition example_node :: "(variable list \<Rightarrow> action list \<times> retval) \<Rightarrow> int \<Rightarrow> bool \<Rightarrow> real list world" where
  "example_node f n c = QNode_init 0 f (Device_init n 0 []) c"

text \<open>The state of the node of \<open>circuit_rx\<close> on a one-wire device after its first
  evaluation, at \<open>[1 / 2]\<close> (lemma \<open>evaluate_example_node\<close> below).\<close>

definition traced_node :: "bool \<Rightarrow> real list world" where
  "traced_node c =
     \<lparr>heap = [RX (Var \<lparr>idx = 0, name = None, mult = 1\<rparr>) 0, PauliZ 0 (Some Expectation)],
      current_context = None, free_param_values = [1 / 2], node_id = 0, func = circuit_rx,
      device = \<lparr>d_num_wires = 1, d_shots = 0, d_op_queue = None, d_obs_queue = None,
                d_parameters = None, backend = [1 / 2]\<rparr>,
      num_wires = 1, num_variables = Some 1, ops = [0, 1], cache = c,
      variable_ops = [(0, [(0, 0)])], queue = [0], ev = [1], output_conversion = Some Float,
      output_dim = 1, circuit_type = Some Qubit, grad_method_for_par = [(0, Some GradA)],
      construct_calls = 1, evaluate_log = [[1 / 2]]\<rparr>"

text \<open>Continuous-variable operations: a Gaussian gate, a non-Gaussian gate, and observables
  of first and second order.\<close>

definition Displacement :: "param \<Rightarrow> param \<Rightarrow> int \<Rightarrow> operation" where
  "Displacement a phi wire =
     \<lparr>op_name = ''Displacement'', is_observable = False, is_cv = True, is_identity = False,
      wires = [wire], params = [a, phi], return_type = None, grad_method = Some GradA,
      grad_recipe = [None, None], supports_heisenberg = True, ev_order = None,
      num_samples = None\<rparr>"

definition Kerr :: "param \<Rightarrow> int \<Rightarrow> operation" where
  "Kerr p wire =
     \<lparr>op_name = ''Kerr'', is_observable = False, is_cv = True, is_identity = False,
      wires = [wire], params = [p], return_type = None, grad_method = Some GradF,
      grad_recipe = [None], supports_heisenberg = False, ev_order = None, num_samples = None\<rparr>"

definition cv_observable :: "int option \<Rightarrow> int \<Rightarrow> return_type option \<Rightarrow> operation" where
  "cv_observable ord wire rt =
     \<lparr>op_name = ''PolyXP'', is_observable = True, is_cv = True, is_identity = False,
      wires = [wire], params = [], return_type = rt, grad_method = None,
      grad_recipe = [], supports_heisenberg = True, ev_order = ord, num_samples = None\<rparr>"

text \<open>A traced CV circuit with the operations \<open>os\<close>, whose first operation depends on the
  free parameter 0.\<close>

definition cv_world :: "operation list \<Rightarrow> nat list \<Rightarrow> nat list \<Rightarrow> unit world" where
  "cv_world os q e =
     (QNode_init 0 (\<lambda>vs. ([], Sequence [])) (Device_init 1 0 ()) True)
       \<lparr>heap := os, num_variables := Some 1, ops := q @ e, queue := q, ev := e,
        variable_ops := [(0, [(0, 0)])], circuit_type := Some CV\<rparr>"


text \<open>The Variable of the first free parameter, and four traced CV circuits: a Gaussian
  gate followed by a non-Gaussian one; a Gaussian gate measured by the variance of a
  second-order observable, and by its expectation; a gate that cannot be differentiated.\<close>

definition v0 :: variable where "v0 = \<lparr>idx = 0, name = None, mult = 1\<rparr>"

definition cv_kerr :: "unit world" where
  "cv_kerr = cv_world [Displacement (Var v0) (Num 0) 0, Kerr (Num 1) 0, cv_observable (Some 1) 0 (Some Expectation)] [0, 1] [2]"
definition cv_var2 :: "unit world" where
  "cv_var2 = cv_world [Displacement (Var v0) (Num 0) 0, cv_observable (Some 2) 0 (Some Variance)] [0] [1]"
definition cv_gauss :: "unit world" where
  "cv_gauss = cv_world [Displacement (Var v0) (Num 0) 0, cv_observable (Some 2) 0 (Some Expectation)] [0] [1]"
definition cv_none :: "unit world" where
  "cv_none = cv_world [(Kerr (Var v0) 0)\<lparr>grad_method := None\<rparr>, cv_observable (Some 1) 0 (Some Expectation)] [0] [1]"

text \<open>The quantum function
  \<^verbatim>\<open>Displacement(a, phi, wires=0); return expval(N)\<close>, whose observable \<open>N\<close>
  is of second order; both parameters of the gate are free.\<close>

definition circuit_displacement :: "variable list \<Rightarrow> action list \<times> retval" where
  "circuit_displacement vs =
     (case vs of
        a # phi # rest \<Rightarrow>
          ([Construct (Displacement (Var a) (Var phi) 0) True,
            Construct (cv_observable (Some 2) 0 (Some Expectation)) True],
           Single (Ref 1))
      | _ \<Rightarrow> ([Raise TypeError], Single NotAnOperation))"


text \<open>The quantum function
  \<^verbatim>\<open>RX(2 * x, wires=[0]); G(y, wires=[0]); return expval(PauliZ(0))\<close>, where \<open>G\<close>
  is a one-parameter gate whose \<^verbatim>\<open>grad_method\<close> is \<^verbatim>\<open>'F'\<close>.\<close>

definition circuit_two_gates :: "variable list \<Rightarrow> action list \<times> retval" where
  "circuit_two_gates vs =
     (case vs of
        x # y # rest \<Rightarrow>
          ([Construct (RX (Var (x\<lparr>mult := 2\<rparr>)) 0) True,
            Construct ((RX (Var y) 0)\<lparr>grad_method := Some GradF\<rparr>) True,
            Construct (PauliZ 0 (Some Expectation)) True],
           Single (Ref 2))
      | _ \<Rightarrow> ([Raise TypeError], Single NotAnOperation))"

text \<open>The node of \<open>circuit_two_gates\<close> on a device with one wire, caching off,
  before its first evaluation.\<close>

definition two_gates_node :: "real list world" where
  "two_gates_node = example_node circuit_two_gates 1 False"

text \<open>A point of its parameter space, and a step.\<close>

definition fd_point :: "real list" where "fd_point = [1 / 2, 1 / 4]"

definition fd_step :: real where "fd_step = 1 / 10"

text \<open>For circuits of qubit operations, which have no Heisenberg representation.\<close>

definition qubit_library :: library where
  "qubit_library =
     \<lparr>heisenberg_obs_tr = (\<lambda>operation p1 p2 p0 c succ obs wn. Inl AttributeError),
      squared_cv_obs = (\<lambda>fpv e. Inl AttributeError)\<rparr>"

text \<open>A rotation with an explicit shift recipe, and the quantum function
  \<^verbatim>\<open>Rot(2 * x, wires=[0]); Rot(x, wires=[0]); return expval(PauliZ(0))\<close>, which uses
  its parameter at two sites, with the node's state after a first evaluation at
  \<open>[1 / 2]\<close>.\<close>

definition Rot :: "param \<Rightarrow> int \<Rightarrow> operation" where
  "Rot p wire = (RX p wire)\<lparr>grad_recipe := [Some (1 / 2, 1)]\<rparr>"

definition circuit_shared :: "variable list \<Rightarrow> action list \<times> retval" where
  "circuit_shared vs =
     (case vs of
        [] \<Rightarrow> ([Raise TypeError], Single NotAnOperation)
      | x # rest \<Rightarrow>
          ([Construct (Rot (Var (x\<lparr>mult := 2\<rparr>)) 0) True, Construct (Rot (Var x) 0) True,
            Construct (PauliZ 0 (Some Expectation)) True],
           Single (Ref 2)))"

definition shared_node :: "real list world" where
  "shared_node =
     \<lparr>heap = [Rot (Var \<lparr>idx = 0, name = None, mult = 2\<rparr>) 0, Rot (Var v0) 0,
              PauliZ 0 (Some Expectation)],
      current_context = None, free_param_values = [1 / 2], node_id = 0,
      func = circuit_shared,
      device = \<lparr>d_num_wires = 1, d_shots = 0, d_op_queue = None, d_obs_queue = None,
                d_parameters = None, backend = [1, 1 / 2]\<rparr>,
      num_wires = 1, num_variables = Some 1, ops = [0, 1, 2], cache = True,
      variable_ops = [(0, [(0, 0), (1, 0)])], queue = [0, 1], ev = [2],
      output_conversion = Some Float, output_dim = 1, circuit_type = Some Qubit,
      grad_method_for_par = [(0, Some GradA)], construct_calls = 1, evaluate_log = [[1 / 2]]\<rparr>"

text \<open>A gate without parameters, and the quantum function of the test
  \<^verbatim>\<open>test_qnode_fails_on_qfunc_with_too_many_wires\<close>: on a device with two wires it
  addresses wire 2.\<close>

definition CNOT :: "int list \<Rightarrow> operation" where
  "CNOT ws =
     \<lparr>op_name = ''CNOT'', is_observable = False, is_cv = False, is_identity = False,
      wires = ws, params = [], return_type = None, grad_method = None,
      grad_recipe = [], supports_heisenberg = False, ev_order = None, num_samples = None\<rparr>"

definition circuit_bad_wire :: "variable list \<Rightarrow> action list \<times> retval" where
  "circuit_bad_wire vs =
     (case vs of
        [] \<Rightarrow> ([Raise TypeError], Single NotAnOperation)
      | x # rest \<Rightarrow>
          ([Construct (RX (Var x) 0) True, Construct (CNOT [0, 2]) True,
            Construct (PauliZ 0 (Some Expectation)) True],
           Single (Ref 2)))"

text \<open>A plugin like \<open>linear_plugin\<close> that refuses parameters above 1.\<close>

definition bounded_plugin :: "real list plugin" where
  "bounded_plugin =
     linear_plugin\<lparr>p_apply := (\<lambda>nm ws vs b.
        if list_ex (\<lambda>x. x > 1) (nums vs) then Inl DeviceError else Inr (b @ nums vs))\<rparr>"

text \<open>An observable given by a matrix, and quantum functions that return the variance of
  the observable with matrix \<open>diag(2, 0)\<close> on wire 0, alone and followed by the variance
  of Pauli-Z on wire 1; and the expectations of a matrix observable on wire 0 and of
  Pauli-Z on wire 1.\<close>

definition Hermitian :: "real list list \<Rightarrow> int \<Rightarrow> return_type option \<Rightarrow> operation" where
  "Hermitian m wire rt =
     \<lparr>op_name = ''Hermitian'', is_observable = True, is_cv = False, is_identity = False,
      wires = [wire], params = [Mat m], return_type = rt, grad_method = Some GradF,
      grad_recipe = [None], supports_heisenberg = False, ev_order = None, num_samples = None\<rparr>"

definition circuit_two_variances :: "variable list \<Rightarrow> action list \<times> retval" where
  "circuit_two_variances vs =
     (case vs of
        [] \<Rightarrow> ([Raise TypeError], Single NotAnOperation)
      | x # rest \<Rightarrow>
          ([Construct (Rot (Var x) 0) True,
            Construct (Hermitian [[2, 0], [0, 0]] 0 (Some Variance)) True,
            Construct (PauliZ 1 (Some Variance)) True],
           Sequence [Ref 1, Ref 2]))"

definition circuit_one_variance :: "variable list \<Rightarrow> action list \<times> retval" where
  "circuit_one_variance vs =
     (case vs of
        [] \<Rightarrow> ([Raise TypeError], Single NotAnOperation)
      | x # rest \<Rightarrow>
          ([Construct (Rot (Var x) 0) True,
            Construct (Hermitian [[2, 0], [0, 0]] 0 (Some Variance)) True],
           Sequence [Ref 1]))"

definition circuit_expectations :: "real list list \<Rightarrow> variable list \<Rightarrow> action list \<times> retval" where
  "circuit_expectations m vs =
     (case vs of
        [] \<Rightarrow> ([Raise TypeError], Single NotAnOperation)
      | x # rest \<Rightarrow>
          ([Construct (Rot (Var x) 0) True,
            Construct (Hermitian m 0 (Some Expectation)) True,
            Construct (PauliZ 1 (Some Expectation)) True],
           Sequence [Ref 1, Ref 2]))"


section \<open>Frame lemmas\<close>

lemma node_frame_upd [simp]:
  "node_frame (w\<lparr>heap := h\<rparr>) = node_frame w"
  "node_frame (w\<lparr>queue := q\<rparr>) = node_frame w"
  "node_frame (w\<lparr>ev := e\<rparr>) = node_frame w"
  "node_frame (w\<lparr>ops := os\<rparr>) = node_frame w"
  "node_frame (w\<lparr>output_conversion := oc\<rparr>) = node_frame w"
  "node_frame (w\<lparr>output_dim := od\<rparr>) = node_frame w"
  "node_frame (w\<lparr>circuit_type := ct\<rparr>) = node_frame w"
  "node_frame (w\<lparr>variable_ops := vo\<rparr>) = node_frame w"
  "node_frame (w\<lparr>grad_method_for_par := gm\<rparr>) = node_frame w"
  by (simp_all add: node_frame_def)

lemma append_op_frame: "append_op a w = (r, w') \<Longrightarrow> node_frame w' = node_frame w"
  by (auto simp: append_op_def split: if_splits)

lemma run_actions_frame: "run_actions acts w = (r, w') \<Longrightarrow> node_frame w' = node_frame w"
proof (induction acts w arbitrary: r w' rule: run_actions.induct)
  case (3 operation do_queue rest w)
  then show ?case
    by (fastforce simp: Let_def split: if_splits prod.splits sum.splits dest: append_op_frame)
qed auto

lemma validate_result_frame: "validate_result base r w = (v, w') \<Longrightarrow> node_frame w' = node_frame w"
  by (auto simp: validate_result_def split: retval.splits if_splits)

lemma ev_loop_frame: "ev_loop a xs w = (m, w') \<Longrightarrow> node_frame w' = node_frame w"
  by (induction a xs w arbitrary: m w' rule: ev_loop.induct) (auto split: if_splits)

lemma best_for_op_frame: "best_for_op k w = (m, w') \<Longrightarrow> node_frame w' = node_frame w"
  by (auto simp: best_for_op_def Let_def split: if_splits dest: ev_loop_frame)

lemma best_for_ops_frame: "best_for_ops ss w = (ms, w') \<Longrightarrow> node_frame w' = node_frame w"
proof (induction ss w arbitrary: ms w' rule: best_for_ops.induct)
  case (2 k p rest w)
  then show ?case
    by (fastforce split: prod.splits dest: best_for_op_frame)
qed auto

lemma best_method_frame: "best_method k w = (m, w') \<Longrightarrow> node_frame w' = node_frame w"
  by (auto simp: best_method_def split: prod.splits if_splits dest: best_for_ops_frame)

lemma best_methods_frame: "best_methods ks w = (gm, w') \<Longrightarrow> node_frame w' = node_frame w"
proof (induction ks w arbitrary: gm w' rule: best_methods.induct)
  case (2 k ks w)
  then show ?case
    by (fastforce split: prod.splits dest: best_method_frame)
qed auto

lemma finish_construct_frame:
  "finish_construct base r w = (v, w') \<Longrightarrow> node_frame w' = node_frame w"
  by (fastforce simp: finish_construct_def Let_def
      split: prod.splits sum.splits if_splits
      dest: validate_result_frame best_methods_frame)

lemma begin_construct_context [simp]:
  "current_context (begin_construct args w) = current_context w"
  by (simp add: begin_construct_def)

lemma construct_occupied:
  "current_context w = Some q \<Longrightarrow> construct args w = (Inl QuantumFunctionError, begin_construct args w)"
  by (simp add: construct_def Let_def)

lemma construct_free_context:
  assumes free: "current_context w = None"
  shows "current_context (snd (construct args w)) = None"
proof -
  let ?w4 = "enter_context (begin_construct args w)"
  obtain acts r where f: "func ?w4 (fresh_variables args) = (acts, r)"
    by (cases "func ?w4 (fresh_variables args)")
  obtain res w5 where ra: "run_actions acts ?w4 = (res, w5)"
    by (cases "run_actions acts ?w4")
  show ?thesis
  proof (cases res)
    case (Inl e)
    then show ?thesis using free f ra
      by (simp add: construct_def Let_def)
  next
    case (Inr u)
    obtain v w6 where fc: "finish_construct (length (heap ?w4)) r (w5\<lparr>current_context := None\<rparr>) = (v, w6)"
      by (cases "finish_construct (length (heap ?w4)) r (w5\<lparr>current_context := None\<rparr>)")
    from finish_construct_frame [OF fc] have "current_context w6 = None"
      by (simp add: node_frame_def)
    then show ?thesis using free f ra Inr fc
      by (simp add: construct_def Let_def)
  qed
qed

section \<open>Tracing: the two buffers\<close>

text \<open>
  C7. \<^verbatim>\<open>_append_op\<close> raises \<^verbatim>\<open>QuantumFunctionError\<close> (and changes nothing) for a
  non-observable operation when the observables buffer \<^verbatim>\<open>self.ev\<close> is non-empty; an
  observable with a return type is appended to \<^verbatim>\<open>self.ev\<close> and an observable
  without one to \<^verbatim>\<open>self.queue\<close>, both without error, whatever the buffers hold.
\<close>

theorem append_op_buffers:
  "(\<not> is_observable (heap w ! a) \<and> ev w \<noteq> [] \<longrightarrow>
      append_op a w = (Inl QuantumFunctionError, w)) \<and>
   (is_observable (heap w ! a) \<and> return_type (heap w ! a) \<noteq> None \<longrightarrow>
      append_op a w = (Inr (), w\<lparr>ev := ev w @ [a]\<rparr>)) \<and>
   (is_observable (heap w ! a) \<and> return_type (heap w ! a) = None \<longrightarrow>
      append_op a w = (Inr (), w\<lparr>queue := queue w @ [a]\<rparr>))"
  by (simp add: append_op_def)

theorem append_op_buffers_witness:
  "append_op 0 tracing_world = (Inl QuantumFunctionError, tracing_world) \<and>
   append_op 1 tracing_world = (Inr (), tracing_world\<lparr>ev := [1, 1]\<rparr>) \<and>
   append_op 2 tracing_world = (Inr (), tracing_world\<lparr>queue := [2]\<rparr>)"
  using append_op_buffers [of tracing_world 0] append_op_buffers [of tracing_world 1]
    append_op_buffers [of tracing_world 2]
  by (simp add: tracing_world_def QNode_init_def RX_def PauliZ_def)

section \<open>The construction context\<close>

text \<open>
  C9. The slot \<^verbatim>\<open>QNode._current_context\<close> is exclusive: \<^verbatim>\<open>construct\<close> entered
  while the slot is occupied raises \<^verbatim>\<open>QuantumFunctionError\<close> (and leaves the slot to its
  holder); entered with the slot empty, it leaves the slot empty however the run of the
  quantum function ends, by returning or by raising.
\<close>

theorem context_slot_exclusive:
  "(current_context w \<noteq> None \<longrightarrow>
      fst (construct args w) = Inl QuantumFunctionError \<and>
      current_context (snd (construct args w)) = current_context w) \<and>
   (current_context w = None \<longrightarrow> current_context (snd (construct args w)) = None)"
  using construct_occupied [of w _ args] construct_free_context [of w args]
  by auto

theorem context_slot_exclusive_witness:
  "fst (construct [] tracing_world) = Inl QuantumFunctionError \<and>
   current_context (snd (construct [] tracing_world)) = Some 0 \<and>
   current_context (snd (construct [1 / 2] (example_node circuit_rx 1 True))) = None \<and>
   current_context (snd (construct [] (example_node circuit_raising 1 False))) = None"
  using context_slot_exclusive [of tracing_world "[]"]
    context_slot_exclusive [of "example_node circuit_rx 1 True" "[1 / 2]"]
    context_slot_exclusive [of "example_node circuit_raising 1 False" "[]"]
  by (simp add: tracing_world_def example_node_def QNode_init_def)

section \<open>Validation of the returned observables\<close>

lemma is_obs_val_context [simp]:
  "is_obs_val (w\<lparr>current_context := c\<rparr>) base = is_obs_val w base"
proof
  fix v show "is_obs_val (w\<lparr>current_context := c\<rparr>) base v = is_obs_val w base v"
    by (cases v) simp_all
qed

lemma match_context [simp]:
  "returned_observables_match base r (w\<lparr>current_context := c\<rparr>) = returned_observables_match base r w"
  by (simp add: returned_observables_match_def split: retval.splits)

lemma finish_construct_invalid:
  "\<not> returned_observables_match base r w \<Longrightarrow> fst (finish_construct base r w) = Inl QuantumFunctionError"
  by (auto simp: finish_construct_def validate_result_def returned_observables_match_def
      list_ex_iff list_all_iff Let_def split: retval.splits)

lemma fst_construct_sum: "fst (finish_construct base r w) = Inr u \<Longrightarrow> returned_observables_match base r w"
  using finish_construct_invalid [of base r w] by auto

lemma construct_returned:
  assumes "current_context w = None"
    and "func (enter_context (begin_construct args w)) (fresh_variables args) = (acts, r)"
    and "fst (run_actions acts (enter_context (begin_construct args w))) = Inr ()"
  shows "construct args w =
     finish_construct (length (heap w)) r
       ((snd (run_actions acts (enter_context (begin_construct args w))))\<lparr>current_context := None\<rparr>)"
  using assms
  by (cases "run_actions acts (enter_context (begin_construct args w))")
     (simp add: construct_def Let_def enter_context_def begin_construct_def)

text \<open>
  C8. When the quantum function has returned the value \<open>r\<close>, \<^verbatim>\<open>construct\<close> raises
  \<^verbatim>\<open>QuantumFunctionError\<close> unless \<open>r\<close> is a single measured observable or a non-empty
  sequence of measured observables that lists exactly the objects of the observables
  buffer, in the buffer's order; so it succeeds only for such a value.
\<close>

theorem construct_return_validation:
  assumes "current_context w = None"
    and "func (enter_context (begin_construct args w)) (fresh_variables args) = (acts, r)"
    and "fst (run_actions acts (enter_context (begin_construct args w))) = Inr ()"
  shows "(\<not> returned_observables_match (length (heap w)) r
              (snd (run_actions acts (enter_context (begin_construct args w)))) \<longrightarrow>
            fst (construct args w) = Inl QuantumFunctionError) \<and>
         (fst (construct args w) = Inr () \<longrightarrow>
            returned_observables_match (length (heap w)) r
              (snd (run_actions acts (enter_context (begin_construct args w)))))"
proof -
  let ?w5 = "snd (run_actions acts (enter_context (begin_construct args w)))"
  have c: "construct args w = finish_construct (length (heap w)) r (?w5\<lparr>current_context := None\<rparr>)"
    by (rule construct_returned [OF assms])
  have bad: "fst (construct args w) = Inl QuantumFunctionError"
    if "\<not> returned_observables_match (length (heap w)) r ?w5"
    using that finish_construct_invalid [of "length (heap w)" r "?w5\<lparr>current_context := None\<rparr>"] c
    by simp
  show ?thesis
  proof (intro conjI impI)
    assume "\<not> returned_observables_match (length (heap w)) r ?w5"
    then show "fst (construct args w) = Inl QuantumFunctionError" by (rule bad)
  next
    assume ok: "fst (construct args w) = Inr ()"
    show "returned_observables_match (length (heap w)) r ?w5"
    proof (rule ccontr)
      assume "\<not> returned_observables_match (length (heap w)) r ?w5"
      from bad [OF this] ok show False by simp
    qed
  qed
qed

theorem construct_return_validation_witness:
  "fst (construct [] (example_node circuit_swapped 2 False)) = Inl QuantumFunctionError \<and>
   fst (construct [1 / 2] (example_node circuit_rx 1 False)) = Inr () \<and>
   returned_observables_match 0 (Single (Ref 1))
     (snd (run_actions (fst (circuit_rx (fresh_variables [1 / 2])))
        (enter_context (begin_construct [1 / 2] (example_node circuit_rx 1 False)))))"
  using construct_return_validation [of "example_node circuit_swapped 2 False" "[]"
      "fst (circuit_swapped [])" "snd (circuit_swapped [])"]
    construct_return_validation [of "example_node circuit_rx 1 False" "[1 / 2]"
      "fst (circuit_rx (fresh_variables [1 / 2]))" "snd (circuit_rx (fresh_variables [1 / 2]))"]
  by (simp add: example_node_def QNode_init_def Device_init_def circuit_swapped_def circuit_rx_def
      fresh_variables_def begin_construct_def enter_context_def append_op_def Let_def
      returned_observables_match_def PauliZ_def RX_def construct_def finish_construct_def
      validate_result_def classify_def best_method_def sites_of_def best_for_op_def)

section \<open>The device's queues\<close>

lemma fresh_device_raises:
  "op_queue (Device_init n s b) = Inl ValueError \<and> obs_queue (Device_init n s b) = Inl ValueError \<and>
   parameters (Device_init n s b) = Inl ValueError"
  by (simp add: op_queue_def obs_queue_def parameters_def Device_init_def)

lemma set_queues_properties:
  "op_queue (set_queues q obs pars d) = Inr q \<and> obs_queue (set_queues q obs pars d) = Inr obs \<and>
   parameters (set_queues q obs pars d) = Inr pars"
  by (simp add: op_queue_def obs_queue_def parameters_def set_queues_def)

lemma execute_success_resets:
  "execute P fpv q obs pars d = (Inr rs, d') \<Longrightarrow>
   op_queue d' = Inl ValueError \<and> obs_queue d' = Inl ValueError \<and> parameters d' = Inl ValueError"
  by (auto simp: execute_def Let_def op_queue_def obs_queue_def parameters_def
      split: sum.splits prod.splits)

text \<open>
  C10 (the code departs from the claim). The three properties do not raise whenever they are
  read outside \<^verbatim>\<open>execute\<close>: an \<^verbatim>\<open>execute\<close> that raises inside its
  \<^verbatim>\<open>with\<close> block (here a sample observable without \<^verbatim>\<open>num_samples\<close>) returns
  without resetting the three attributes, and afterwards the properties hand out the queues
  of the failed call. The lemmas above are the part that holds: the properties raise on a
  fresh device and after an \<^verbatim>\<open>execute\<close> that returned, and they are set while it runs.
\<close>

theorem execute_failure_keeps_queues:
  "fst (execute linear_plugin [] [RX (Num 0) 0] [PauliZ 0 (Some Sample)] [] (Device_init 1 0 []))
     = Inl DeviceError \<and>
   op_queue (snd (execute linear_plugin [] [RX (Num 0) 0] [PauliZ 0 (Some Sample)] []
       (Device_init 1 0 []))) = Inr [RX (Num 0) 0] \<and>
   obs_queue (snd (execute linear_plugin [] [RX (Num 0) 0] [PauliZ 0 (Some Sample)] []
       (Device_init 1 0 []))) = Inr [PauliZ 0 (Some Sample)] \<and>
   parameters (snd (execute linear_plugin [] [RX (Num 0) 0] [PauliZ 0 (Some Sample)] []
       (Device_init 1 0 []))) = Inr []"
  by (simp add: execute_def check_validity_def linear_plugin_def RX_def PauliZ_def
      run_device_def set_queues_def Device_init_def op_queue_def obs_queue_def parameters_def)

section \<open>Selection of the gradient method\<close>

lemma ev_loop_result:
  "fst (ev_loop a xs w) =
     (if list_ex (\<lambda>x. ev_order x = None \<or> (ev_order x = Some 2 \<and> return_type x = Some Variance)) xs
      then Some GradF else Some GradA)"
  by (induction a xs w rule: ev_loop.induct) auto

lemma best_for_op_cases:
  "fst (best_for_op o_idx w) =
     (let operation = heap w ! (ops w ! o_idx) in
      if \<not> is_cv operation then grad_method operation
      else if grad_method operation = Some GradA then
        (if list_ex (\<lambda>x. \<not> supports_heisenberg (heap w ! x)) (op_successors w o_idx OnlyG) then Some GradF
         else if list_ex (\<lambda>x. ev_order (heap w ! x) = None \<or>
                    (ev_order (heap w ! x) = Some 2 \<and> return_type (heap w ! x) = Some Variance))
                  (op_successors w o_idx OnlyE) then Some GradF
         else Some GradA)
      else grad_method operation)"
  by (simp add: best_for_op_def Let_def ev_loop_result list_ex_iff list_all_iff)

lemmas cv_defs = cv_world_def QNode_init_def Displacement_def Kerr_def cv_observable_def
  op_successors_def sites_of_def

lemma best_for_ops_single: "fst (best_for_ops [(k, p)] w) = [fst (best_for_op k w)]"
  by (cases "best_for_op k w") simp

text \<open>
  What \<^verbatim>\<open>_best_method\<close> computes. For a free parameter \<open>k\<close> it returns
  \<^verbatim>\<open>None\<close> iff \<^verbatim>\<open>best_for_op\<close> gave \<^verbatim>\<open>None\<close> for some operation that
  depends on \<open>k\<close>, \<^verbatim>\<open>'A'\<close> iff it gave \<^verbatim>\<open>'A'\<close> for every one of them, and
  \<^verbatim>\<open>'F'\<close> otherwise. For a CV operation whose attribute \<^verbatim>\<open>grad_method\<close> is
  \<^verbatim>\<open>'A'\<close> at the time of the call, \<^verbatim>\<open>best_for_op\<close> gives \<^verbatim>\<open>'F'\<close> when a
  non-observable successor lacks \<^verbatim>\<open>supports_heisenberg\<close>, when a successor observable
  has \<^verbatim>\<open>ev_order\<close> \<^verbatim>\<open>None\<close>, or when one has \<^verbatim>\<open>ev_order\<close> 2 and return type
  variance, and \<^verbatim>\<open>'A'\<close> when none of these holds; for an operation that is not CV it
  gives the operation's \<^verbatim>\<open>grad_method\<close>.
\<close>

lemma best_method_cases:
  "(fst (best_method k w) = None \<longleftrightarrow> None \<in> set (fst (best_for_ops (sites_of w k) w))) \<and>
   (fst (best_method k w) = Some GradA \<longleftrightarrow>
      list_all (\<lambda>m. m = Some GradA) (fst (best_for_ops (sites_of w k) w))) \<and>
   (fst (best_method k w) \<noteq> None \<and> fst (best_method k w) \<noteq> Some GradA \<longrightarrow>
      fst (best_method k w) = Some GradF) \<and>
   (is_cv (heap w ! (ops w ! o_idx)) \<and> grad_method (heap w ! (ops w ! o_idx)) = Some GradA \<and>
    (list_ex (\<lambda>x. \<not> supports_heisenberg (heap w ! x)) (op_successors w o_idx OnlyG) \<or>
     list_ex (\<lambda>x. ev_order (heap w ! x) = None) (op_successors w o_idx OnlyE) \<or>
     list_ex (\<lambda>x. ev_order (heap w ! x) = Some 2 \<and> return_type (heap w ! x) = Some Variance)
       (op_successors w o_idx OnlyE)) \<longrightarrow>
      fst (best_for_op o_idx w) = Some GradF) \<and>
   (is_cv (heap w ! (ops w ! o_idx)) \<and> grad_method (heap w ! (ops w ! o_idx)) = Some GradA \<and>
    list_all (\<lambda>x. supports_heisenberg (heap w ! x)) (op_successors w o_idx OnlyG) \<and>
    list_all (\<lambda>x. ev_order (heap w ! x) \<noteq> None \<and>
        \<not> (ev_order (heap w ! x) = Some 2 \<and> return_type (heap w ! x) = Some Variance))
      (op_successors w o_idx OnlyE) \<longrightarrow>
      fst (best_for_op o_idx w) = Some GradA) \<and>
   (\<not> is_cv (heap w ! (ops w ! o_idx)) \<longrightarrow>
      fst (best_for_op o_idx w) = grad_method (heap w ! (ops w ! o_idx)))"
proof -
  obtain temp w1 where t: "best_for_ops (sites_of w k) w = (temp, w1)"
    by (cases "best_for_ops (sites_of w k) w")
  have a: "fst (best_method k w) =
      (if list_all (\<lambda>m. m = Some GradA) temp then Some GradA
       else if None \<in> set temp then None else Some GradF)"
    using t by (simp add: best_method_def)
  have 1: "fst (best_method k w) = None \<longleftrightarrow> None \<in> set temp"
    using a by (auto simp: list_all_iff)
  have 2: "fst (best_method k w) = Some GradA \<longleftrightarrow> list_all (\<lambda>m. m = Some GradA) temp"
    using a by auto
  have 3: "fst (best_method k w) \<noteq> None \<and> fst (best_method k w) \<noteq> Some GradA \<longrightarrow>
      fst (best_method k w) = Some GradF"
    using a by auto
  show ?thesis using 1 2 3 t
    by (auto simp: best_for_op_cases Let_def list_ex_iff list_all_iff)
qed

lemma best_method_cases_examples:
  "fst (best_for_op 0 (traced_node True)) = Some GradA \<and>
   fst (best_for_op 0 cv_kerr) = Some GradF \<and>
   fst (best_for_op 0 cv_var2) = Some GradF \<and>
   fst (best_for_op 0 cv_gauss) = Some GradA \<and>
   fst (best_method 0 cv_gauss) = Some GradA \<and>
   fst (best_method 0 cv_none) = None \<and>
   fst (best_method 0 cv_kerr) = Some GradF"
proof -
  have 1: "fst (best_for_op 0 (traced_node True)) = Some GradA"
    using best_method_cases [of 0 "traced_node True" 0]
    by (simp add: traced_node_def RX_def)
  have 2: "fst (best_for_op 0 cv_kerr) = Some GradF"
    using best_method_cases [of 0 cv_kerr 0]
    by (simp add: cv_kerr_def cv_defs)
  have 3: "fst (best_for_op 0 cv_var2) = Some GradF"
    using best_method_cases [of 0 cv_var2 0]
    by (simp add: cv_var2_def cv_defs)
  have 4: "fst (best_for_op 0 cv_gauss) = Some GradA"
    using best_method_cases [of 0 cv_gauss 0]
    by (simp add: cv_gauss_def cv_defs)
  have s5: "sites_of cv_gauss 0 = [(0, 0)]"
    by (simp add: sites_of_def cv_gauss_def cv_world_def QNode_init_def)
  have t5: "fst (best_for_ops (sites_of cv_gauss 0) cv_gauss) = [Some GradA]"
    using 4 by (simp only: s5 best_for_ops_single)
  have 5: "fst (best_method 0 cv_gauss) = Some GradA"
    using best_method_cases [of 0 cv_gauss 0] t5 by simp
  have s6: "sites_of cv_none 0 = [(0, 0)]"
    by (simp add: sites_of_def cv_none_def cv_world_def QNode_init_def)
  have b6: "fst (best_for_op 0 cv_none) = None"
    by (simp add: best_for_op_cases cv_none_def cv_defs)
  have t6: "fst (best_for_ops (sites_of cv_none 0) cv_none) = [None]"
    using b6 by (simp only: s6 best_for_ops_single)
  have 6: "fst (best_method 0 cv_none) = None"
    using best_method_cases [of 0 cv_none 0] t6 by simp
  have s7: "sites_of cv_kerr 0 = [(0, 0)]"
    by (simp add: sites_of_def cv_kerr_def cv_world_def QNode_init_def)
  have t7: "fst (best_for_ops (sites_of cv_kerr 0) cv_kerr) = [Some GradF]"
    using 2 by (simp only: s7 best_for_ops_single)
  have 7: "fst (best_method 0 cv_kerr) = Some GradF"
    using best_method_cases [of 0 cv_kerr 0] t7 by simp
  show ?thesis using 1 2 3 4 5 6 7 by simp
qed

text \<open>The dictionary \<^verbatim>\<open>grad_method_for_par\<close> holds, for each key in turn, the value
  of \<^verbatim>\<open>_best_method\<close> in the state the earlier keys have left.\<close>

lemma best_methods_unfold:
  "fst (best_methods (k # ks) w) =
     (k, fst (best_method k w)) # fst (best_methods ks (snd (best_method k w)))"
  by (cases "best_method k w"; cases "best_methods ks (snd (best_method k w))") simp

section \<open>When the circuit is traced again\<close>

lemma construct_calls_construct:
  "construct_calls (snd (construct args w)) = construct_calls w + 1"
proof (cases "current_context w")
  case (Some q)
  then show ?thesis by (simp add: construct_occupied begin_construct_def)
next
  case None
  let ?w4 = "enter_context (begin_construct args w)"
  obtain acts r where f: "func ?w4 (fresh_variables args) = (acts, r)"
    by (cases "func ?w4 (fresh_variables args)")
  obtain res w5 where ra: "run_actions acts ?w4 = (res, w5)"
    by (cases "run_actions acts ?w4")
  have w5: "construct_calls w5 = construct_calls w + 1"
    using run_actions_frame [OF ra] by (simp add: node_frame_def enter_context_def begin_construct_def)
  show ?thesis
  proof (cases res)
    case (Inl e)
    then show ?thesis using None f ra w5 by (simp add: construct_def Let_def)
  next
    case (Inr u)
    obtain v w6 where fc: "finish_construct (length (heap ?w4)) r (w5\<lparr>current_context := None\<rparr>) = (v, w6)"
      by (cases "finish_construct (length (heap ?w4)) r (w5\<lparr>current_context := None\<rparr>)")
    from finish_construct_frame [OF fc] w5 have "construct_calls w6 = construct_calls w + 1"
      by (simp add: node_frame_def)
    then show ?thesis using None f ra Inr fc by (simp add: construct_def Let_def)
  qed
qed

lemma run_circuit_calls:
  "construct_calls (snd (run_circuit P args w)) = construct_calls w"
  by (simp add: run_circuit_def Let_def reset_device_def split: prod.splits sum.splits option.splits)

lemmas eval_defs = evaluate_def construct_def begin_construct_def enter_context_def
  fresh_variables_def finish_construct_def validate_result_def classify_def best_method_def
  sites_of_def best_for_op_def append_op_def run_circuit_def reset_device_def execute_def
  check_validity_def run_device_def set_queues_def convert_output_def val_def Let_def

lemma evaluate_example_node:
  "evaluate linear_plugin [1 / 2] (example_node circuit_rx 1 c) = (Inr [Val (1 / 2)], traced_node c)"
  by (simp add: eval_defs example_node_def QNode_init_def Device_init_def circuit_rx_def
      linear_plugin_def RX_def PauliZ_def traced_node_def)

text \<open>
  C2, as stated: on a node that has been traced, \<^verbatim>\<open>evaluate\<close> runs
  \<^verbatim>\<open>construct\<close> again iff caching is off or the flattened length of the arguments
  differs from \<^verbatim>\<open>self.num_variables\<close>. This fails: on the node of
  \<open>circuit_rx\<close> without caching, traced for one argument, an evaluation with two arguments
  does not call \<^verbatim>\<open>construct\<close>.
\<close>

theorem evaluate_retrace_counterexample:
  "num_variables (traced_node False) = Some 1 \<and>
   \<not> (construct_calls (snd (evaluate linear_plugin [1 / 2, 1 / 4] (traced_node False)))
        = construct_calls (traced_node False) + 1
      \<longleftrightarrow> (\<not> cache (traced_node False) \<or> length [1 / 2, 1 / 4 :: real] \<noteq> 1))"
  by (simp add: eval_defs traced_node_def linear_plugin_def RX_def PauliZ_def)

text \<open>
  C2, amended. On a node on which \<^verbatim>\<open>construct\<close> has run
  (\<^verbatim>\<open>self.num_variables\<close> is \<open>n\<close>), a call of \<^verbatim>\<open>evaluate\<close> runs
  \<^verbatim>\<open>construct\<close> again iff caching is off or no circuit is stored
  (\<^verbatim>\<open>self.ops\<close> is empty), \<^emph>\<open>and\<close> the flattened length of the arguments equals
  \<open>n\<close>; in every other case, in particular whenever the length differs from \<open>n\<close>,
  the stored circuit is used as it is.
\<close>

theorem evaluate_retrace:
  assumes "num_variables w = Some n"
  shows "(construct_calls (snd (evaluate P args w)) = construct_calls w + 1 \<longleftrightarrow>
           (ops w = [] \<or> \<not> cache w) \<and> length args = n) \<and>
         (construct_calls (snd (evaluate P args w)) = construct_calls w \<longleftrightarrow>
           \<not> ((ops w = [] \<or> \<not> cache w) \<and> length args = n))"
proof (cases "(ops w = [] \<or> \<not> cache w) \<and> length args = n")
  case True
  let ?w0 = "w\<lparr>evaluate_log := evaluate_log w @ [args]\<rparr>"
  obtain r w1 where c: "construct args ?w0 = (r, w1)" by (cases "construct args ?w0")
  have "construct_calls w1 = construct_calls w + 1"
    using construct_calls_construct [of args ?w0] c by simp
  then show ?thesis using True assms c
    by (cases r) (auto simp: evaluate_def Let_def run_circuit_calls)
next
  case False
  then show ?thesis using assms
    by (auto simp: evaluate_def Let_def run_circuit_calls)
qed

theorem evaluate_retrace_witness:
  "construct_calls (snd (evaluate linear_plugin [1 / 4] (traced_node False))) = 2 \<and>
   construct_calls (snd (evaluate linear_plugin [1 / 4] (traced_node True))) = 1 \<and>
   construct_calls (snd (evaluate linear_plugin [1 / 2, 1 / 4] (traced_node False))) = 1"
  using evaluate_retrace [of "traced_node False" 1 linear_plugin "[1 / 4]"]
    evaluate_retrace [of "traced_node True" 1 linear_plugin "[1 / 4]"]
    evaluate_retrace [of "traced_node False" 1 linear_plugin "[1 / 2, 1 / 4]"]
  by (simp add: traced_node_def)

section \<open>Finite differences\<close>

lemma jac_loop_step:
  "jac_loop P L fp md h order' y0 vs fo d (k # ks) w =
     (case jac_col P L fp md h order' y0 vs fo d k w of
        (Inl e, w1) \<Rightarrow> (Inl e, w1)
      | (Inr col, w1) \<Rightarrow>
         (case jac_loop P L fp md h order' y0 vs fo d ks w1 of
            (Inl e, w2) \<Rightarrow> (Inl e, w2)
          | (Inr cols, w2) \<Rightarrow> (Inr (col # cols), w2)))"
proof (cases "map_of (variable_ops w) k")
  case None
  then show ?thesis by (simp add: jac_col_def split: prod.splits sum.splits)
next
  case (Some sites)
  show ?thesis
  proof (cases "map_of md k")
    case None
    then show ?thesis using Some by (simp add: jac_col_def)
  next
    case (Some pm)
    then show ?thesis using \<open>map_of (variable_ops w) k = Some sites\<close>
      by (simp add: jac_col_def split: prod.splits sum.splits)
  qed
qed

lemma jac_loop_append:
  "jac_loop P L fp md h order' y0 vs fo d (pre @ post) w =
     (case jac_loop P L fp md h order' y0 vs fo d pre w of
        (Inl e, w1) \<Rightarrow> (Inl e, w1)
      | (Inr c1, w1) \<Rightarrow>
         (case jac_loop P L fp md h order' y0 vs fo d post w1 of
            (Inl e, w2) \<Rightarrow> (Inl e, w2)
          | (Inr c2, w2) \<Rightarrow> (Inr (c1 @ c2), w2)))"
proof (induction pre arbitrary: w)
  case Nil
  then show ?case by (simp split: prod.splits sum.splits)
next
  case (Cons k pre)
  obtain r w1 where c: "jac_col P L fp md h order' y0 vs fo d k w = (r, w1)"
    by (cases "jac_col P L fp md h order' y0 vs fo d k w")
  show ?case
  proof (cases r)
    case (Inl e)
    then show ?thesis using c by (simp only: append_Cons jac_loop_step) simp
  next
    case (Inr col)
    obtain r1 w2 where p: "jac_loop P L fp md h order' y0 vs fo d pre w1 = (r1, w2)"
      by (cases "jac_loop P L fp md h order' y0 vs fo d pre w1")
    show ?thesis
    proof (cases r1)
      case (Inl e)
      then show ?thesis using c Inr p Cons.IH [of w1]
        by (simp only: append_Cons jac_loop_step) simp
    next
      case (Inr c1)
      obtain r2 w3 where q: "jac_loop P L fp md h order' y0 vs fo d post w2 = (r2, w3)"
        by (cases "jac_loop P L fp md h order' y0 vs fo d post w2")
      show ?thesis using c \<open>r = Inr col\<close> p Inr q Cons.IH [of w1]
        by (cases r2) (simp_all only: append_Cons jac_loop_step, simp_all)
    qed
  qed
qed

lemma construct_log: "evaluate_log (snd (construct args w)) = evaluate_log w"
proof (cases "current_context w")
  case (Some q)
  then show ?thesis by (simp add: construct_occupied begin_construct_def)
next
  case None
  let ?w4 = "enter_context (begin_construct args w)"
  obtain acts r where f: "func ?w4 (fresh_variables args) = (acts, r)"
    by (cases "func ?w4 (fresh_variables args)")
  obtain res w5 where ra: "run_actions acts ?w4 = (res, w5)"
    by (cases "run_actions acts ?w4")
  have w5: "evaluate_log w5 = evaluate_log w"
    using run_actions_frame [OF ra] by (simp add: node_frame_def enter_context_def begin_construct_def)
  show ?thesis
  proof (cases res)
    case (Inl e)
    then show ?thesis using None f ra w5 by (simp add: construct_def Let_def)
  next
    case (Inr u)
    obtain v w6 where fc: "finish_construct (length (heap ?w4)) r (w5\<lparr>current_context := None\<rparr>) = (v, w6)"
      by (cases "finish_construct (length (heap ?w4)) r (w5\<lparr>current_context := None\<rparr>)")
    from finish_construct_frame [OF fc] w5 have "evaluate_log w6 = evaluate_log w"
      by (simp add: node_frame_def)
    then show ?thesis using None f ra Inr fc by (simp add: construct_def Let_def)
  qed
qed

lemma run_circuit_log: "evaluate_log (snd (run_circuit P args w)) = evaluate_log w"
  by (simp add: run_circuit_def Let_def reset_device_def split: prod.splits sum.splits option.splits)

lemma evaluate_log_evaluate: "evaluate_log (snd (evaluate P args w)) = evaluate_log w @ [args]"
proof -
  let ?w0 = "w\<lparr>evaluate_log := evaluate_log w @ [args]\<rparr>"
  have c: "evaluate_log (snd (construct args ?w0)) = evaluate_log w @ [args]"
    by (simp add: construct_log)
  show ?thesis
    using c
    by (cases "construct args ?w0"; cases "fst (construct args ?w0)")
       (auto simp: evaluate_def Let_def run_circuit_log split: option.splits)
qed


lemma pd_finite_diff_order1_returns:
  assumes "pd_finite_diff P fp k h 1 y0 w = (Inr pd, w1)"
  shows "\<exists>y y0'. y0 = Some y0' \<and> k < length fp \<and>
           eval_vec P (fp[k := fp ! k + h]) w = (Inr y, w1) \<and>
           pd = Vec (map (\<lambda>d. d / h) (map2 (-) y y0'))"
proof -
  from assms have k: "k < length fp"
    by (auto simp: pd_finite_diff_def split: if_splits)
  obtain re wa where e: "evaluate P (fp[k := fp ! k + h]) w = (re, wa)"
    by (cases "evaluate P (fp[k := fp ! k + h]) w")
  from assms k e obtain r where r: "re = Inr r"
    by (cases re) (auto simp: pd_finite_diff_def)
  from assms k e r obtain y where y: "as_vector r = Inr y"
    by (cases "as_vector r") (auto simp: pd_finite_diff_def)
  from assms k e r y obtain y0' where y0: "y0 = Some y0'"
    by (cases y0) (auto simp: pd_finite_diff_def)
  from assms k e r y y0 have "wa = w1" "pd = Vec (map (\<lambda>d. d / h) (map2 (-) y y0'))"
    by (auto simp: pd_finite_diff_def split: if_splits)
  then show ?thesis using k e r y y0 by (simp add: eval_vec_def)
qed

lemma pd_finite_diff_order2_returns:
  assumes "pd_finite_diff P fp k h 2 y0 w = (Inr pd, w1)"
  shows "\<exists>y2 y1 wa. k < length fp \<and>
           eval_vec P (fp[k := fp ! k + 0.5 * h]) w = (Inr y2, wa) \<and>
           eval_vec P (fp[k := fp ! k - 0.5 * h]) wa = (Inr y1, w1) \<and>
           pd = Vec (map (\<lambda>d. d / h) (map2 (-) y2 y1))"
proof -
  from assms have k: "k < length fp"
    by (auto simp: pd_finite_diff_def split: if_splits)
  obtain re wa where e: "evaluate P (fp[k := fp ! k + 0.5 * h]) w = (re, wa)"
    by (cases "evaluate P (fp[k := fp ! k + 0.5 * h]) w")
  from assms k e obtain r2 where r2: "re = Inr r2"
    by (cases re) (auto simp: pd_finite_diff_def)
  from assms k e r2 obtain y2 where y2: "as_vector r2 = Inr y2"
    by (cases "as_vector r2") (auto simp: pd_finite_diff_def)
  obtain re' wb where e': "evaluate P (fp[k := fp ! k - 0.5 * h]) wa = (re', wb)"
    by (cases "evaluate P (fp[k := fp ! k - 0.5 * h]) wa")
  from assms k e r2 y2 e' obtain r1 where r1: "re' = Inr r1"
    by (cases re') (auto simp: pd_finite_diff_def)
  from assms k e r2 y2 e' r1 obtain y1 where y1: "as_vector r1 = Inr y1"
    by (cases "as_vector r1") (auto simp: pd_finite_diff_def)
  from assms k e r2 y2 e' r1 y1 have "wb = w1" "pd = Vec (map (\<lambda>d. d / h) (map2 (-) y2 y1))"
    by (auto simp: pd_finite_diff_def split: if_splits)
  then show ?thesis using k e r2 y2 e' r1 y1 by (simp add: eval_vec_def)
qed

lemma pd_finite_diff_other_order:
  "order' \<noteq> 1 \<Longrightarrow> order' \<noteq> 2 \<Longrightarrow> pd_finite_diff P fp k h order' y0 w = (Inl ValueError, w)"
  by (simp add: pd_finite_diff_def)

lemma jac_col_fd:
  assumes "map_of (variable_ops w) k \<noteq> None" and "map_of md k = Some (Some GradF)"
  shows "jac_col P L fp md h order' y0 vs fo d k w =
     (case pd_finite_diff P fp k h order' y0 w of
        (Inl e, w1) \<Rightarrow> (Inl e, w1)
      | (Inr pd, w1) \<Rightarrow>
         (case assign_col d pd of Inl e \<Rightarrow> (Inl e, w1) | Inr col \<Rightarrow> (Inr col, w1)))"
  using assms
  by (cases "map_of (variable_ops w) k")
     (simp_all add: jac_col_def split: prod.splits sum.splits)

lemma jac_loop_length:
  "jac_loop P L fp md h order' y0 vs fo d ks w = (Inr J, w') \<Longrightarrow> length J = length ks"
proof (induction ks arbitrary: w J)
  case Nil
  then show ?case by simp
next
  case (Cons k ks)
  then show ?case
    by (simp only: jac_loop_step) (fastforce split: prod.splits sum.splits)
qed

lemma map_of_list_ex: "map_of md k = Some v \<Longrightarrow> list_ex (\<lambda>km. snd km = v) md"
  by (induction md) (auto split: if_splits)

lemma jacobian_columns:
  assumes "fst (if ops w = [] \<or> \<not> cache w then construct fp w else (Inr (), w)) = Inr ()"
    and "\<not> list_ex (\<lambda>x. return_type (heap (after_tracing fp w) ! x) = Some Sample)
            (ev (after_tracing fp w))"
    and "check_which fp which (after_tracing fp w) = Inr ks"
    and "\<not> check_method (after_tracing fp w) None ks"
    and "method_dict (after_tracing fp w) m ks = Inr md"
  shows "jacobian P L fp which m h order' fo w =
           columns_upto P L fp md h order' fo ks (after_tracing fp w)"
proof -
  let ?c = "if ops w = [] \<or> \<not> cache w then construct fp w else (Inr (), w)"
  obtain rc w1 where c: "?c = (rc, w1)" by (cases ?c)
  have w1: "after_tracing fp w = w1" using c by (simp add: after_tracing_def)
  have rc: "rc = Inr ()" using assms(1) c by simp
  show ?thesis
    using c rc assms(2-5) unfolding w1
    by (simp add: jacobian_def columns_upto_def)
qed

lemma jacobian_returns:
  assumes "jacobian P L fp which m h order' fo w = (Inr J, w')"
  shows "\<exists>ks md. check_which fp which (after_tracing fp w) = Inr ks \<and>
           method_dict (after_tracing fp w) m ks = Inr md \<and>
           columns_upto P L fp md h order' fo ks (after_tracing fp w) = (Inr J, w')"
proof -
  let ?c = "if ops w = [] \<or> \<not> cache w then construct fp w else (Inr (), w)"
  obtain rc w1 where c: "?c = (rc, w1)" by (cases ?c)
  have w1: "after_tracing fp w = w1" using c by (simp add: after_tracing_def)
  from assms c obtain u where rc: "rc = Inr u"
    by (cases rc) (auto simp: jacobian_def)
  from assms c rc have nos: "\<not> list_ex (\<lambda>x. return_type (heap w1 ! x) = Some Sample) (ev w1)"
    by (auto simp: jacobian_def split: if_splits)
  from assms c rc nos obtain ks where cw: "check_which fp which w1 = Inr ks"
    by (cases "check_which fp which w1") (auto simp: jacobian_def)
  from assms c rc nos cw have nob: "\<not> check_method w1 None ks"
    by (auto simp: jacobian_def split: if_splits)
  from assms c rc nos cw nob obtain md where md: "method_dict w1 m ks = Inr md"
    by (cases "method_dict w1 m ks") (auto simp: jacobian_def)
  have "columns_upto P L fp md h order' fo ks w1 = (Inr J, w')"
    using assms c rc nos cw nob md by (simp add: jacobian_def columns_upto_def)
  then show ?thesis using cw md w1 by auto
qed

text \<open>A column differentiated by finite differences, in a call that returns.\<close>

lemma jacobian_fd_column:
  assumes ret: "jacobian P L fp which m h order' fo w = (Inr J, w')"
    and cw: "check_which fp which (after_tracing fp w) = Inr (pre @ k # post)"
    and md: "method_dict (after_tracing fp w) m (pre @ k # post) = Inr md"
    and fd: "map_of md k = Some (Some GradF)"
    and used: "map_of (variable_ops (snd (columns_upto P L fp md h order' fo pre
                 (after_tracing fp w)))) k \<noteq> None"
  shows "\<exists>y0 w2 pd wa. compute_y0 P fp md order' (after_tracing fp w) = (Inr y0, w2) \<and>
           pd_finite_diff P fp k h order' y0
             (snd (columns_upto P L fp md h order' fo pre (after_tracing fp w))) = (Inr pd, wa) \<and>
           assign_col (output_dim w2) pd = Inr (J ! length pre) \<and>
           length J = length pre + 1 + length post"
proof -
  let ?w1 = "after_tracing fp w"
  from jacobian_returns [OF ret] cw md
  have cu: "columns_upto P L fp md h order' fo (pre @ k # post) ?w1 = (Inr J, w')" by auto
  obtain ry w2 where cy: "compute_y0 P fp md order' ?w1 = (ry, w2)"
    by (cases "compute_y0 P fp md order' ?w1")
  from cu cy obtain y0 where ry: "ry = Inr y0"
    by (cases ry) (auto simp: columns_upto_def)
  let ?vs = "list_ex (\<lambda>x. return_type (heap w2 ! x) = Some Variance) (ev w2)"
  let ?d = "output_dim w2"
  have jl: "jac_loop P L fp md h order' y0 ?vs fo ?d (pre @ k # post) w2 = (Inr J, w')"
    using cu cy ry by (simp add: columns_upto_def)
  obtain r1 ws where p: "jac_loop P L fp md h order' y0 ?vs fo ?d pre w2 = (r1, ws)"
    by (cases "jac_loop P L fp md h order' y0 ?vs fo ?d pre w2")
  from jl p obtain c1 where r1: "r1 = Inr c1"
    by (cases r1) (auto simp: jac_loop_append)
  have ws: "snd (columns_upto P L fp md h order' fo pre ?w1) = ws"
    using cy ry p by (simp add: columns_upto_def)
  obtain r2 w3 where q: "jac_loop P L fp md h order' y0 ?vs fo ?d (k # post) ws = (r2, w3)"
    by (cases "jac_loop P L fp md h order' y0 ?vs fo ?d (k # post) ws")
  from jl p r1 q obtain c2 where r2: "r2 = Inr c2" and J: "J = c1 @ c2"
    by (cases r2) (auto simp: jac_loop_append)
  have l1: "length c1 = length pre" using jac_loop_length p r1 by blast
  have l2: "length c2 = length post + 1" using jac_loop_length q r2 by fastforce
  obtain rc wa where jc: "jac_col P L fp md h order' y0 ?vs fo ?d k ws = (rc, wa)"
    by (cases "jac_col P L fp md h order' y0 ?vs fo ?d k ws")
  from q r2 jc obtain col where rc: "rc = Inr col"
    by (cases rc) (auto simp: jac_loop_step simp del: jac_loop.simps)
  from q r2 jc rc have hd: "c2 ! 0 = col"
    by (auto simp: jac_loop_step simp del: jac_loop.simps split: prod.splits sum.splits)
  have u: "map_of (variable_ops ws) k \<noteq> None" using used ws by simp
  obtain rp wb where pf: "pd_finite_diff P fp k h order' y0 ws = (rp, wb)"
    by (cases "pd_finite_diff P fp k h order' y0 ws")
  from jc rc pf obtain pd where rp: "rp = Inr pd"
    by (cases rp) (auto simp: jac_col_fd [OF u fd])
  from jc rc pf rp have ac: "assign_col ?d pd = Inr col"
    by (auto simp: jac_col_fd [OF u fd] split: sum.splits)
  have "J ! length pre = col" using J l1 hd by (simp add: nth_append)
  then show ?thesis using cy ry pf rp ac ws J l1 l2 by simp
qed


lemma compute_y0_order1_returns:
  assumes "compute_y0 P fp md 1 w = (Inr y0, w2)" and "list_ex (\<lambda>km. snd km = Some GradF) md"
  shows "\<exists>y. y0 = Some y \<and> eval_vec P fp w = (Inr y, w2)"
  using assms
  by (auto simp: compute_y0_def eval_vec_def split: prod.splits sum.splits)

lemma jacobian_fd_order1:
  assumes ret': "fst (jacobian P L fp which m h 1 fo w) = Inr J"
    and cw: "check_which fp which (after_tracing fp w) = Inr (pre @ k # post)"
    and md: "method_dict (after_tracing fp w) m (pre @ k # post) = Inr md"
    and fd: "map_of md k = Some (Some GradF)"
    and used: "map_of (variable_ops (snd (columns_upto P L fp md h 1 fo pre
                 (after_tracing fp w)))) k \<noteq> None"
  shows "length J = length pre + 1 + length post \<and>
         (\<exists>y0 y. fst (eval_vec P fp (after_tracing fp w)) = Inr y0 \<and>
            fst (eval_vec P (fp[k := fp ! k + h])
                  (snd (columns_upto P L fp md h 1 fo pre (after_tracing fp w)))) = Inr y \<and>
            assign_col (output_dim (snd (eval_vec P fp (after_tracing fp w))))
              (Vec (map (\<lambda>d. d / h) (map2 (-) y y0))) = Inr (J ! length pre))"
proof -
  let ?ws = "snd (columns_upto P L fp md h 1 fo pre (after_tracing fp w))"
  obtain w' where ret: "jacobian P L fp which m h 1 fo w = (Inr J, w')"
    using ret' by (cases "jacobian P L fp which m h 1 fo w") simp
  from jacobian_fd_column [OF ret cw md fd used]
  obtain y0o w2 pd wa where cy: "compute_y0 P fp md 1 (after_tracing fp w) = (Inr y0o, w2)"
    and pf: "pd_finite_diff P fp k h 1 y0o ?ws = (Inr pd, wa)"
    and ac: "assign_col (output_dim w2) pd = Inr (J ! length pre)"
    and len: "length J = length pre + 1 + length post"
    by blast
  from compute_y0_order1_returns [OF cy map_of_list_ex [OF fd]]
  obtain y0 where y0: "y0o = Some y0" and e0: "eval_vec P fp (after_tracing fp w) = (Inr y0, w2)"
    by blast
  from pd_finite_diff_order1_returns [OF pf] y0
  obtain y where e: "eval_vec P (fp[k := fp ! k + h]) ?ws = (Inr y, wa)"
    and pd: "pd = Vec (map (\<lambda>d. d / h) (map2 (-) y y0))"
    by auto
  show ?thesis using len e0 e pd ac by simp
qed

lemma jacobian_fd_order2:
  assumes ret': "fst (jacobian P L fp which m h 2 fo w) = Inr J"
    and cw: "check_which fp which (after_tracing fp w) = Inr (pre @ k # post)"
    and md: "method_dict (after_tracing fp w) m (pre @ k # post) = Inr md"
    and fd: "map_of md k = Some (Some GradF)"
    and used: "map_of (variable_ops (snd (columns_upto P L fp md h 2 fo pre
                 (after_tracing fp w)))) k \<noteq> None"
  shows "length J = length pre + 1 + length post \<and>
         (\<exists>y2 y1.
            fst (eval_vec P (fp[k := fp ! k + h / 2])
                  (snd (columns_upto P L fp md h 2 fo pre (after_tracing fp w)))) = Inr y2 \<and>
            fst (eval_vec P (fp[k := fp ! k - h / 2])
                  (snd (eval_vec P (fp[k := fp ! k + h / 2])
                     (snd (columns_upto P L fp md h 2 fo pre (after_tracing fp w)))))) = Inr y1 \<and>
            assign_col (output_dim (after_tracing fp w))
              (Vec (map (\<lambda>d. d / h) (map2 (-) y2 y1))) = Inr (J ! length pre))"
proof -
  let ?ws = "snd (columns_upto P L fp md h 2 fo pre (after_tracing fp w))"
  obtain w' where ret: "jacobian P L fp which m h 2 fo w = (Inr J, w')"
    using ret' by (cases "jacobian P L fp which m h 2 fo w") simp
  from jacobian_fd_column [OF ret cw md fd used]
  obtain y0o w2 pd wa where cy: "compute_y0 P fp md 2 (after_tracing fp w) = (Inr y0o, w2)"
    and pf: "pd_finite_diff P fp k h 2 y0o ?ws = (Inr pd, wa)"
    and ac: "assign_col (output_dim w2) pd = Inr (J ! length pre)"
    and len: "length J = length pre + 1 + length post"
    by blast
  have w2: "w2 = after_tracing fp w" using cy by (simp add: compute_y0_def split: if_splits)
  from pd_finite_diff_order2_returns [OF pf]
  obtain y2 y1 wb where e2: "eval_vec P (fp[k := fp ! k + 0.5 * h]) ?ws = (Inr y2, wb)"
    and e1: "eval_vec P (fp[k := fp ! k - 0.5 * h]) wb = (Inr y1, wa)"
    and pd: "pd = Vec (map (\<lambda>d. d / h) (map2 (-) y2 y1))"
    by blast
  show ?thesis using len e2 e1 pd ac w2 by simp
qed

lemma jacobian_fd_other_order:
  assumes tr: "fst (if ops w = [] \<or> \<not> cache w then construct fp w else (Inr (), w)) = Inr ()"
    and ns: "\<not> list_ex (\<lambda>x. return_type (heap (after_tracing fp w) ! x) = Some Sample)
            (ev (after_tracing fp w))"
    and cw: "check_which fp which (after_tracing fp w) = Inr (pre @ k # post)"
    and nb: "\<not> check_method (after_tracing fp w) None (pre @ k # post)"
    and md: "method_dict (after_tracing fp w) m (pre @ k # post) = Inr md"
    and fd: "map_of md k = Some (Some GradF)"
    and pre: "fst (columns_upto P L fp md h order' fo pre (after_tracing fp w)) = Inr Jpre"
    and used: "map_of (variable_ops (snd (columns_upto P L fp md h order' fo pre
                 (after_tracing fp w)))) k \<noteq> None"
    and o1: "order' \<noteq> 1" and o2: "order' \<noteq> 2"
  shows "jacobian P L fp which m h order' fo w =
           (Inl ValueError, snd (columns_upto P L fp md h order' fo pre (after_tracing fp w)))"
proof -
  let ?w1 = "after_tracing fp w"
  have cy: "compute_y0 P fp md order' ?w1 = (Inr None, ?w1)"
    using o1 by (simp add: compute_y0_def)
  let ?vs = "list_ex (\<lambda>x. return_type (heap ?w1 ! x) = Some Variance) (ev ?w1)"
  let ?d = "output_dim ?w1"
  obtain r1 ws where p: "jac_loop P L fp md h order' None ?vs fo ?d pre ?w1 = (r1, ws)"
    by (cases "jac_loop P L fp md h order' None ?vs fo ?d pre ?w1")
  have cu: "columns_upto P L fp md h order' fo pre ?w1 = (r1, ws)"
    using cy p by (simp add: columns_upto_def)
  have r1: "r1 = Inr Jpre" using pre cu by simp
  have u: "map_of (variable_ops ws) k \<noteq> None" using used cu by simp
  have jc: "jac_col P L fp md h order' None ?vs fo ?d k ws = (Inl ValueError, ws)"
    by (simp add: jac_col_fd [OF u fd] pd_finite_diff_other_order [OF o1 o2])
  have "jac_loop P L fp md h order' None ?vs fo ?d (k # post) ws = (Inl ValueError, ws)"
    using jc by (simp only: jac_loop_step) simp
  then have "jac_loop P L fp md h order' None ?vs fo ?d (pre @ k # post) ?w1 = (Inl ValueError, ws)"
    using p r1 by (simp add: jac_loop_append del: jac_loop.simps)
  then have "columns_upto P L fp md h order' fo (pre @ k # post) ?w1 = (Inl ValueError, ws)"
    using cy by (simp add: columns_upto_def)
  then show ?thesis using jacobian_columns [OF tr ns cw nb md, of P L h order' fo] cu by simp
qed

text \<open>How often the circuit is evaluated at the unshifted parameters.\<close>

lemma count_list_snoc: "count_list (xs @ [a]) x = count_list xs x + (if a = x then 1 else 0)"
  by (induction xs) simp_all

lemma evaluate_count:
  "evaluate P args w = (r, w') \<Longrightarrow>
   count_list (evaluate_log w') fp = count_list (evaluate_log w) fp + (if args = fp then 1 else 0)"
  using evaluate_log_evaluate [of P args w] by (simp add: count_list_snoc)

lemma evaluate_obs_log:
  "evaluate_obs P obs args w = (r, w') \<Longrightarrow> evaluate_log w' = evaluate_log w"
  by (auto simp: evaluate_obs_def Let_def reset_device_def split: prod.splits sum.splits)

lemma set_param_log [simp]: "evaluate_log (set_param a p v w) = evaluate_log w"
  by (simp add: set_param_def)

lemma pd_sites_count:
  "pd_sites P L fp k fo n wn sites acc w = (r, w') \<Longrightarrow>
   count_list (evaluate_log w') fp = count_list (evaluate_log w) fp"
proof (induction sites arbitrary: acc w)
  case Nil
  then show ?case by simp
next
  case (Cons site rest)
  obtain o_idx p_idx where site: "site = (o_idx, p_idx)" by (cases site)
  show ?case
    using Cons.prems Cons.IH unfolding site
    by (auto simp: Let_def split: if_splits param.splits prod.splits sum.splits
        dest!: evaluate_count [where fp = fp] evaluate_obs_log)
qed

lemma pd_analytic_count:
  "pd_analytic P L fp k fo w = (r, w') \<Longrightarrow>
   count_list (evaluate_log w') fp = count_list (evaluate_log w) fp"
  by (auto simp: pd_analytic_def split: option.splits dest: pd_sites_count)

lemma list_update_neq: "k < length xs \<Longrightarrow> v \<noteq> xs ! k \<Longrightarrow> xs[k := v] \<noteq> xs"
  by (metis nth_list_update_eq)

lemma pd_finite_diff_count:
  assumes "pd_finite_diff P fp k h order' y0 w = (r, w')" and "h \<noteq> 0"
  shows "count_list (evaluate_log w') fp = count_list (evaluate_log w) fp"
proof (cases "k < length fp")
  case True
  have n1: "fp[k := fp ! k + h] \<noteq> fp" using True assms(2) by (simp add: list_update_neq)
  have n2: "fp[k := fp ! k + 0.5 * h] \<noteq> fp" using True assms(2) by (simp add: list_update_neq)
  have n3: "fp[k := fp ! k - 0.5 * h] \<noteq> fp" using True assms(2) by (simp add: list_update_neq)
  show ?thesis
    using assms(1) True n1 n2 n3
    by (auto simp: pd_finite_diff_def split: if_splits prod.splits sum.splits option.splits
        dest!: evaluate_count [where fp = fp])
next
  case False
  then show ?thesis using assms(1) by (auto simp: pd_finite_diff_def split: if_splits)
qed

lemma jac_col_count:
  assumes "jac_col P L fp md h order' y0 vs fo d k w = (r, w')" and "h \<noteq> 0"
    and "\<not> vs \<or> map_of md k \<noteq> Some (Some GradA)"
  shows "count_list (evaluate_log w') fp = count_list (evaluate_log w) fp"
proof (cases "map_of (variable_ops w) k")
  case None
  then show ?thesis using assms(1) by (simp add: jac_col_def)
next
  case (Some sites)
  show ?thesis
  proof (cases "map_of md k")
    case None
    then show ?thesis using Some assms(1) by (simp add: jac_col_def)
  next
    case (Some pm)
    show ?thesis
      using assms \<open>map_of (variable_ops w) k = Some sites\<close> Some
      by (auto simp: jac_col_def split: if_splits prod.splits sum.splits
          dest: pd_analytic_count pd_finite_diff_count)
  qed
qed

lemma jac_loop_count:
  assumes "h \<noteq> 0" and "\<not> vs \<or> (\<forall>k. map_of md k \<noteq> Some (Some GradA))"
  shows "jac_loop P L fp md h order' y0 vs fo d ks w = (r, w') \<Longrightarrow>
         count_list (evaluate_log w') fp = count_list (evaluate_log w) fp"
proof (induction ks arbitrary: w r w')
  case Nil
  then show ?case by simp
next
  case (Cons k ks)
  obtain rc w1 where c: "jac_col P L fp md h order' y0 vs fo d k w = (rc, w1)"
    by (cases "jac_col P L fp md h order' y0 vs fo d k w")
  have c1: "count_list (evaluate_log w1) fp = count_list (evaluate_log w) fp"
    using jac_col_count [OF c assms(1)] assms(2) by blast
  show ?case
  proof (cases rc)
    case (Inl e)
    then show ?thesis using Cons.prems c c1 by (simp only: jac_loop_step) simp
  next
    case (Inr col)
    obtain r2 w2 where p: "jac_loop P L fp md h order' y0 vs fo d ks w1 = (r2, w2)"
      by (cases "jac_loop P L fp md h order' y0 vs fo d ks w1")
    have c2: "count_list (evaluate_log w2) fp = count_list (evaluate_log w1) fp"
      using Cons.IH [OF p] .
    have "w' = w2" using Cons.prems c Inr p
      by (cases r2) (simp_all only: jac_loop_step, simp_all)
    then show ?thesis using c1 c2 by simp
  qed
qed

lemma compute_y0_count:
  "compute_y0 P fp md order' w = (r, w2) \<Longrightarrow>
   count_list (evaluate_log w2) fp = count_list (evaluate_log w) fp +
     (if order' = 1 \<and> list_ex (\<lambda>km. snd km = Some GradF) md then 1 else 0)"
  by (auto simp: compute_y0_def split: if_splits prod.splits sum.splits
      dest!: evaluate_count [where fp = fp])

lemma after_tracing_log: "evaluate_log (after_tracing fp w) = evaluate_log w"
  by (simp add: after_tracing_def construct_log)

lemma map_of_const_method:
  "map_of (map (\<lambda>k. (k, c)) ks) k = Some m \<Longrightarrow> m = c"
  by (induction ks) (auto split: if_splits)

lemma jacobian_count:
  assumes h: "h \<noteq> 0"
    and ret': "fst (jacobian P L fp which m h order' fo w) = Inr J"
    and md: "method_dict (after_tracing fp w) m ks = Inr md"
    and cw: "check_which fp which (after_tracing fp w) = Inr ks"
    and nv: "m = MethodF \<or>
       \<not> list_ex (\<lambda>x. return_type (heap (snd (compute_y0 P fp md order' (after_tracing fp w))) ! x)
                     = Some Variance)
           (ev (snd (compute_y0 P fp md order' (after_tracing fp w))))"
  shows "count_list (evaluate_log (snd (jacobian P L fp which m h order' fo w))) fp =
     count_list (evaluate_log w) fp +
     (if order' = 1 \<and> list_ex (\<lambda>km. snd km = Some GradF) md then 1 else 0)"
proof -
  let ?w1 = "after_tracing fp w"
  obtain w' where ret: "jacobian P L fp which m h order' fo w = (Inr J, w')"
    using ret' by (cases "jacobian P L fp which m h order' fo w") simp
  from jacobian_returns [OF ret] cw md
  have cu: "columns_upto P L fp md h order' fo ks ?w1 = (Inr J, w')" by auto
  obtain ry w2 where cy: "compute_y0 P fp md order' ?w1 = (ry, w2)"
    by (cases "compute_y0 P fp md order' ?w1")
  from cu cy obtain y0 where ry: "ry = Inr y0"
    by (cases ry) (auto simp: columns_upto_def)
  let ?vs = "list_ex (\<lambda>x. return_type (heap w2 ! x) = Some Variance) (ev w2)"
  have jl: "jac_loop P L fp md h order' y0 ?vs fo (output_dim w2) ks w2 = (Inr J, w')"
    using cu cy ry by (simp add: columns_upto_def)
  have na: "\<not> ?vs \<or> (\<forall>k. map_of md k \<noteq> Some (Some GradA))"
  proof (cases "m = MethodF")
    case True
    then have "md = map (\<lambda>k. (k, Some GradF)) ks" using md by (simp add: method_dict_def)
    then show ?thesis using map_of_const_method [of "Some GradF" ks] by fastforce
  next
    case False
    then show ?thesis using nv cy by simp
  qed
  have "count_list (evaluate_log w') fp = count_list (evaluate_log w2) fp"
    using jac_loop_count [OF h na jl] .
  then show ?thesis using compute_y0_count [OF cy] after_tracing_log [of fp w] ret by simp
qed

text \<open>With \<^verbatim>\<open>h = 0\<close> no column with an entry is returned.\<close>

lemma pd_finite_diff_zero_step:
  "pd_finite_diff P fp k 0 order' y0 w = (Inr (Vec v), w') \<Longrightarrow> v = []"
  by (auto simp: pd_finite_diff_def split: if_splits prod.splits sum.splits option.splits)

lemmas fd_defs = jacobian_def check_which_def check_method_def method_dict_def compute_y0_def
  pd_finite_diff_def columns_upto_def after_tracing_def two_gates_node_def fd_point_def
  fd_step_def example_node_def QNode_init_def Device_init_def circuit_two_gates_def
  linear_plugin_def RX_def PauliZ_def

text \<open>
  C6. Let a \<^verbatim>\<open>jacobian\<close> call return the matrix \<open>J\<close> (the list of its columns), let
  \<open>pre @ k # post\<close> be the requested parameters, and let \<open>k\<close> be one of them whose
  method is \<^verbatim>\<open>'F'\<close> and which the circuit uses when the loop reaches it. Then \<open>J\<close>
  has one column for each requested parameter, and
  \<^item> with order 1 and \<open>h \<noteq> 0\<close>, the column of \<open>k\<close> is \<open>(y - y0) / h\<close>, where \<open>y0\<close>
    is the value of the circuit at the unshifted parameters, evaluated before the loop (it
    does not depend on \<open>k\<close>: every finite-difference column uses this one value), and
    \<open>y\<close> is the value at the parameters with component \<open>k\<close> increased by \<open>h\<close>,
    evaluated when the loop reaches \<open>k\<close>;
  \<^item> with order 2 and \<open>h \<noteq> 0\<close>, the column of \<open>k\<close> is \<open>(y2 - y1) / h\<close>, where
    \<open>y2\<close> and \<open>y1\<close> are the values at the parameters with component \<open>k\<close> changed by
    \<open>+ h / 2\<close> and by \<open>- h / 2\<close>, evaluated in this order.

  With any other order the call raises \<^verbatim>\<open>ValueError\<close> when the loop reaches the first
  such \<open>k\<close>, as \<^verbatim>\<open>_pd_finite_diff\<close> itself does. A call with \<open>h \<noteq> 0\<close> that returns
  evaluates the circuit at the unshifted parameters exactly once if the order is 1 and some
  parameter has the method \<^verbatim>\<open>'F'\<close>, and not at all otherwise; this count is for the method
  \<^verbatim>\<open>'F'\<close> and, for the other methods, for circuits without variances (the analytic
  variance rule has an evaluation of its own at the unshifted parameters).
\<close>

theorem finite_difference_columns:
  "(h \<noteq> 0 \<and>
    fst (jacobian P L fp which m h 1 fo w) = Inr J \<and>
    check_which fp which (after_tracing fp w) = Inr (pre @ k # post) \<and>
    method_dict (after_tracing fp w) m (pre @ k # post) = Inr md \<and>
    map_of md k = Some (Some GradF) \<and>
    map_of (variable_ops (snd (columns_upto P L fp md h 1 fo pre (after_tracing fp w)))) k \<noteq> None \<longrightarrow>
      length J = length pre + 1 + length post \<and>
      (\<exists>y0 y. fst (eval_vec P fp (after_tracing fp w)) = Inr y0 \<and>
         fst (eval_vec P (fp[k := fp ! k + h]) (snd (columns_upto P L fp md h 1 fo pre (after_tracing fp w)))) = Inr y \<and>
         assign_col (output_dim (snd (eval_vec P fp (after_tracing fp w))))
           (Vec (map (\<lambda>d. d / h) (map2 (-) y y0))) = Inr (J ! length pre))) \<and>
   (h \<noteq> 0 \<and>
    fst (jacobian P L fp which m h 2 fo w) = Inr J2 \<and>
    check_which fp which (after_tracing fp w) = Inr (pre @ k # post) \<and>
    method_dict (after_tracing fp w) m (pre @ k # post) = Inr md \<and>
    map_of md k = Some (Some GradF) \<and>
    map_of (variable_ops (snd (columns_upto P L fp md h 2 fo pre (after_tracing fp w)))) k \<noteq> None \<longrightarrow>
      length J2 = length pre + 1 + length post \<and>
      (\<exists>y2 y1.
         fst (eval_vec P (fp[k := fp ! k + h / 2]) (snd (columns_upto P L fp md h 2 fo pre (after_tracing fp w)))) = Inr y2 \<and>
         fst (eval_vec P (fp[k := fp ! k - h / 2])
               (snd (eval_vec P (fp[k := fp ! k + h / 2]) (snd (columns_upto P L fp md h 2 fo pre (after_tracing fp w)))))) = Inr y1 \<and>
         assign_col (output_dim (after_tracing fp w))
           (Vec (map (\<lambda>d. d / h) (map2 (-) y2 y1))) = Inr (J2 ! length pre))) \<and>
   (order' \<noteq> 1 \<and>
    order' \<noteq> 2 \<and>
    fst (if ops w = [] \<or> \<not> cache w then construct fp w else (Inr (), w)) = Inr () \<and>
    \<not> list_ex (\<lambda>x. return_type (heap (after_tracing fp w) ! x) = Some Sample) (ev (after_tracing fp w)) \<and>
    check_which fp which (after_tracing fp w) = Inr (pre @ k # post) \<and>
    \<not> check_method (after_tracing fp w) None (pre @ k # post) \<and>
    method_dict (after_tracing fp w) m (pre @ k # post) = Inr md \<and>
    map_of md k = Some (Some GradF) \<and>
    fst (columns_upto P L fp md h order' fo pre (after_tracing fp w)) = Inr Jpre \<and>
    map_of (variable_ops (snd (columns_upto P L fp md h order' fo pre (after_tracing fp w)))) k \<noteq> None \<longrightarrow>
      jacobian P L fp which m h order' fo w = (Inl ValueError, snd (columns_upto P L fp md h order' fo pre (after_tracing fp w)))) \<and>
   (order' \<noteq> 1 \<and>
    order' \<noteq> 2 \<longrightarrow>
      pd_finite_diff P fp k h order' y0' w' = (Inl ValueError, w')) \<and>
   (h \<noteq> 0 \<and>
    fst (jacobian P L fp which m h o5 fo w) = Inr J5 \<and>
    check_which fp which (after_tracing fp w) = Inr (pre @ k # post) \<and>
    method_dict (after_tracing fp w) m (pre @ k # post) = Inr md \<and>
    (m = MethodF \<or>
     \<not> list_ex (\<lambda>x. return_type (heap (snd (compute_y0 P fp md o5 (after_tracing fp w))) ! x) = Some Variance)
         (ev (snd (compute_y0 P fp md o5 (after_tracing fp w))))) \<longrightarrow>
      count_list (evaluate_log (snd (jacobian P L fp which m h o5 fo w))) fp =
        count_list (evaluate_log w) fp +
        (if o5 = 1 \<and> list_ex (\<lambda>km. snd km = Some GradF) md then 1 else 0))"
  using jacobian_fd_order1 [of P L fp which m h fo w J pre k post md]
    jacobian_fd_order2 [of P L fp which m h fo w J2 pre k post md]
    jacobian_fd_other_order [of w fp which pre k post m md P L h order' fo Jpre]
    pd_finite_diff_other_order [of order' P fp k h y0' w']
    jacobian_count [of h P L fp which m o5 fo w J5 "pre @ k # post" md]
  by blast

theorem finite_difference_columns_witness:
  "(fst (jacobian linear_plugin qubit_library fd_point None MethodF fd_step 1 None
      two_gates_node) = Inr ([[2], [1]] :: real list list)) \<and>
   (fst (jacobian linear_plugin qubit_library fd_point None MethodF fd_step 2 None
       two_gates_node) = Inr ([[2], [1]] :: real list list)) \<and>
   (length ([[2], [1]] :: real list list) = length ([] :: nat list) + 1 + length ([1] :: nat
       list) \<and>
      (\<exists>y0 y. fst (eval_vec linear_plugin fd_point (after_tracing fd_point
          two_gates_node)) = Inr y0 \<and>
         fst (eval_vec linear_plugin (fd_point[(0 :: nat) := fd_point ! (0 :: nat) + fd_step])
             (snd (columns_upto linear_plugin qubit_library fd_point ([(0, Some GradF), (1, Some
             GradF)] :: (nat \<times> grad_method option) list) fd_step 1 None ([] :: nat list)
             (after_tracing fd_point two_gates_node)))) = Inr y \<and>
         assign_col (output_dim (snd (eval_vec linear_plugin fd_point (after_tracing fd_point
             two_gates_node))))
           (Vec (map (\<lambda>d. d / fd_step) (map2 (-) y y0))) = Inr (([[2], [1]] :: real list
               list) ! length ([] :: nat list)))) \<and>
   (length ([[2], [1]] :: real list list) = length ([] :: nat list) + 1 + length ([1] :: nat
       list) \<and>
      (\<exists>y2 y1.
         fst (eval_vec linear_plugin (fd_point[(0 :: nat) := fd_point ! (0 :: nat) + fd_step /
             2]) (snd (columns_upto linear_plugin qubit_library fd_point ([(0, Some GradF), (1, Some
             GradF)] :: (nat \<times> grad_method option) list) fd_step 2 None ([] :: nat list)
             (after_tracing fd_point two_gates_node)))) = Inr y2 \<and>
         fst (eval_vec linear_plugin (fd_point[(0 :: nat) := fd_point ! (0 :: nat) - fd_step / 2])
               (snd (eval_vec linear_plugin (fd_point[(0 :: nat) := fd_point ! (0 :: nat) +
                   fd_step / 2]) (snd (columns_upto linear_plugin qubit_library fd_point ([(0, Some
                   GradF), (1, Some GradF)] :: (nat \<times> grad_method option) list) fd_step 2
                   None ([] :: nat list) (after_tracing fd_point two_gates_node)))))) = Inr y1
                   \<and>
         assign_col (output_dim (after_tracing fd_point two_gates_node))
           (Vec (map (\<lambda>d. d / fd_step) (map2 (-) y2 y1))) = Inr (([[2], [1]] :: real
               list list) ! length ([] :: nat list)))) \<and>
   (jacobian linear_plugin qubit_library fd_point None MethodF fd_step (3 :: int) None
       two_gates_node = (Inl ValueError, snd (columns_upto linear_plugin qubit_library fd_point
       ([(0, Some GradF), (1, Some GradF)] :: (nat \<times> grad_method option) list) fd_step (3 ::
       int) None ([] :: nat list) (after_tracing fd_point two_gates_node)))) \<and>
   (pd_finite_diff linear_plugin fd_point (0 :: nat) fd_step (3 :: int) None two_gates_node =
       (Inl ValueError, two_gates_node)) \<and>
   (count_list (evaluate_log (snd (jacobian linear_plugin qubit_library fd_point None MethodF
       fd_step (1 :: int) None two_gates_node))) fd_point =
        count_list (evaluate_log two_gates_node) fd_point +
        (if (1 :: int) = 1 \<and> list_ex (\<lambda>km. snd km = Some GradF) ([(0, Some GradF),
            (1, Some GradF)] :: (nat \<times> grad_method option) list) then 1 else 0)) \<and>
   (fst (jacobian linear_plugin qubit_library fd_point None MethodB fd_step 1 None
       two_gates_node) = Inr ([[pi], [1]] :: real list list)) \<and>
   (fst (jacobian linear_plugin qubit_library fd_point None MethodB fd_step 2 None
       two_gates_node) = Inr ([[pi], [1]] :: real list list)) \<and>
   (length ([[pi], [1]] :: real list list) = length ([0] :: nat list) + 1 + length ([] :: nat
       list) \<and>
      (\<exists>y0 y. fst (eval_vec linear_plugin fd_point (after_tracing fd_point
          two_gates_node)) = Inr y0 \<and>
         fst (eval_vec linear_plugin (fd_point[(1 :: nat) := fd_point ! (1 :: nat) + fd_step])
             (snd (columns_upto linear_plugin qubit_library fd_point ([(0, Some GradA), (1, Some
             GradF)] :: (nat \<times> grad_method option) list) fd_step 1 None ([0] :: nat list)
             (after_tracing fd_point two_gates_node)))) = Inr y \<and>
         assign_col (output_dim (snd (eval_vec linear_plugin fd_point (after_tracing fd_point
             two_gates_node))))
           (Vec (map (\<lambda>d. d / fd_step) (map2 (-) y y0))) = Inr (([[pi], [1]] :: real
               list list) ! length ([0] :: nat list)))) \<and>
   (length ([[pi], [1]] :: real list list) = length ([0] :: nat list) + 1 + length ([] :: nat
       list) \<and>
      (\<exists>y2 y1.
         fst (eval_vec linear_plugin (fd_point[(1 :: nat) := fd_point ! (1 :: nat) + fd_step /
             2]) (snd (columns_upto linear_plugin qubit_library fd_point ([(0, Some GradA), (1, Some
             GradF)] :: (nat \<times> grad_method option) list) fd_step 2 None ([0] :: nat list)
             (after_tracing fd_point two_gates_node)))) = Inr y2 \<and>
         fst (eval_vec linear_plugin (fd_point[(1 :: nat) := fd_point ! (1 :: nat) - fd_step / 2])
               (snd (eval_vec linear_plugin (fd_point[(1 :: nat) := fd_point ! (1 :: nat) +
                   fd_step / 2]) (snd (columns_upto linear_plugin qubit_library fd_point ([(0, Some
                   GradA), (1, Some GradF)] :: (nat \<times> grad_method option) list) fd_step 2
                   None ([0] :: nat list) (after_tracing fd_point two_gates_node)))))) = Inr y1
                   \<and>
         assign_col (output_dim (after_tracing fd_point two_gates_node))
           (Vec (map (\<lambda>d. d / fd_step) (map2 (-) y2 y1))) = Inr (([[pi], [1]] :: real
               list list) ! length ([0] :: nat list)))) \<and>
   (jacobian linear_plugin qubit_library fd_point None MethodB fd_step (3 :: int) None
       two_gates_node = (Inl ValueError, snd (columns_upto linear_plugin qubit_library fd_point
       ([(0, Some GradA), (1, Some GradF)] :: (nat \<times> grad_method option) list) fd_step (3 ::
       int) None ([0] :: nat list) (after_tracing fd_point two_gates_node)))) \<and>
   (count_list (evaluate_log (snd (jacobian linear_plugin qubit_library fd_point None MethodB
       fd_step (1 :: int) None two_gates_node))) fd_point =
        count_list (evaluate_log two_gates_node) fd_point +
        (if (1 :: int) = 1 \<and> list_ex (\<lambda>km. snd km = Some GradF) ([(0, Some GradA),
            (1, Some GradF)] :: (nat \<times> grad_method option) list) then 1 else 0))"
proof -
  have a1: "fd_step \<noteq> 0"
    by (simp add: fd_defs eval_defs)
  have a2: "fst (jacobian linear_plugin qubit_library fd_point None MethodF fd_step 1 None
      two_gates_node) = Inr ([[2], [1]] :: real list list)"
    by (simp add: fd_defs eval_defs)
  have a3: "check_which fd_point None (after_tracing fd_point two_gates_node) = Inr (([] :: nat
      list) @ (0 :: nat) # ([1] :: nat list))"
    by (simp add: fd_defs eval_defs)
  have a4: "method_dict (after_tracing fd_point two_gates_node) MethodF (([] :: nat list) @ (0
      :: nat) # ([1] :: nat list)) = Inr ([(0, Some GradF), (1, Some GradF)] :: (nat \<times>
      grad_method option) list)"
    by (simp add: fd_defs eval_defs)
  have a5: "map_of ([(0, Some GradF), (1, Some GradF)] :: (nat \<times> grad_method option)
      list) (0 :: nat) = Some (Some GradF)"
    by (simp add: fd_defs eval_defs)
  have a6: "map_of (variable_ops (snd (columns_upto linear_plugin qubit_library fd_point ([(0,
      Some GradF), (1, Some GradF)] :: (nat \<times> grad_method option) list) fd_step 1 None ([] ::
      nat list) (after_tracing fd_point two_gates_node)))) (0 :: nat) \<noteq> None"
    by (simp add: fd_defs eval_defs)
  have a7: "fst (jacobian linear_plugin qubit_library fd_point None MethodF fd_step 2 None
      two_gates_node) = Inr ([[2], [1]] :: real list list)"
    by (simp add: fd_defs eval_defs)
  have a8: "map_of (variable_ops (snd (columns_upto linear_plugin qubit_library fd_point ([(0,
      Some GradF), (1, Some GradF)] :: (nat \<times> grad_method option) list) fd_step 2 None ([] ::
      nat list) (after_tracing fd_point two_gates_node)))) (0 :: nat) \<noteq> None"
    by (simp add: fd_defs eval_defs)
  have a9: "(3 :: int) \<noteq> 1"
    by (simp add: fd_defs eval_defs)
  have a10: "(3 :: int) \<noteq> 2"
    by (simp add: fd_defs eval_defs)
  have a11: "fst (if ops two_gates_node = [] \<or> \<not> cache two_gates_node then construct
      fd_point two_gates_node else (Inr (), two_gates_node)) = Inr ()"
    by (simp add: fd_defs eval_defs)
  have a12: "\<not> list_ex (\<lambda>x. return_type (heap (after_tracing fd_point
      two_gates_node) ! x) = Some Sample) (ev (after_tracing fd_point two_gates_node))"
    by (simp add: fd_defs eval_defs)
  have a13: "\<not> check_method (after_tracing fd_point two_gates_node) None (([] :: nat list)
      @ (0 :: nat) # ([1] :: nat list))"
    by (simp add: fd_defs eval_defs)
  have a14: "fst (columns_upto linear_plugin qubit_library fd_point ([(0, Some GradF), (1, Some
      GradF)] :: (nat \<times> grad_method option) list) fd_step (3 :: int) None ([] :: nat list)
      (after_tracing fd_point two_gates_node)) = Inr ([] :: real list list)"
    by (simp add: fd_defs eval_defs)
  have a15: "map_of (variable_ops (snd (columns_upto linear_plugin qubit_library fd_point ([(0,
      Some GradF), (1, Some GradF)] :: (nat \<times> grad_method option) list) fd_step (3 :: int)
      None ([] :: nat list) (after_tracing fd_point two_gates_node)))) (0 :: nat) \<noteq> None"
    by (simp add: fd_defs eval_defs)
  have a16: "fst (jacobian linear_plugin qubit_library fd_point None MethodF fd_step (1 :: int)
      None two_gates_node) = Inr ([[2], [1]] :: real list list)"
    by (simp add: fd_defs eval_defs)
  have a17: "(MethodF = MethodF \<or>
     \<not> list_ex (\<lambda>x. return_type (heap (snd (compute_y0 linear_plugin fd_point ([(0,
         Some GradF), (1, Some GradF)] :: (nat \<times> grad_method option) list) (1 :: int)
         (after_tracing fd_point two_gates_node))) ! x) = Some Variance)
         (ev (snd (compute_y0 linear_plugin fd_point ([(0, Some GradF), (1, Some GradF)] :: (nat
             \<times> grad_method option) list) (1 :: int) (after_tracing fd_point
             two_gates_node)))))"
    by (simp add: fd_defs eval_defs)
  have ac: "(length ([[2], [1]] :: real list list) = length ([] :: nat list) + 1 + length ([1]
      :: nat list) \<and>
      (\<exists>y0 y. fst (eval_vec linear_plugin fd_point (after_tracing fd_point
          two_gates_node)) = Inr y0 \<and>
         fst (eval_vec linear_plugin (fd_point[(0 :: nat) := fd_point ! (0 :: nat) + fd_step])
             (snd (columns_upto linear_plugin qubit_library fd_point ([(0, Some GradF), (1, Some
             GradF)] :: (nat \<times> grad_method option) list) fd_step 1 None ([] :: nat list)
             (after_tracing fd_point two_gates_node)))) = Inr y \<and>
         assign_col (output_dim (snd (eval_vec linear_plugin fd_point (after_tracing fd_point
             two_gates_node))))
           (Vec (map (\<lambda>d. d / fd_step) (map2 (-) y y0))) = Inr (([[2], [1]] :: real list
               list) ! length ([] :: nat list)))) \<and>
      (length ([[2], [1]] :: real list list) = length ([] :: nat list) + 1 + length ([1] :: nat
          list) \<and>
      (\<exists>y2 y1.
         fst (eval_vec linear_plugin (fd_point[(0 :: nat) := fd_point ! (0 :: nat) + fd_step /
             2]) (snd (columns_upto linear_plugin qubit_library fd_point ([(0, Some GradF), (1, Some
             GradF)] :: (nat \<times> grad_method option) list) fd_step 2 None ([] :: nat list)
             (after_tracing fd_point two_gates_node)))) = Inr y2 \<and>
         fst (eval_vec linear_plugin (fd_point[(0 :: nat) := fd_point ! (0 :: nat) - fd_step / 2])
               (snd (eval_vec linear_plugin (fd_point[(0 :: nat) := fd_point ! (0 :: nat) +
                   fd_step / 2]) (snd (columns_upto linear_plugin qubit_library fd_point ([(0, Some
                   GradF), (1, Some GradF)] :: (nat \<times> grad_method option) list) fd_step 2
                   None ([] :: nat list) (after_tracing fd_point two_gates_node)))))) = Inr y1
                   \<and>
         assign_col (output_dim (after_tracing fd_point two_gates_node))
           (Vec (map (\<lambda>d. d / fd_step) (map2 (-) y2 y1))) = Inr (([[2], [1]] :: real
               list list) ! length ([] :: nat list)))) \<and>
      (jacobian linear_plugin qubit_library fd_point None MethodF fd_step (3 :: int) None
          two_gates_node = (Inl ValueError, snd (columns_upto linear_plugin qubit_library fd_point
          ([(0, Some GradF), (1, Some GradF)] :: (nat \<times> grad_method option) list) fd_step (3
          :: int) None ([] :: nat list) (after_tracing fd_point two_gates_node)))) \<and>
      (pd_finite_diff linear_plugin fd_point (0 :: nat) fd_step (3 :: int) None two_gates_node =
          (Inl ValueError, two_gates_node)) \<and>
      (count_list (evaluate_log (snd (jacobian linear_plugin qubit_library fd_point None MethodF
          fd_step (1 :: int) None two_gates_node))) fd_point =
        count_list (evaluate_log two_gates_node) fd_point +
        (if (1 :: int) = 1 \<and> list_ex (\<lambda>km. snd km = Some GradF) ([(0, Some GradF),
            (1, Some GradF)] :: (nat \<times> grad_method option) list) then 1 else 0))"
    using finite_difference_columns [where P = "linear_plugin" and L = "qubit_library" and fp =
        "fd_point" and which = "None" and h = "fd_step" and fo = "None" and w = "two_gates_node" and
        order' = "(3 :: int)" and y0' = "None" and w' = "two_gates_node" and ?o5.0 = "(1 :: int)"
        and m = "MethodF" and pre = "([] :: nat list)" and k = "(0 :: nat)" and post = "([1] :: nat
        list)" and md = "([(0, Some GradF), (1, Some GradF)] :: (nat \<times> grad_method option)
        list)" and J = "([[2], [1]] :: real list list)" and ?J2.0 = "([[2], [1]] :: real list list)"
        and ?J5.0 = "([[2], [1]] :: real list list)" and Jpre = "([] :: real list list)"]
      a1 a2 a3 a4 a5 a6 a7 a8 a9 a10 a11 a12 a13 a14 a15 a16 a17
    by blast
  have b1: "fd_step \<noteq> 0"
    by (simp add: fd_defs eval_defs pd_analytic_def set_param_def)
  have b2: "fst (jacobian linear_plugin qubit_library fd_point None MethodB fd_step 1 None
      two_gates_node) = Inr ([[pi], [1]] :: real list list)"
    by (simp add: fd_defs eval_defs pd_analytic_def set_param_def)
  have b3: "check_which fd_point None (after_tracing fd_point two_gates_node) = Inr (([0] :: nat
      list) @ (1 :: nat) # ([] :: nat list))"
    by (simp add: fd_defs eval_defs pd_analytic_def set_param_def)
  have b4: "method_dict (after_tracing fd_point two_gates_node) MethodB (([0] :: nat list) @ (1
      :: nat) # ([] :: nat list)) = Inr ([(0, Some GradA), (1, Some GradF)] :: (nat \<times>
      grad_method option) list)"
    by (simp add: fd_defs eval_defs pd_analytic_def set_param_def)
  have b5: "map_of ([(0, Some GradA), (1, Some GradF)] :: (nat \<times> grad_method option)
      list) (1 :: nat) = Some (Some GradF)"
    by (simp add: fd_defs eval_defs pd_analytic_def set_param_def)
  have b6: "map_of (variable_ops (snd (columns_upto linear_plugin qubit_library fd_point ([(0,
      Some GradA), (1, Some GradF)] :: (nat \<times> grad_method option) list) fd_step 1 None ([0]
      :: nat list) (after_tracing fd_point two_gates_node)))) (1 :: nat) \<noteq> None"
    by (simp add: fd_defs eval_defs pd_analytic_def set_param_def)
  have b7: "fst (jacobian linear_plugin qubit_library fd_point None MethodB fd_step 2 None
      two_gates_node) = Inr ([[pi], [1]] :: real list list)"
    by (simp add: fd_defs eval_defs pd_analytic_def set_param_def)
  have b8: "map_of (variable_ops (snd (columns_upto linear_plugin qubit_library fd_point ([(0,
      Some GradA), (1, Some GradF)] :: (nat \<times> grad_method option) list) fd_step 2 None ([0]
      :: nat list) (after_tracing fd_point two_gates_node)))) (1 :: nat) \<noteq> None"
    by (simp add: fd_defs eval_defs pd_analytic_def set_param_def)
  have b9: "(3 :: int) \<noteq> 1"
    by (simp add: fd_defs eval_defs pd_analytic_def set_param_def)
  have b10: "(3 :: int) \<noteq> 2"
    by (simp add: fd_defs eval_defs pd_analytic_def set_param_def)
  have b11: "fst (if ops two_gates_node = [] \<or> \<not> cache two_gates_node then construct
      fd_point two_gates_node else (Inr (), two_gates_node)) = Inr ()"
    by (simp add: fd_defs eval_defs pd_analytic_def set_param_def)
  have b12: "\<not> list_ex (\<lambda>x. return_type (heap (after_tracing fd_point
      two_gates_node) ! x) = Some Sample) (ev (after_tracing fd_point two_gates_node))"
    by (simp add: fd_defs eval_defs pd_analytic_def set_param_def)
  have b13: "\<not> check_method (after_tracing fd_point two_gates_node) None (([0] :: nat list)
      @ (1 :: nat) # ([] :: nat list))"
    by (simp add: fd_defs eval_defs pd_analytic_def set_param_def)
  have b14: "fst (columns_upto linear_plugin qubit_library fd_point ([(0, Some GradA), (1, Some
      GradF)] :: (nat \<times> grad_method option) list) fd_step (3 :: int) None ([0] :: nat list)
      (after_tracing fd_point two_gates_node)) = Inr ([[pi]] :: real list list)"
    by (simp add: fd_defs eval_defs pd_analytic_def set_param_def)
  have b15: "map_of (variable_ops (snd (columns_upto linear_plugin qubit_library fd_point ([(0,
      Some GradA), (1, Some GradF)] :: (nat \<times> grad_method option) list) fd_step (3 :: int)
      None ([0] :: nat list) (after_tracing fd_point two_gates_node)))) (1 :: nat) \<noteq> None"
    by (simp add: fd_defs eval_defs pd_analytic_def set_param_def)
  have b16: "fst (jacobian linear_plugin qubit_library fd_point None MethodB fd_step (1 :: int)
      None two_gates_node) = Inr ([[pi], [1]] :: real list list)"
    by (simp add: fd_defs eval_defs pd_analytic_def set_param_def)
  have b17: "(MethodB = MethodF \<or>
     \<not> list_ex (\<lambda>x. return_type (heap (snd (compute_y0 linear_plugin fd_point ([(0,
         Some GradA), (1, Some GradF)] :: (nat \<times> grad_method option) list) (1 :: int)
         (after_tracing fd_point two_gates_node))) ! x) = Some Variance)
         (ev (snd (compute_y0 linear_plugin fd_point ([(0, Some GradA), (1, Some GradF)] :: (nat
             \<times> grad_method option) list) (1 :: int) (after_tracing fd_point
             two_gates_node)))))"
    by (simp add: fd_defs eval_defs pd_analytic_def set_param_def)
  have bc: "(length ([[pi], [1]] :: real list list) = length ([0] :: nat list) + 1 + length ([]
      :: nat list) \<and>
      (\<exists>y0 y. fst (eval_vec linear_plugin fd_point (after_tracing fd_point
          two_gates_node)) = Inr y0 \<and>
         fst (eval_vec linear_plugin (fd_point[(1 :: nat) := fd_point ! (1 :: nat) + fd_step])
             (snd (columns_upto linear_plugin qubit_library fd_point ([(0, Some GradA), (1, Some
             GradF)] :: (nat \<times> grad_method option) list) fd_step 1 None ([0] :: nat list)
             (after_tracing fd_point two_gates_node)))) = Inr y \<and>
         assign_col (output_dim (snd (eval_vec linear_plugin fd_point (after_tracing fd_point
             two_gates_node))))
           (Vec (map (\<lambda>d. d / fd_step) (map2 (-) y y0))) = Inr (([[pi], [1]] :: real
               list list) ! length ([0] :: nat list)))) \<and>
      (length ([[pi], [1]] :: real list list) = length ([0] :: nat list) + 1 + length ([] :: nat
          list) \<and>
      (\<exists>y2 y1.
         fst (eval_vec linear_plugin (fd_point[(1 :: nat) := fd_point ! (1 :: nat) + fd_step /
             2]) (snd (columns_upto linear_plugin qubit_library fd_point ([(0, Some GradA), (1, Some
             GradF)] :: (nat \<times> grad_method option) list) fd_step 2 None ([0] :: nat list)
             (after_tracing fd_point two_gates_node)))) = Inr y2 \<and>
         fst (eval_vec linear_plugin (fd_point[(1 :: nat) := fd_point ! (1 :: nat) - fd_step / 2])
               (snd (eval_vec linear_plugin (fd_point[(1 :: nat) := fd_point ! (1 :: nat) +
                   fd_step / 2]) (snd (columns_upto linear_plugin qubit_library fd_point ([(0, Some
                   GradA), (1, Some GradF)] :: (nat \<times> grad_method option) list) fd_step 2
                   None ([0] :: nat list) (after_tracing fd_point two_gates_node)))))) = Inr y1
                   \<and>
         assign_col (output_dim (after_tracing fd_point two_gates_node))
           (Vec (map (\<lambda>d. d / fd_step) (map2 (-) y2 y1))) = Inr (([[pi], [1]] :: real
               list list) ! length ([0] :: nat list)))) \<and>
      (jacobian linear_plugin qubit_library fd_point None MethodB fd_step (3 :: int) None
          two_gates_node = (Inl ValueError, snd (columns_upto linear_plugin qubit_library fd_point
          ([(0, Some GradA), (1, Some GradF)] :: (nat \<times> grad_method option) list) fd_step (3
          :: int) None ([0] :: nat list) (after_tracing fd_point two_gates_node)))) \<and>
      (count_list (evaluate_log (snd (jacobian linear_plugin qubit_library fd_point None MethodB
          fd_step (1 :: int) None two_gates_node))) fd_point =
        count_list (evaluate_log two_gates_node) fd_point +
        (if (1 :: int) = 1 \<and> list_ex (\<lambda>km. snd km = Some GradF) ([(0, Some GradA),
            (1, Some GradF)] :: (nat \<times> grad_method option) list) then 1 else 0))"
    using finite_difference_columns [where P = "linear_plugin" and L = "qubit_library" and fp =
        "fd_point" and which = "None" and h = "fd_step" and fo = "None" and w = "two_gates_node" and
        order' = "(3 :: int)" and y0' = "None" and w' = "two_gates_node" and ?o5.0 = "(1 :: int)"
        and m = "MethodB" and pre = "([0] :: nat list)" and k = "(1 :: nat)" and post = "([] :: nat
        list)" and md = "([(0, Some GradA), (1, Some GradF)] :: (nat \<times> grad_method option)
        list)" and J = "([[pi], [1]] :: real list list)" and ?J2.0 = "([[pi], [1]] :: real list
        list)" and ?J5.0 = "([[pi], [1]] :: real list list)" and Jpre = "([[pi]] :: real list
        list)"]
      b1 b2 b3 b4 b5 b6 b7 b8 b9 b10 b11 b12 b13 b14 b15 b16 b17
    by blast
  show ?thesis using ac a2 a7 a16 bc b2 b7 b16 by blast
qed

section \<open>The parameter-shift rule\<close>

lemma val_append:
  "unnamed_not (length fp) (Var v) \<Longrightarrow> val (fp @ [x]) v = val fp v"
  by (auto simp: val_def nth_append split: option.splits)

lemma resolve_params_append:
  "list_all (unnamed_not (length fp)) ps \<Longrightarrow> resolve_params (fp @ [x]) ps = resolve_params fp ps"
proof (induction ps)
  case Nil
  then show ?case by simp
next
  case (Cons q qs)
  then have ih: "resolve_params (fp @ [x]) qs = resolve_params fp qs" by simp
  show ?case
  proof (cases q)
    case (Var v)
    then have "val (fp @ [x]) v = val fp v" using Cons.prems val_append [of fp v x] by simp
    then show ?thesis using Var ih by (simp split: sum.splits)
  qed (simp_all add: ih)
qed

lemma resolve_params_subst:
  assumes "p < length ps" and "ps ! p = Var orig" and "name orig = None"
    and "list_all (unnamed_not (length fp)) ps"
  shows "resolve_params (fp @ [x]) (ps[p := Var (orig\<lparr>idx := length fp\<rparr>)])
       = resolve_params fp (ps[p := Num (x * mult orig)])"
  using assms
proof (induction ps arbitrary: p)
  case Nil
  then show ?case by simp
next
  case (Cons q qs)
  show ?case
  proof (cases p)
    case 0
    then show ?thesis using Cons.prems resolve_params_append [of fp qs x]
      by (simp add: val_def)
  next
    case (Suc p')
    then have ih: "resolve_params (fp @ [x]) (qs[p' := Var (orig\<lparr>idx := length fp\<rparr>)])
       = resolve_params fp (qs[p' := Num (x * mult orig)])"
      using Cons by simp
    show ?thesis
    proof (cases q)
      case (Var v)
      then have "val (fp @ [x]) v = val fp v" using Cons.prems val_append [of fp v x] by simp
      then show ?thesis using Var ih Suc by (simp split: sum.splits)
    qed (simp_all add: ih Suc)
  qed
qed

lemma apply_all_same:
  "list_all2 (same_run f1 f2) os1 os2 \<Longrightarrow> apply_all P f1 os1 b = apply_all P f2 os2 b"
proof (induction os1 os2 arbitrary: b rule: list_all2_induct)
  case Nil
  then show ?case by simp
next
  case (Cons x xs y ys)
  then show ?case by (simp add: same_run_def split: sum.splits)
qed

lemma measure_all_same:
  "list_all2 (same_run f1 f2) os1 os2 \<Longrightarrow> measure_all P f1 os1 b = measure_all P f2 os2 b"
proof (induction os1 os2 rule: list_all2_induct)
  case Nil
  then show ?case by simp
next
  case (Cons x xs y ys)
  have sr: "op_name x = op_name y" "wires x = wires y" "return_type x = return_type y"
    "num_samples x = num_samples y" "resolve_params f1 (params x) = resolve_params f2 (params y)"
    using Cons.hyps(1) by (simp_all add: same_run_def)
  have ih: "measure_all P f1 xs b = measure_all P f2 ys b" by (rule Cons.IH)
  show ?case
  proof (cases "return_type y")
    case None
    then show ?thesis using sr ih by simp
  next
    case (Some rt)
    then show ?thesis using sr ih by (cases rt) (simp_all split: sum.splits option.splits)
  qed
qed

lemma names_same:
  "list_all2 (same_run f1 f2) q1 q2 \<Longrightarrow>
   list_ex (\<lambda>o'. op_name o' \<notin> S) q1 = list_ex (\<lambda>o'. op_name o' \<notin> S) q2"
  by (induction q1 q2 rule: list_all2_induct) (simp_all add: same_run_def)

lemma check_validity_same:
  "list_all2 (same_run f1 f2) q1 q2 \<Longrightarrow> list_all2 (same_run f1 f2) e1 e2 \<Longrightarrow>
   check_validity P q1 e1 = check_validity P q2 e2"
  using names_same [of f1 f2 q1 q2 "set (operations P)"]
    names_same [of f1 f2 e1 e2 "set (observables P)"]
  by (simp add: check_validity_def)

lemma run_device_same:
  "list_all2 (same_run f1 f2) q1 q2 \<Longrightarrow> list_all2 (same_run f1 f2) e1 e2 \<Longrightarrow>
   run_device P f1 q1 e1 b = run_device P f2 q2 e2 b"
  by (simp add: run_device_def apply_all_same [of f1 f2 q1 q2] measure_all_same [of f1 f2 e1 e2]
      split: sum.splits)


lemma circuit_value_subst:
  assumes a: "a < length (t_heap t)" and p: "p < length (params (t_heap t ! a))"
    and orig: "params (t_heap t ! a) ! p = Var orig" and nm: "name orig = None"
    and nt: "no_temp_index t (length fp)"
  shows "circuit_value P
           (t\<lparr>t_heap := (t_heap t)[a := (t_heap t ! a)\<lparr>params :=
                (params (t_heap t ! a))[p := Var (orig\<lparr>idx := length fp\<rparr>)]\<rparr>]\<rparr>) (fp @ [x]) b
       = circuit_value P (with_parameter t a p (x * mult orig)) fp b"
proof -
  let ?hp = "t_heap t"
  let ?h1 = "?hp[a := (?hp ! a)\<lparr>params := (params (?hp ! a))[p := Var (orig\<lparr>idx := length fp\<rparr>)]\<rparr>]"
  let ?h2 = "?hp[a := (?hp ! a)\<lparr>params := (params (?hp ! a))[p := Num (x * mult orig)]\<rparr>]"
  have w1: "wires (?h1 ! c) = wires (?hp ! c)" for c
    using a by (simp add: nth_list_update)
  have w2: "wires (?h2 ! c) = wires (?hp ! c)" for c
    using a by (simp add: nth_list_update)
  have sr: "same_run (fp @ [x]) fp (?h1 ! c) (?h2 ! c)"
    if "list_all (unnamed_not (length fp)) (params (?hp ! c))" for c
  proof (cases "c = a")
    case True
    then show ?thesis using a that resolve_params_subst [OF p orig nm, of fp x]
      by (simp add: same_run_def)
  next
    case False
    then show ?thesis using that resolve_params_append [of fp "params (?hp ! c)" x]
      by (simp add: same_run_def)
  qed
  have srl: "list_all2 (same_run (fp @ [x]) fp) (map (\<lambda>c. ?h1 ! c) cs) (map (\<lambda>c. ?h2 ! c) cs)"
    if "list_all (\<lambda>c. list_all (unnamed_not (length fp)) (params (?hp ! c))) cs" for cs
    using that by (induction cs) (simp_all add: sr)
  have q: "list_all2 (same_run (fp @ [x]) fp) (map (\<lambda>c. ?h1 ! c) (t_queue t)) (map (\<lambda>c. ?h2 ! c) (t_queue t))"
    and e: "list_all2 (same_run (fp @ [x]) fp) (map (\<lambda>c. ?h1 ! c) (t_ev t)) (map (\<lambda>c. ?h2 ! c) (t_ev t))"
    using nt by (simp_all add: no_temp_index_def srl)
  show ?thesis
    unfolding circuit_value_def with_parameter_def
    by (simp add: w1 w2 check_validity_same [OF q e, of P] run_device_same [OF q e, of P]
        cong: sum.case_cong)
qed

lemma eval_vec_value:
  assumes "num_variables w = Some n" and "length args \<noteq> n"
  shows "case circuit_value P (tape_of w) args (backend (device w)) of
           Inl e \<Rightarrow> fst (eval_vec P args w) = Inl e
         | Inr (y, b1) \<Rightarrow> eval_vec P args w = (Inr y, after_run w args b1)"
  using assms
  by (auto simp: eval_vec_def evaluate_def run_circuit_def execute_def circuit_value_def
      tape_of_def reset_device_def set_queues_def after_run_def Let_def
      split: sum.splits prod.splits option.splits)


lemma pd_sites_step:
  assumes "p_idx < length (params (heap w ! (ops w ! o_idx)))"
    and "params (heap w ! (ops w ! o_idx)) ! p_idx = Var orig" and "idx orig = k"
    and "mult orig \<noteq> 0"
    and "p_idx < length (grad_recipe (heap w ! (ops w ! o_idx)))" and "k < length fp"
    and "grad_method (heap w ! (ops w ! o_idx)) \<noteq> Some GradA2"
    and "ops w ! o_idx < length (heap w)"
  shows "pd_sites P L fp k False n wn ((o_idx, p_idx) # rest) acc w =
     (case eval_vec P (fp @ [fp ! k + snd (recipe_of (heap w ! (ops w ! o_idx)) p_idx) / mult orig])
              (set_param (ops w ! o_idx) p_idx (Var (orig\<lparr>idx := n\<rparr>)) w) of
        (Inl e, w2) \<Rightarrow> (Inl e, w2)
      | (Inr y2, w2) \<Rightarrow>
         (case eval_vec P (fp @ [fp ! k - snd (recipe_of (heap w ! (ops w ! o_idx)) p_idx) / mult orig]) w2 of
            (Inl e, w3) \<Rightarrow> (Inl e, w3)
          | (Inr y1, w3) \<Rightarrow>
             pd_sites P L fp k False n wn rest
               (nd_add acc (map (\<lambda>d. d * (fst (recipe_of (heap w ! (ops w ! o_idx)) p_idx) * mult orig))
                  (map2 (-) y2 y1)))
               (set_param (ops w ! o_idx) p_idx (Var orig) w3)))"
  using assms
  by (simp add: Let_def set_param_def eval_vec_def recipe_of_def
      split: option.splits prod.splits sum.splits)

lemma set_param_restore:
  assumes "a < length (heap w)" and "p < length (params (heap w ! a))"
    and "params (heap w ! a) ! p = v" and "heap w' = heap (set_param a p v' w)"
  shows "heap (set_param a p v w') = heap w"
proof -
  have "(params (heap w ! a))[p := v] = params (heap w ! a)"
    using assms(2,3) by (simp add: list_update_same_conv)
  then show ?thesis using assms(1,4)
    by (simp add: set_param_def list_update_same_conv)
qed


lemma tape_of_set_param:
  "tape_of (set_param a p v w) =
     (tape_of w)\<lparr>t_heap := (heap w)[a := (heap w ! a)\<lparr>params := (params (heap w ! a))[p := v]\<rparr>]\<rparr>"
  by (simp add: tape_of_def set_param_def)

lemma tape_of_after_run [simp]: "tape_of (after_run w args b) = tape_of w"
  by (simp add: tape_of_def after_run_def)

lemma pd_sites_shift_rule:
  assumes "num_variables w = Some (length fp)" and "k < length fp"
    and "list_all (site_ok (tape_of w) k) sites" and "no_temp_index (tape_of w) (length fp)"
  shows "fst (pd_sites P L fp k False (length fp) wn sites acc w) =
           shift_rule_sum P (tape_of w) fp k sites acc (backend (device w)) \<and>
         (\<forall>pd. fst (pd_sites P L fp k False (length fp) wn sites acc w) = Inr pd \<longrightarrow>
            heap (snd (pd_sites P L fp k False (length fp) wn sites acc w)) = heap w)"
  using assms
proof (induction sites arbitrary: acc w)
  case Nil
  then show ?case by simp
next
  case (Cons site rest)
  obtain o_idx p_idx where site: "site = (o_idx, p_idx)" by (cases site)
  let ?a = "ops w ! o_idx"
  let ?n = "length fp"
  have ok: "site_ok (tape_of w) k (o_idx, p_idx)" and okr: "list_all (site_ok (tape_of w) k) rest"
    using Cons.prems(3) site by simp_all
  have a: "?a < length (heap w)" and p: "p_idx < length (params (heap w ! ?a))"
    and gr: "p_idx < length (grad_recipe (heap w ! ?a))"
    and gm: "grad_method (heap w ! ?a) \<noteq> Some GradA2"
    and sp: "site_param_ok k (params (heap w ! ?a) ! p_idx)"
    using ok by (simp_all add: site_ok_def tape_of_def)
  obtain orig where orig: "params (heap w ! ?a) ! p_idx = Var orig"
    using sp by (cases "params (heap w ! ?a) ! p_idx") simp_all
  have io: "idx orig = k" and nm: "name orig = None" and mu: "mult orig \<noteq> 0"
    using sp orig by simp_all
  let ?s = "snd (recipe_of (heap w ! ?a) p_idx)"
  let ?c = "fst (recipe_of (heap w ! ?a) p_idx)"
  let ?w1 = "set_param ?a p_idx (Var (orig\<lparr>idx := ?n\<rparr>)) w"
  let ?x2 = "fp ! k + ?s / mult orig"
  let ?x1 = "fp ! k - ?s / mult orig"
  let ?t = "tape_of w"
  have th: "t_heap ?t = heap w" by (simp add: tape_of_def)
  have tops: "t_ops ?t = ops w" by (simp add: tape_of_def)
  have step: "pd_sites P L fp k False ?n wn (site # rest) acc w =
     (case eval_vec P (fp @ [?x2]) ?w1 of
        (Inl e, w2) \<Rightarrow> (Inl e, w2)
      | (Inr y2, w2) \<Rightarrow>
         (case eval_vec P (fp @ [?x1]) w2 of
            (Inl e, w3) \<Rightarrow> (Inl e, w3)
          | (Inr y1, w3) \<Rightarrow>
             pd_sites P L fp k False ?n wn rest
               (nd_add acc (map (\<lambda>d. d * (?c * mult orig)) (map2 (-) y2 y1)))
               (set_param ?a p_idx (Var orig) w3)))"
    unfolding site
    by (rule pd_sites_step [OF p orig io mu gr Cons.prems(2) gm a])
  have sub: "circuit_value P (tape_of ?w1) (fp @ [x]) b =
      circuit_value P (with_parameter ?t ?a p_idx (x * mult orig)) fp b" for x b
    using circuit_value_subst [of ?a ?t p_idx orig fp P x b] a p orig nm Cons.prems(4) th
    by (simp add: tape_of_set_param)
  have nv1: "num_variables ?w1 = Some ?n" using Cons.prems(1) by (simp add: set_param_def)
  have d1: "device ?w1 = device w" by (simp add: set_param_def)
  have spec: "shift_rule_sum P ?t fp k (site # rest) acc (backend (device w)) =
     (case circuit_value P (with_parameter ?t ?a p_idx (?x2 * mult orig)) fp (backend (device w)) of
        Inl e \<Rightarrow> Inl e
      | Inr (y_plus, b1) \<Rightarrow>
         (case circuit_value P (with_parameter ?t ?a p_idx (?x1 * mult orig)) fp b1 of
            Inl e \<Rightarrow> Inl e
          | Inr (y_minus, b2) \<Rightarrow>
             shift_rule_sum P ?t fp k rest
               (nd_add acc (map (\<lambda>d. d * ?c * mult orig) (map2 (-) y_plus y_minus))) b2))"
    unfolding site shift_rule_sum.simps Let_def th tops orig slot.simps ..
  show ?case
  proof (cases "circuit_value P (with_parameter ?t ?a p_idx (?x2 * mult orig)) fp (backend (device w))")
    case (Inl e)
    have "fst (eval_vec P (fp @ [?x2]) ?w1) = Inl e"
      using eval_vec_value [OF nv1, of "fp @ [?x2]" P] sub [of ?x2 "backend (device w)"] Inl d1
      by simp
    then have "fst (pd_sites P L fp k False ?n wn (site # rest) acc w) = Inl e"
      unfolding step by (cases "eval_vec P (fp @ [?x2]) ?w1") auto
    then show ?thesis using spec Inl by simp
  next
    case (Inr yb)
    obtain y2 b1 where yb: "yb = (y2, b1)" by (cases yb)
    let ?w2 = "after_run ?w1 (fp @ [?x2]) b1"
    have e2: "eval_vec P (fp @ [?x2]) ?w1 = (Inr y2, ?w2)"
      using eval_vec_value [OF nv1, of "fp @ [?x2]" P] sub [of ?x2 "backend (device w)"] Inr yb d1
      by simp
    have nv2: "num_variables ?w2 = Some ?n" using nv1 by (simp add: after_run_def)
    have b2: "backend (device ?w2) = b1" by (simp add: after_run_def)
    show ?thesis
    proof (cases "circuit_value P (with_parameter ?t ?a p_idx (?x1 * mult orig)) fp b1")
      case (Inl e)
      have "fst (eval_vec P (fp @ [?x1]) ?w2) = Inl e"
        using eval_vec_value [OF nv2, of "fp @ [?x1]" P] sub [of ?x1 b1] Inl b2
        by simp
      then have "fst (pd_sites P L fp k False ?n wn (site # rest) acc w) = Inl e"
        unfolding step by (cases "eval_vec P (fp @ [?x1]) ?w2") (auto simp: e2)
      then show ?thesis using spec Inr yb Inl by simp
    next
      case (Inr yb')
      obtain y1 b2' where yb': "yb' = (y1, b2')" by (cases yb')
      let ?w3 = "after_run ?w2 (fp @ [?x1]) b2'"
      let ?w4 = "set_param ?a p_idx (Var orig) ?w3"
      let ?acc = "nd_add acc (map (\<lambda>d. d * (?c * mult orig)) (map2 (-) y2 y1))"
      have e1: "eval_vec P (fp @ [?x1]) ?w2 = (Inr y1, ?w3)"
        using eval_vec_value [OF nv2, of "fp @ [?x1]" P] sub [of ?x1 b1] Inr yb' b2
        by simp
      have st: "pd_sites P L fp k False ?n wn (site # rest) acc w =
          pd_sites P L fp k False ?n wn rest ?acc ?w4"
        unfolding step by (simp add: e2 e1)
      have h3: "heap ?w3 = heap ?w1" by (simp add: after_run_def)
      have h4: "heap ?w4 = heap w"
        by (rule set_param_restore [OF a p orig h3])
      have t4: "tape_of ?w4 = tape_of w"
        using h4 by (simp add: tape_of_def set_param_def after_run_def)
      have nv4: "num_variables ?w4 = Some ?n" using nv2 by (simp add: set_param_def after_run_def)
      have b4: "backend (device ?w4) = b2'" by (simp add: set_param_def after_run_def)
      have ih: "fst (pd_sites P L fp k False ?n wn rest ?acc ?w4) =
           shift_rule_sum P (tape_of w) fp k rest ?acc b2' \<and>
         (\<forall>pd. fst (pd_sites P L fp k False ?n wn rest ?acc ?w4) = Inr pd \<longrightarrow>
            heap (snd (pd_sites P L fp k False ?n wn rest ?acc ?w4)) = heap w)"
        using Cons.IH [of ?w4 ?acc] nv4 Cons.prems(2) okr Cons.prems(4) t4 b4 h4 by simp
      have assoc: "(\<lambda>d. d * ?c * mult orig) = (\<lambda>d. d * (?c * mult orig))"
        by (simp add: mult.assoc)
      show ?thesis using st ih spec \<open>circuit_value P (with_parameter ?t ?a p_idx (?x2 * mult orig)) fp (backend (device w)) = Inr yb\<close>
          yb Inr yb' assoc by simp
    qed
  qed
qed



lemma evaluate_shared_node:
  "evaluate linear_plugin [1 / 2] (example_node circuit_shared 1 True) = (Inr [Val (3 / 2)], shared_node)"
  by (simp add: eval_defs example_node_def QNode_init_def Device_init_def circuit_shared_def
      linear_plugin_def Rot_def RX_def PauliZ_def shared_node_def v0_def)


text \<open>When \<^verbatim>\<open>_pd_analytic\<close> returns, the object store is as it was: every
  substituted parameter is back in its slot.\<close>

lemma pd_analytic_restores:
  assumes "num_variables w = Some (length fp)" and "k < length fp"
    and "map_of (variable_ops w) k = Some sites"
    and "list_all (site_ok (tape_of w) k) sites" and "no_temp_index (tape_of w) (length fp)"
    and "fst (pd_analytic P L fp k False w) = Inr pd"
  shows "heap (snd (pd_analytic P L fp k False w)) = heap w"
  using pd_sites_shift_rule [OF assms(1,2,4,5), of P L "num_wires w" "Scalar 0"] assms(1,3,6)
  by (simp add: pd_analytic_def)

section \<open>Errors during the parameter-shift rule\<close>

lemmas jac_defs = jacobian_def check_which_def check_method_def method_dict_def compute_y0_def
  pd_analytic_def set_param_def pd_analytic_var_def np_where_def

text \<open>
  C1 (the code departs from the claim). A \<^verbatim>\<open>jacobian\<close> call that ends by an error
  raised inside \<^verbatim>\<open>_pd_analytic\<close> leaves the temporary Variable of index
  \<^verbatim>\<open>num_variables\<close> in \<^verbatim>\<open>op.params[p]\<close>: the restoring assignment of line 890
  is not reached (lemma \<open>pd_analytic_restores\<close> covers the calls that return). First
  conjuncts: the circuit with the invalid wire, where \<^verbatim>\<open>evaluate\<close> raises
  \<^verbatim>\<open>QuantumFunctionError\<close> at the first shifted evaluation; the gate that was
  constructed with the Variable of index 0 holds the Variable of index 1 afterwards. Last
  conjuncts: on a cached node that evaluates at \<open>[1 / 2]\<close>, a device error during the
  shifted evaluation leaves the node unable to evaluate at \<open>[1 / 2]\<close> again.
\<close>

theorem jacobian_error_keeps_substitution:
  "fst (jacobian linear_plugin qubit_library [1 / 2] None MethodB (1 / 10 ^ 7) 1 None
          (example_node circuit_bad_wire 2 True)) = Inl QuantumFunctionError \<and>
   params (heap (snd (jacobian linear_plugin qubit_library [1 / 2] None MethodB (1 / 10 ^ 7) 1 None
          (example_node circuit_bad_wire 2 True))) ! 0) = [Var \<lparr>idx = 1, name = None, mult = 1\<rparr>] \<and>
   params (heap (snd (construct [1 / 2] (example_node circuit_bad_wire 2 True))) ! 0) =
     [Var \<lparr>idx = 0, name = None, mult = 1\<rparr>] \<and>
   fst (evaluate bounded_plugin [1 / 2] shared_node) = Inr [Val (3 / 2)] \<and>
   fst (jacobian bounded_plugin qubit_library [1 / 2] None MethodB (1 / 10 ^ 7) 1 None shared_node)
     = Inl DeviceError \<and>
   fst (evaluate bounded_plugin [1 / 2]
     (snd (jacobian bounded_plugin qubit_library [1 / 2] None MethodB (1 / 10 ^ 7) 1 None shared_node)))
     = Inl IndexError"
proof -
  have a: "fst (jacobian linear_plugin qubit_library [1 / 2] None MethodB (1 / 10 ^ 7) 1 None
          (example_node circuit_bad_wire 2 True)) = Inl QuantumFunctionError \<and>
   params (heap (snd (jacobian linear_plugin qubit_library [1 / 2] None MethodB (1 / 10 ^ 7) 1 None
          (example_node circuit_bad_wire 2 True))) ! 0) = [Var \<lparr>idx = 1, name = None, mult = 1\<rparr>] \<and>
   params (heap (snd (construct [1 / 2] (example_node circuit_bad_wire 2 True))) ! 0) =
     [Var \<lparr>idx = 0, name = None, mult = 1\<rparr>]"
    by (simp add: jac_defs eval_defs example_node_def QNode_init_def Device_init_def
        circuit_bad_wire_def linear_plugin_def RX_def PauliZ_def CNOT_def)
  have b: "fst (evaluate bounded_plugin [1 / 2] shared_node) = Inr [Val (3 / 2)] \<and>
   fst (jacobian bounded_plugin qubit_library [1 / 2] None MethodB (1 / 10 ^ 7) 1 None shared_node)
     = Inl DeviceError \<and>
   fst (evaluate bounded_plugin [1 / 2]
     (snd (jacobian bounded_plugin qubit_library [1 / 2] None MethodB (1 / 10 ^ 7) 1 None shared_node)))
     = Inl IndexError"
    by (simp add: jac_defs eval_defs shared_node_def bounded_plugin_def linear_plugin_def Rot_def
        RX_def PauliZ_def v0_def)
  show ?thesis using a b by simp
qed

section \<open>The method chosen for the second parameter of a gate\<close>

text \<open>
  C5 (the code departs from the claim). The assignment \<^verbatim>\<open>op.grad_method = 'A2'\<close>
  (line 502) changes the attribute that \<^verbatim>\<open>best_for_op\<close> reads as the hint of the
  operation. In the circuit \<^verbatim>\<open>Displacement(a, phi, wires=0); return expval(N)\<close>, with
  \<open>N\<close> of second order, the gate is the only operation that depends on either parameter;
  it is CV, was constructed with \<^verbatim>\<open>grad_method = 'A'\<close>, has no successor gate, and its
  only successor observable is an expectation. For the parameter 0 \<^verbatim>\<open>best_for_op\<close>
  returns \<^verbatim>\<open>'A'\<close>; for the parameter 1 the second call for the same gate reads
  \<^verbatim>\<open>'A2'\<close> and returns it through the last line (commented \<^verbatim>\<open>'F' or None\<close>), so
  that \<^verbatim>\<open>grad_method_for_par\<close> is \<^verbatim>\<open>{0: 'A', 1: 'F'}\<close>, and
  \<^verbatim>\<open>jacobian(..., method='A')\<close> raises \<^verbatim>\<open>ValueError\<close>.
\<close>

theorem best_method_second_parameter:
  "fst (construct [1 / 2, 1 / 4] (example_node circuit_displacement 1 False)) = Inr () \<and>
   variable_ops (snd (construct [1 / 2, 1 / 4] (example_node circuit_displacement 1 False))) =
     [(0, [(0, 0)]), (1, [(0, 1)])] \<and>
   grad_method_for_par (snd (construct [1 / 2, 1 / 4] (example_node circuit_displacement 1 False))) =
     [(0, Some GradA), (1, Some GradF)] \<and>
   fst (jacobian linear_plugin qubit_library [1 / 2, 1 / 4] None MethodA (1 / 10 ^ 7) 1 None
          (example_node circuit_displacement 1 False)) = Inl ValueError"
proof -
  have c: "fst (construct [1 / 2, 1 / 4] (example_node circuit_displacement 1 False)) = Inr () \<and>
   variable_ops (snd (construct [1 / 2, 1 / 4] (example_node circuit_displacement 1 False))) =
     [(0, [(0, 0)]), (1, [(0, 1)])] \<and>
   grad_method_for_par (snd (construct [1 / 2, 1 / 4] (example_node circuit_displacement 1 False))) =
     [(0, Some GradA), (1, Some GradF)]"
    by code_simp
  have j: "fst (jacobian linear_plugin qubit_library [1 / 2, 1 / 4] None MethodA (1 / 10 ^ 7) 1 None
          (example_node circuit_displacement 1 False)) = Inl ValueError"
    by (simp add: jac_defs eval_defs example_node_def QNode_init_def Device_init_def
        circuit_displacement_def Displacement_def cv_observable_def op_successors_def sites_of_def)
  show ?thesis using c j by simp
qed

section \<open>The variance rule\<close>

lemmas var_defs = jac_defs eval_defs example_node_def QNode_init_def Device_init_def
  linear_plugin_def Rot_def RX_def PauliZ_def Hermitian_def is_square_def matmul_def
  identity_def allclose_def

text \<open>With the variance of \<open>A = diag(2, 0)\<close> as the only output, the column is
  \<open>d\<langle>A\<^sup>2\<rangle> - 2 \<langle>A\<rangle> d\<langle>A\<rangle> = 4 - 2 * 1 * 2\<close>.\<close>

lemma variance_rule_one_variance:
  "fst (jacobian linear_plugin qubit_library [1 / 2] None MethodB (1 / 10 ^ 7) 1 None
          (example_node circuit_one_variance 2 False)) = Inr [[0]]"
  by (simp add: var_defs circuit_one_variance_def)

text \<open>
  C4 (the code departs from the claim). With two variances returned, the first of an
  observable \<open>A = diag(2, 0)\<close> that is not involutory and the second of Pauli-Z, the
  entry for the first observable is not \<open>d\<langle>A\<^sup>2\<rangle> - 2 \<langle>A\<rangle> d\<langle>A\<rangle>\<close>:
  \<^verbatim>\<open>pdA2\<close> is one variable, assigned anew for every variance observable of the loop,
  and only what the last one (here \<open>0\<close>, for Pauli-Z) leaves in it enters the result. On
  the linear device at \<open>[1 / 2]\<close>: \<open>d\<langle>A\<^sup>2\<rangle> = 4\<close>, \<open>\<langle>A\<rangle> = 1\<close>,
  \<open>d\<langle>A\<rangle> = 2\<close> (second to fourth conjunct), so the entry should be \<open>0\<close>, as it
  is when the variance of \<open>A\<close> is the only output; \<^verbatim>\<open>jacobian\<close> returns \<open>- 4\<close>.
\<close>

theorem variance_rule_two_variances:
  "fst (jacobian linear_plugin qubit_library [1 / 2] None MethodB (1 / 10 ^ 7) 1 None
          (example_node circuit_two_variances 2 False)) = Inr [[- 4, - 1]] \<and>
   fst (jacobian linear_plugin qubit_library [1 / 2] None MethodB (1 / 10 ^ 7) 1 None
          (example_node (circuit_expectations [[4, 0], [0, 0]]) 2 False)) = Inr [[4, 1]] \<and>
   fst (evaluate linear_plugin [1 / 2]
          (example_node (circuit_expectations [[2, 0], [0, 0]]) 2 False)) = Inr [Val 1, Val (1 / 2)] \<and>
   fst (jacobian linear_plugin qubit_library [1 / 2] None MethodB (1 / 10 ^ 7) 1 None
          (example_node (circuit_expectations [[2, 0], [0, 0]]) 2 False)) = Inr [[2, 1]] \<and>
   matmul [[2, 0], [0, 0]] [[2, 0], [0, 0]] = [[4, 0], [0, 0]]"
proof -
  have 1: "fst (jacobian linear_plugin qubit_library [1 / 2] None MethodB (1 / 10 ^ 7) 1 None
          (example_node circuit_two_variances 2 False)) = Inr [[- 4, - 1]]"
    by (simp add: var_defs circuit_two_variances_def)
  have 2: "fst (jacobian linear_plugin qubit_library [1 / 2] None MethodB (1 / 10 ^ 7) 1 None
          (example_node (circuit_expectations [[4, 0], [0, 0]]) 2 False)) = Inr [[4, 1]]"
    by (simp add: var_defs circuit_expectations_def)
  have 3: "fst (evaluate linear_plugin [1 / 2]
          (example_node (circuit_expectations [[2, 0], [0, 0]]) 2 False)) = Inr [Val 1, Val (1 / 2)]"
    by (simp add: var_defs circuit_expectations_def)
  have 4: "fst (jacobian linear_plugin qubit_library [1 / 2] None MethodB (1 / 10 ^ 7) 1 None
          (example_node (circuit_expectations [[2, 0], [0, 0]]) 2 False)) = Inr [[2, 1]]"
    by (simp add: var_defs circuit_expectations_def)
  have 5: "matmul [[2, 0], [0, 0]] [[2, 0], [0, 0]] = [[4 :: real, 0], [0, 0]]"
    by (simp add: matmul_def)
  show ?thesis using 1 2 3 4 5 by simp
qed

end
